theory Spec2Isabelle
  imports Complex_Main "HOL-Library.AList"
begin

section \<open>Data model shared by the compiler and the decompiler\<close>

text \<open>
  JavaScript values that travel through the pipeline as default values of variables:
  \<open>undefined\<close>/\<open>null\<close>, numbers, strings, booleans and arrays.
\<close>

datatype jsval = Undefined | Num real | Str string | Bool bool | Arr "jsval list"

text \<open>\<open>Array.isArray(v)\<close>.\<close>

fun isArray :: "jsval \<Rightarrow> bool" where
  "isArray (Arr xs) = True"
| "isArray v = False"

text \<open>\<open>v ?? d\<close>: the left operand unless it is \<open>undefined\<close> or \<open>null\<close>.\<close>

fun nullish :: "jsval \<Rightarrow> jsval \<Rightarrow> jsval" where
  "nullish Undefined d = d"
| "nullish v d = v"

text \<open>
  A \<open>Variable\<close> object of the compiler: \<open>{ type, name, isGlobal, exportName }\<close>.
  The type is the string the code compares with \<open>'list'\<close>.
\<close>

record variable =
  var_type :: string
  var_name :: string
  var_isGlobal :: bool
  var_exportName :: "string option"

text \<open>
  A JavaScript \<open>Map\<close> with string keys, and a plain object used as a table, are both
  association lists in insertion order. \<open>Map.prototype.set\<close> and the assignment
  \<open>obj[k] = v\<close> are \<open>AList.update\<close>: the value of an existing key is replaced where
  it stands, a new key goes to the end. (Integer-like property names, which an object
  enumerates first, are not distinguished.)
\<close>

type_synonym 'v js_map = "(string \<times> 'v) list"

type_synonym var_map = "(variable \<times> jsval) js_map"

definition keys :: "'v js_map \<Rightarrow> string list" where
  "keys m = map fst m"


text \<open>\<open>new Map(entries)\<close>: the entries are set one after the other.\<close>

fun new_Map_from :: "'v js_map \<Rightarrow> (string \<times> 'v) list \<Rightarrow> 'v js_map" where
  "new_Map_from m [] = m"
| "new_Map_from m ((k, v) # es) = new_Map_from (AList.update k v m) es"

definition new_Map :: "(string \<times> 'v) list \<Rightarrow> 'v js_map" where
  "new_Map es = new_Map_from [] es"

section \<open>The compiler: \<open>src/bin/compiler.js\<close>\<close>

subsection \<open>Collaborators and effects\<close>

text \<open>
  A workspace is either the empty object \<open>{}\<close> that \<open>compileScript\<close> returns for a
  target without entry script, or what \<open>mergeWorkspaces\<close> returned.
\<close>

datatype 'w workspace = EmptyWorkspace | Workspace 'w

text \<open>
  The \<open>ModuleInfo\<close> handed to \<open>new Context(module, ...)\<close>. Its \<open>parent\<close> is always
  \<open>null\<close> and its \<open>functions\<close> and \<open>externs\<close> are always fresh empty maps; they are
  left out.
\<close>

record 'm module_info =
  mod_name :: string
  mod_variables :: var_map
  mod_children :: 'm
  mod_filename :: string

text \<open>
  What \<open>context.compile(program)\<close> resolves to: \<open>result.variables.values()\<close> in order,
  and \<open>result.functions\<close> with \<open>result.scripts\<close> as one opaque value.
\<close>

record 'c compile_result =
  result_variables :: "(variable \<times> jsval) list"
  result_code :: 'c

text \<open>
  Everything \<open>compiler.js\<close> imports or reads from its surroundings. A thrown exception
  is \<open>Inl\<close> with its message; \<open>readFileSync\<close> throws where the file system has no
  such file.
  \<^item> \<open>parse\<close> is \<open>new Parser(new Lexer(source)).parse()\<close>;
  \<^item> \<open>compile\<close> is \<open>new Context(module, {importResolver}).compile(program)\<close>;
  \<^item> \<open>serialize\<close> is \<open>mergeWorkspaces(...functions.map(serializeFunction),
    ...scripts.map(serializeScript))\<close>;
  \<^item> \<open>uid\<close> gives the identifier returned by the \<open>n\<close>-th call of \<open>uid()\<close>;
  \<^item> \<open>md5Bytes\<close> is the hexadecimal MD5 digest computed by node-forge.
\<close>

record ('p, 'm, 'c, 'w) compiler_env =
  inputDir :: string
  isAbsolute :: "string \<Rightarrow> bool"
  join :: "string \<Rightarrow> string \<Rightarrow> string"
  extname :: "string \<Rightarrow> string"
  readFileSync :: "string \<Rightarrow> string option"
  parse :: "string \<Rightarrow> string + 'p"
  compile :: "'p \<Rightarrow> 'm module_info \<Rightarrow> string + 'c compile_result"
  serialize :: "'c \<Rightarrow> string + 'w"
  uid :: "nat \<Rightarrow> string"
  md5Bytes :: "string \<Rightarrow> string"

text \<open>
  The observable effects of a run: the paths given to \<open>fs.readFileSync\<close>, the module
  (file name and combined scope) of every call of the compiler, and the lines printed
  with \<open>console.log\<close>.
\<close>

record effects =
  fs_reads :: "string list"
  compile_calls :: "(string \<times> var_map) list"
  console :: "string list"

datatype error =
  ScriptError string string
| AssetError string
| TypeError string

text \<open>\<open>path.isAbsolute(p) ? p : path.join(inputDir, p)\<close>.\<close>

definition fullPathOf :: "('p, 'm, 'c, 'w) compiler_env \<Rightarrow> string \<Rightarrow> string" where
  "fullPathOf env p = (if isAbsolute env p then p else join env (inputDir env) p)"

subsection \<open>\<open>compileScript\<close>\<close>

text \<open>
  The combined scope: \<open>new Map([...stageVariables entries, ...variables entries])\<close>,
  where a \<open>null\<close> stage table contributes nothing.
\<close>

definition combinedVariables :: "var_map option \<Rightarrow> var_map \<Rightarrow> var_map" where
  "combinedVariables stageVariables variables =
     new_Map ((case stageVariables of None \<Rightarrow> [] | Some sv \<Rightarrow> sv) @ variables)"

text \<open>
  The stage's loop over the discovered variables: each is marked global and set in
  \<open>variables\<close>, which for the stage is the table of globals.
\<close>

fun collectStage :: "(variable \<times> jsval) list \<Rightarrow> var_map \<Rightarrow> var_map" where
  "collectStage [] variables = variables"
| "collectStage ((v, d) # rest) variables =
     collectStage rest
       (AList.update (var_name v) (v\<lparr>var_isGlobal := True\<rparr>, d) variables)"

text \<open>
  A sprite's loop: a variable declared global is set in \<open>stageVariables\<close>, any other in
  the sprite's own \<open>variables\<close>.
\<close>

fun collectSprite ::
  "(variable \<times> jsval) list \<Rightarrow> var_map \<Rightarrow> var_map \<Rightarrow> var_map \<times> var_map" where
  "collectSprite [] stageVariables variables = (stageVariables, variables)"
| "collectSprite ((v, d) # rest) stageVariables variables =
     (if var_isGlobal v
      then collectSprite rest (AList.update (var_name v) (v, d) stageVariables) variables
      else collectSprite rest stageVariables (AList.update (var_name v) (v, d) variables))"

text \<open>
  \<open>compileScript(entry, baseModuleDefinition, stageVariables, variables)\<close>. The two maps
  are mutated in place by the code; the model returns them. \<open>!entry\<close> holds for a
  missing entry and for the empty string. An exception leaves the function (after the
  \<open>console.error\<close> of the \<open>catch\<close>) and ends the run, so no state is returned with it.
\<close>

definition compileScript ::
  "('p, 'm, 'c, 'w) compiler_env \<Rightarrow> string option \<Rightarrow> 'm \<Rightarrow> var_map option \<Rightarrow> var_map \<Rightarrow>
     effects \<Rightarrow> error + ('w workspace \<times> var_map option \<times> var_map \<times> effects)" where
  "compileScript env entry baseModuleDefinition stageVariables variables eff =
     (if entry = None \<or> entry = Some [] then Inr (EmptyWorkspace, stageVariables, variables, eff)
      else
        (let fullPath = fullPathOf env (the entry);
             eff1 = eff\<lparr>fs_reads := fs_reads eff @ [fullPath]\<rparr>
         in (case readFileSync env fullPath of
               None \<Rightarrow> Inl (ScriptError fullPath ''ENOENT'')
             | Some sourceCode \<Rightarrow>
                 (case parse env sourceCode of
                    Inl msg \<Rightarrow> Inl (ScriptError fullPath msg)
                  | Inr program \<Rightarrow>
                      (let combined = combinedVariables stageVariables variables;
                           module = \<lparr>mod_name = [], mod_variables = combined,
                                     mod_children = baseModuleDefinition,
                                     mod_filename = fullPath\<rparr>;
                           eff2 = eff1\<lparr>compile_calls :=
                                    compile_calls eff1 @ [(fullPath, combined)]\<rparr>
                       in (case compile env program module of
                             Inl msg \<Rightarrow> Inl (ScriptError fullPath msg)
                           | Inr result \<Rightarrow>
                               (let (stageVariables', variables') =
                                      (case stageVariables of
                                         None \<Rightarrow>
                                           (None, collectStage (result_variables result) variables)
                                       | Some sv \<Rightarrow>
                                           (case collectSprite (result_variables result) sv variables of
                                              (sv', vs') \<Rightarrow> (Some sv', vs')))
                                in (case serialize env (result_code result) of
                                      Inl msg \<Rightarrow> Inl (ScriptError fullPath msg)
                                    | Inr ws \<Rightarrow>
                                        Inr (Workspace ws, stageVariables', variables',
                                             eff2)))))))))"

subsection \<open>The project description\<close>

text \<open>
  The YAML document after schema validation. The schema gives types but requires only
  \<open>stage\<close>, \<open>targets\<close> and a target's \<open>name\<close>, so every other field may be absent.
\<close>

record asset_decl =
  asset_path :: "string option"
  asset_name :: "string option"
  asset_x :: "real option"
  asset_y :: "real option"

record sound_decl =
  sound_path :: "string option"
  sound_name :: "string option"

record stage_config =
  st_currentBackdrop :: "real option"
  st_tempo :: "real option"
  st_volume :: "real option"
  st_backdrops :: "asset_decl list option"
  st_sounds :: "sound_decl list option"
  st_entry :: "string option"

record sprite_config =
  sp_name :: string
  sp_currentCostume :: "real option"
  sp_rotationStyle :: "string option"
  sp_layerOrder :: "real option"
  sp_visible :: "bool option"
  sp_x :: "real option"
  sp_y :: "real option"
  sp_size :: "real option"
  sp_direction :: "real option"
  sp_draggable :: "bool option"
  sp_tempo :: "real option"
  sp_volume :: "real option"
  sp_costumes :: "asset_decl list option"
  sp_sounds :: "sound_decl list option"
  sp_entry :: "string option"

subsection \<open>Compiling the stage, then the sprites in order\<close>

definition say :: "string \<Rightarrow> effects \<Rightarrow> effects" where
  "say line eff = eff\<lparr>console := console eff @ [line]\<rparr>"

text \<open>
  The loop \<open>for (const target of inputJson.targets)\<close>: every sprite starts from a fresh
  empty \<open>spriteVariables\<close> and shares the one \<open>stageVariables\<close> map, which the call
  may have extended.
\<close>

fun compileSprites ::
  "('p, 'm, 'c, 'w) compiler_env \<Rightarrow> 'm \<Rightarrow> var_map \<Rightarrow> sprite_config list \<Rightarrow> effects \<Rightarrow>
     error + ((sprite_config \<times> 'w workspace \<times> var_map) list \<times> var_map \<times> effects)" where
  "compileSprites env base stageVariables [] eff = Inr ([], stageVariables, eff)"
| "compileSprites env base stageVariables (target # rest) eff =
     (case compileScript env (sp_entry target) base (Some stageVariables) []
             (say (''Compiling sprite: '' @ sp_name target) eff) of
        Inl err \<Rightarrow> Inl err
      | Inr (spriteWorkspace, sv, spriteVariables, eff1) \<Rightarrow>
          (case compileSprites env base
                  (case sv of None \<Rightarrow> stageVariables | Some g \<Rightarrow> g) rest eff1 of
             Inl err \<Rightarrow> Inl err
           | Inr (targets, g, eff2) \<Rightarrow>
               Inr ((target, spriteWorkspace, spriteVariables) # targets, g, eff2)))"

text \<open>
  The first part of the main function: the stage is compiled with \<open>null\<close> for
  \<open>stageVariables\<close> and the fresh table of globals for \<open>variables\<close>, then the sprites.
\<close>

record 'w compiled =
  stageWorkspace :: "'w workspace"
  stageVariables :: var_map
  targets :: "(sprite_config \<times> 'w workspace \<times> var_map) list"
  run_effects :: effects

definition compileTargets ::
  "('p, 'm, 'c, 'w) compiler_env \<Rightarrow> 'm \<Rightarrow> stage_config \<Rightarrow> sprite_config list \<Rightarrow>
     error + 'w compiled" where
  "compileTargets env base stage sprites =
     (case compileScript env (st_entry stage) base None []
             (say ''Compiling stage...'' \<lparr>fs_reads = [], compile_calls = [], console = []\<rparr>) of
        Inl err \<Rightarrow> Inl err
      | Inr (ws, _, globals, eff1) \<Rightarrow>
          (case compileSprites env base globals sprites eff1 of
             Inl err \<Rightarrow> Inl err
           | Inr (ts, globals', eff2) \<Rightarrow>
               Inr \<lparr>stageWorkspace = ws, stageVariables = globals', targets = ts,
                    run_effects = eff2\<rparr>))"

subsection \<open>Assets\<close>

text \<open>The fixed empty transparent image.\<close>

definition EMPTY_SVG :: string where
  \<open>EMPTY_SVG = ''<svg version="1.1" xmlns="http://www.w3.org/2000/svg" xmlns:xlink="http://www.w3.org/1999/xlink" width="1" height="1"><rect width="1" height="1" fill="transparent"/></svg>''\<close>

record asset_info =
  info_assetId :: string
  info_md5ext :: string
  info_dataFormat :: string

text \<open>
  The state of the second part of the main function: the files of the \<open>jszip\<close>
  archive (\<open>zip.file(name, data)\<close> replaces a file of the same name), the number of
  identifiers \<open>uid()\<close> has handed out, and the asset paths read so far.
\<close>

record build_state =
  zip :: "string js_map"
  uid_calls :: nat
  asset_reads :: "string list"

definition zip_file :: "string \<Rightarrow> string \<Rightarrow> build_state \<Rightarrow> build_state" where
  "zip_file name data st = st\<lparr>zip := AList.update name data (zip st)\<rparr>"

definition createEmptyAsset ::
  "('p, 'm, 'c, 'w) compiler_env \<Rightarrow> build_state \<Rightarrow> asset_info \<times> build_state" where
  "createEmptyAsset env st =
     (let md5 = md5Bytes env EMPTY_SVG;
          md5ext = md5 @ ''.svg''
      in (\<lparr>info_assetId = md5, info_md5ext = md5ext, info_dataFormat = ''svg''\<rparr>,
          zip_file md5ext EMPTY_SVG st))"

text \<open>
  \<open>processAsset(assetPath, type)\<close>. A missing \<open>path\<close> makes \<open>path.isAbsolute\<close> throw a
  \<open>TypeError\<close>; an unreadable file makes \<open>fs.readFileSync\<close> throw. The hash is taken
  over the bytes of the file, the extension from the declared path.
\<close>

definition processAsset ::
  "('p, 'm, 'c, 'w) compiler_env \<Rightarrow> string option \<Rightarrow> build_state \<Rightarrow>
     error + (asset_info \<times> build_state)" where
  "processAsset env assetPath st =
     (case assetPath of
        None \<Rightarrow> Inl (TypeError ''path'')
      | Some p \<Rightarrow>
          (let fullPath = fullPathOf env p
           in (case readFileSync env fullPath of
                 None \<Rightarrow> Inl (AssetError fullPath)
               | Some assetData \<Rightarrow>
                   (let md5 = md5Bytes env assetData;
                        ext = drop 1 (extname env p);
                        md5ext = md5 @ ''.'' @ ext
                    in Inr (\<lparr>info_assetId = md5, info_md5ext = md5ext, info_dataFormat = ext\<rparr>,
                            zip_file md5ext assetData
                              (st\<lparr>asset_reads := asset_reads st @ [fullPath]\<rparr>))))))"

subsection \<open>The manifest\<close>

record costume_entry =
  c_assetId :: string
  c_name :: "string option"
  c_md5ext :: string
  c_dataFormat :: string
  c_rotationCenterX :: real
  c_rotationCenterY :: real

record sound_entry =
  s_assetId :: string
  s_name :: "string option"
  s_md5ext :: string
  s_dataFormat :: string
  s_format :: string
  s_rate :: real
  s_sampleCount :: real

text \<open>
  A target of \<open>project.json\<close>. The tables \<open>variables\<close> and \<open>lists\<close> map an identifier
  to the pair \<open>[display name, value]\<close>. \<open>broadcasts\<close> and \<open>comments\<close> are always the
  empty object and are left out; the seven fields after \<open>t_textToSpeechLanguage\<close>
  exist on sprites only.
\<close>

type_synonym table = "(string \<times> jsval) js_map"

record 'w target =
  t_isStage :: bool
  t_name :: string
  t_variables :: table
  t_lists :: table
  t_blocks :: "'w workspace"
  t_currentCostume :: real
  t_costumes :: "costume_entry list"
  t_sounds :: "sound_entry list"
  t_volume :: real
  t_layerOrder :: real
  t_tempo :: real
  t_videoTransparency :: real
  t_videoState :: string
  t_textToSpeechLanguage :: "string option"
  t_visible :: "bool option"
  t_x :: "real option"
  t_y :: "real option"
  t_size :: "real option"
  t_direction :: "real option"
  t_draggable :: "bool option"
  t_rotationStyle :: "string option"

text \<open>\<open>x ?? d\<close> on an optional field.\<close>

fun orElse :: "'a option \<Rightarrow> 'a \<Rightarrow> 'a" where
  "orElse None d = d"
| "orElse (Some x) d = x"

text \<open>\<open>variable.exportName ?? variable.name\<close>.\<close>

definition displayName :: "variable \<Rightarrow> string" where
  "displayName v = orElse (var_exportName v) (var_name v)"

text \<open>
  The loop that re-keys a variable table (written twice in the code, for the stage over
  \<open>stageVariables.values()\<close> and for a sprite over \<open>variables.entries()\<close>, with the
  same body): one \<open>uid()\<close> per variable; a variable of type \<open>'list'\<close> goes to
  \<open>lists\<close>, any other to \<open>variables\<close>.
\<close>

fun rekeyVariables ::
  "('p, 'm, 'c, 'w) compiler_env \<Rightarrow> (variable \<times> jsval) list \<Rightarrow> nat \<Rightarrow> table \<Rightarrow> table \<Rightarrow>
     table \<times> table \<times> nat" where
  "rekeyVariables env [] n varTable listTable = (varTable, listTable, n)"
| "rekeyVariables env ((variable, defaultValue) # rest) n varTable listTable =
     (let scratchId = uid env n
      in if var_type variable = ''list''
         then rekeyVariables env rest (Suc n) varTable
                (AList.update scratchId
                   (displayName variable, if isArray defaultValue then defaultValue else Arr [])
                   listTable)
         else rekeyVariables env rest (Suc n)
                (AList.update scratchId
                   (displayName variable, nullish defaultValue (Num 0)) varTable)
                listTable)"

text \<open>The loops over declared backdrops or costumes, and over declared sounds.\<close>

fun processCostumes ::
  "('p, 'm, 'c, 'w) compiler_env \<Rightarrow> asset_decl list \<Rightarrow> build_state \<Rightarrow>
     error + (costume_entry list \<times> build_state)" where
  "processCostumes env [] st = Inr ([], st)"
| "processCostumes env (costume # rest) st =
     (case processAsset env (asset_path costume) st of
        Inl err \<Rightarrow> Inl err
      | Inr (assetInfo, st1) \<Rightarrow>
          (case processCostumes env rest st1 of
             Inl err \<Rightarrow> Inl err
           | Inr (entries, st2) \<Rightarrow>
               Inr (\<lparr>c_assetId = info_assetId assetInfo, c_name = asset_name costume,
                     c_md5ext = info_md5ext assetInfo, c_dataFormat = info_dataFormat assetInfo,
                     c_rotationCenterX = orElse (asset_x costume) 0,
                     c_rotationCenterY = orElse (asset_y costume) 0\<rparr> # entries, st2)))"

fun processSounds ::
  "('p, 'm, 'c, 'w) compiler_env \<Rightarrow> sound_decl list \<Rightarrow> build_state \<Rightarrow>
     error + (sound_entry list \<times> build_state)" where
  "processSounds env [] st = Inr ([], st)"
| "processSounds env (sound # rest) st =
     (case processAsset env (sound_path sound) st of
        Inl err \<Rightarrow> Inl err
      | Inr (assetInfo, st1) \<Rightarrow>
          (case processSounds env rest st1 of
             Inl err \<Rightarrow> Inl err
           | Inr (entries, st2) \<Rightarrow>
               Inr (\<lparr>s_assetId = info_assetId assetInfo, s_name = sound_name sound,
                     s_md5ext = info_md5ext assetInfo, s_dataFormat = info_dataFormat assetInfo,
                     s_format = info_dataFormat assetInfo, s_rate = 48000,
                     s_sampleCount = 1\<rparr> # entries, st2)))"

text \<open>
  \<open>if (costumes && costumes.length > 0) { ... } else { createEmptyAsset ... }\<close>: the
  declared costumes, or the one placeholder named \<open>'empty'\<close>.
\<close>

definition emptyCostume :: "asset_info \<Rightarrow> costume_entry" where
  "emptyCostume emptyAsset =
     \<lparr>c_assetId = info_assetId emptyAsset, c_name = Some ''empty'',
      c_md5ext = info_md5ext emptyAsset, c_dataFormat = info_dataFormat emptyAsset,
      c_rotationCenterX = 0, c_rotationCenterY = 0\<rparr>"

definition buildCostumes ::
  "('p, 'm, 'c, 'w) compiler_env \<Rightarrow> asset_decl list option \<Rightarrow> build_state \<Rightarrow>
     error + (costume_entry list \<times> build_state)" where
  "buildCostumes env costumes st =
     (case costumes of
        Some (c # cs) \<Rightarrow> processCostumes env (c # cs) st
      | _ \<Rightarrow> (case createEmptyAsset env st of
                (emptyAsset, st1) \<Rightarrow> Inr ([emptyCostume emptyAsset], st1)))"

definition buildSounds ::
  "('p, 'm, 'c, 'w) compiler_env \<Rightarrow> sound_decl list option \<Rightarrow> build_state \<Rightarrow>
     error + (sound_entry list \<times> build_state)" where
  "buildSounds env sounds st =
     (case sounds of
        Some (s # ss) \<Rightarrow> processSounds env (s # ss) st
      | _ \<Rightarrow> Inr ([], st))"

text \<open>
  The stage target: its tables are the re-keyed \<open>stageVariables\<close>, that is every
  global of the run.
\<close>

definition buildStageTarget ::
  "('p, 'm, 'c, 'w) compiler_env \<Rightarrow> stage_config \<Rightarrow> 'w workspace \<Rightarrow> var_map \<Rightarrow> build_state \<Rightarrow>
     error + ('w target \<times> build_state)" where
  "buildStageTarget env stage ws globals st =
     (case rekeyVariables env (map snd globals) (uid_calls st) [] [] of
        (varTable, listTable, n) \<Rightarrow>
          (case buildCostumes env (st_backdrops stage) (st\<lparr>uid_calls := n\<rparr>) of
             Inl err \<Rightarrow> Inl err
           | Inr (costumes, st1) \<Rightarrow>
               (case buildSounds env (st_sounds stage) st1 of
                  Inl err \<Rightarrow> Inl err
                | Inr (sounds, st2) \<Rightarrow>
                    Inr (\<lparr>t_isStage = True, t_name = ''Stage'', t_variables = varTable,
                          t_lists = listTable, t_blocks = ws,
                          t_currentCostume = orElse (st_currentBackdrop stage) 0,
                          t_costumes = costumes, t_sounds = sounds,
                          t_volume = orElse (st_volume stage) 100, t_layerOrder = 0,
                          t_tempo = orElse (st_tempo stage) 60, t_videoTransparency = 50,
                          t_videoState = ''on'', t_textToSpeechLanguage = None,
                          t_visible = None, t_x = None, t_y = None, t_size = None,
                          t_direction = None, t_draggable = None,
                          t_rotationStyle = None\<rparr>, st2))))"

text \<open>The sprite target built in round \<open>i\<close> of the loop over \<open>targets\<close>.\<close>

definition buildSpriteTarget ::
  "('p, 'm, 'c, 'w) compiler_env \<Rightarrow> nat \<Rightarrow> sprite_config \<times> 'w workspace \<times> var_map \<Rightarrow>
     build_state \<Rightarrow> error + ('w target \<times> build_state)" where
  "buildSpriteTarget env i compiledTarget st =
     (case compiledTarget of
        (target, ws, variables) \<Rightarrow>
          (case rekeyVariables env (map snd variables) (uid_calls st) [] [] of
             (varTable, listTable, n) \<Rightarrow>
               (case buildCostumes env (sp_costumes target) (st\<lparr>uid_calls := n\<rparr>) of
                  Inl err \<Rightarrow> Inl err
                | Inr (costumes, st1) \<Rightarrow>
                    (case buildSounds env (sp_sounds target) st1 of
                       Inl err \<Rightarrow> Inl err
                     | Inr (sounds, st2) \<Rightarrow>
                         Inr (\<lparr>t_isStage = False, t_name = sp_name target,
                               t_variables = varTable, t_lists = listTable, t_blocks = ws,
                               t_currentCostume = orElse (sp_currentCostume target) 0,
                               t_costumes = costumes, t_sounds = sounds,
                               t_volume = orElse (sp_volume target) 100,
                               t_layerOrder = orElse (sp_layerOrder target) (real i + 1),
                               t_tempo = orElse (sp_tempo target) 60,
                               t_videoTransparency = 50, t_videoState = ''on'',
                               t_textToSpeechLanguage = None,
                               t_visible = Some (orElse (sp_visible target) True),
                               t_x = Some (orElse (sp_x target) 0),
                               t_y = Some (orElse (sp_y target) 0),
                               t_size = Some (orElse (sp_size target) 100),
                               t_direction = Some (orElse (sp_direction target) 90),
                               t_draggable = Some (orElse (sp_draggable target) False),
                               t_rotationStyle =
                                 Some (orElse (sp_rotationStyle target) ''all around'')\<rparr>,
                              st2)))))"

fun buildSpriteTargets ::
  "('p, 'm, 'c, 'w) compiler_env \<Rightarrow> nat \<Rightarrow> (sprite_config \<times> 'w workspace \<times> var_map) list \<Rightarrow>
     build_state \<Rightarrow> error + ('w target list \<times> build_state)" where
  "buildSpriteTargets env i [] st = Inr ([], st)"
| "buildSpriteTargets env i (t # ts) st =
     (case buildSpriteTarget env i t st of
        Inl err \<Rightarrow> Inl err
      | Inr (spriteTarget, st1) \<Rightarrow>
          (case buildSpriteTargets env (Suc i) ts st1 of
             Inl err \<Rightarrow> Inl err
           | Inr (rest, st2) \<Rightarrow> Inr (spriteTarget # rest, st2)))"

text \<open>
  \<open>project.json\<close> (its \<open>monitors\<close> and \<open>meta\<close> are constants) and the main function
  after schema validation and the loading of the type files, whose result is the
  parameter \<open>base\<close>. The archive written at the end holds \<open>project.json\<close> next to
  the files of \<open>zip\<close>.
\<close>

record 'w project =
  pj_targets :: "'w target list"
  pj_extensions :: "string list"

definition buildProject ::
  "('p, 'm, 'c, 'w) compiler_env \<Rightarrow> string list option \<Rightarrow> stage_config \<Rightarrow> 'w compiled \<Rightarrow>
     error + ('w project \<times> build_state)" where
  "buildProject env extensions stage c =
     (case buildStageTarget env stage (stageWorkspace c) (stageVariables c)
             \<lparr>zip = [], uid_calls = 0, asset_reads = []\<rparr> of
        Inl err \<Rightarrow> Inl err
      | Inr (stageTarget, st1) \<Rightarrow>
          (case buildSpriteTargets env 0 (targets c) st1 of
             Inl err \<Rightarrow> Inl err
           | Inr (spriteTargets, st2) \<Rightarrow>
               Inr (\<lparr>pj_targets = stageTarget # spriteTargets,
                     pj_extensions = orElse extensions []\<rparr>, st2)))"

definition main ::
  "('p, 'm, 'c, 'w) compiler_env \<Rightarrow> 'm \<Rightarrow> string list option \<Rightarrow> stage_config \<Rightarrow>
     sprite_config list \<Rightarrow> error + ('w project \<times> build_state)" where
  "main env base extensions stage sprites =
     (case compileTargets env base stage sprites of
        Inl err \<Rightarrow> Inl err
      | Inr c \<Rightarrow> buildProject env extensions stage c)"

section \<open>The decompiler: \<open>src/bin/decompiler.js\<close>\<close>

subsection \<open>Input, collaborators and effects\<close>

text \<open>
  A target as read from \<open>project.json\<close> of the archive; a field the code guards with
  \<open>||\<close> may be absent, while \<open>name\<close>, \<open>costumes\<close> and \<open>sounds\<close> are read
  unguarded and taken to be present. \<open>blocks\<close> is an object keyed by block
  identifier. A table is the list of its entries in the order in which
  \<open>Object.values\<close> and \<open>Object.entries\<close> enumerate them (integer-like identifiers
  first and ascending, then the others as they stand in \<open>project.json\<close>).
\<close>

record sb3_costume =
  dc_name :: string
  dc_md5ext :: string
  dc_rotationCenterX :: "real option"
  dc_rotationCenterY :: "real option"

record sb3_sound =
  ds_name :: string
  ds_md5ext :: string

record 'b sb3_target =
  dt_isStage :: bool
  dt_name :: string
  dt_variables :: "table option"
  dt_lists :: "table option"
  dt_blocks :: "'b js_map option"
  dt_costumes :: "sb3_costume list"
  dt_sounds :: "sb3_sound list"
  dt_currentCostume :: "real option"
  dt_rotationStyle :: "string option"
  dt_layerOrder :: "real option"
  dt_visible :: "bool option"
  dt_x :: "real option"
  dt_y :: "real option"
  dt_size :: "real option"
  dt_direction :: "real option"
  dt_draggable :: "bool option"
  dt_volume :: "real option"
  dt_tempo :: "real option"

text \<open>
  The body of the \<open>Program\<close> given to \<open>toSource\<close>: module declarations built by the
  decompiler script itself (a name and its \<open>ExternDeclaration\<close>s), and the nodes the
  decompiler library returned.
\<close>

datatype 'n node = ModuleDeclaration string "(string \<times> 'n) list" | Declaration 'n

text \<open>
  The project configuration the run builds and writes as \<open>project.yaml\<close>: an entry
  per extracted costume and sound, the settings of the stage and of each sprite.
\<close>

record costume_config =
  cc_name :: string
  cc_path :: string
  cc_x :: real
  cc_y :: real

record sound_config =
  sc_name :: string
  sc_path :: string

record stage_out =
  so_backdrops :: "costume_config list"
  so_sounds :: "sound_config list"
  so_currentBackdrop :: real
  so_tempo :: real
  so_volume :: real
  so_entry :: "string option"

record target_config =
  tc_name :: string
  tc_currentCostume :: real
  tc_rotationStyle :: string
  tc_layerOrder :: real
  tc_visible :: bool
  tc_x :: real
  tc_y :: real
  tc_size :: real
  tc_direction :: real
  tc_draggable :: bool
  tc_volume :: real
  tc_costumes :: "costume_config list"
  tc_sounds :: "sound_config list"
  tc_entry :: "string option"

record project_config =
  pc_extensions :: "string list"
  pc_stage :: stage_out
  pc_targets :: "target_config list"

text \<open>
  The library the script drives. \<open>'d\<close> is the state of the library: the decompiler
  object made by \<open>createDecompiler\<close> together with the \<open>VariableNameManager\<close> shared
  by all targets. A call that throws is \<open>Inl\<close>; the state it leaves behind is kept,
  since the script goes on after a caught exception.
  \<^item> \<open>generatedModules\<close> is \<open>decompiler.generatedModule.children\<close>, each with the
    entries of its \<open>externs\<close>;
  \<^item> \<open>toSource\<close> prints a \<open>Program\<close> with the given body;
  \<^item> \<open>file_async\<close> is \<open>file.async('nodebuffer')\<close> on a file of the archive, which
    gives its bytes or rejects;
  \<^item> \<open>writeFileSync\<close> is \<open>fs.writeFileSync(path, data)\<close>, which throws when the
    file cannot be written (its directory does not exist, for one);
  \<^item> \<open>yaml_stringify\<close> is \<open>yaml.stringify\<close> on the project configuration.
  No exception of the last three is caught: it ends the run.
\<close>

record ('b, 'f, 's, 'd, 'n) decompiler_env =
  outputDir :: string
  assetsDir :: string
  scriptsDir :: string
  path_join :: "string \<Rightarrow> string \<Rightarrow> string"
  file_async :: "string \<Rightarrow> string + string"
  writeFileSync :: "string \<Rightarrow> string \<Rightarrow> string + unit"
  yaml_stringify :: "project_config \<Rightarrow> string"
  deserializeAllScripts :: "'b js_map option \<Rightarrow> string + 's list"
  deserializeAllFunctions :: "'b js_map option \<Rightarrow> string + 'f list"
  createDecompiler :: "'d \<Rightarrow> variable list \<Rightarrow> 'f list \<Rightarrow> string + 'd"
  decompileVariable :: "'d \<Rightarrow> variable \<Rightarrow> jsval \<Rightarrow> 'd \<times> (string + 'n)"
  decompileFunction :: "'d \<Rightarrow> 'f \<Rightarrow> 'd \<times> (string + 'n)"
  decompileScript :: "'d \<Rightarrow> 's \<Rightarrow> 'd \<times> (string + 'n list)"
  proccode :: "'f \<Rightarrow> string"
  generatedModules :: "'d \<Rightarrow> (string \<times> (string \<times> 'n) list) list"
  toSource :: "'n node list \<Rightarrow> string + string"

text \<open>
  What the script prints: a plain \<open>console.log\<close> line, the line
  \<open>Found n scripts and m functions\<close>, a \<open>console.log\<close> line that starts with
  \<open>Warning:\<close>, and a \<open>console.error\<close> line.
\<close>

datatype console_line = Line string | Found nat nat | Warning string | Failure string

text \<open>
  The state of a run: the files written with \<open>fs.writeFileSync\<close>, \<open>assetMapping\<close>,
  the console, and the state of the library.
\<close>

record 'd dstate =
  files :: "string js_map"
  assetMapping :: "string js_map"
  out :: "console_line list"
  lib :: 'd

definition print :: "console_line list \<Rightarrow> 'd dstate \<Rightarrow> 'd dstate" where
  "print ls st = st\<lparr>out := out st @ ls\<rparr>"

text \<open>\<open>x || d\<close> on an optional number: \<open>undefined\<close> and \<open>0\<close> are falsy.\<close>

definition orDefault :: "real option \<Rightarrow> real \<Rightarrow> real" where
  "orDefault x d = (case x of None \<Rightarrow> d | Some v \<Rightarrow> if v = 0 then d else v)"

subsection \<open>Extracting assets\<close>

text \<open>
  \<open>extractAsset(md5ext, newName)\<close>: \<open>zip.file(md5ext)\<close> is the file of that name or
  \<open>null\<close>. A file that is there is read and written to the directory of assets; an
  exception of either step leaves the function and ends the run. \<open>newName\<close> is not
  used.
\<close>

definition extractAsset ::
  "('b, 'f, 's, 'd, 'n) decompiler_env \<Rightarrow> string js_map \<Rightarrow> string \<Rightarrow> string \<Rightarrow> 'd dstate \<Rightarrow>
     string + (string option \<times> 'd dstate)" where
  "extractAsset denv archive md5ext newName st =
     (case map_of archive md5ext of
        Some file \<Rightarrow>
          (let assetPath = path_join denv (assetsDir denv) md5ext
           in (case file_async denv file of
                 Inl err \<Rightarrow> Inl err
               | Inr data \<Rightarrow>
                   (case writeFileSync denv assetPath data of
                      Inl err \<Rightarrow> Inl err
                    | Inr done \<Rightarrow>
                        Inr (Some md5ext,
                             st\<lparr>files := AList.update assetPath data (files st),
                                assetMapping :=
                                  AList.update md5ext md5ext (assetMapping st)\<rparr>))))
      | None \<Rightarrow> Inr (None, st))"

text \<open>
  The loops over \<open>costumes\<close> and \<open>sounds\<close> of a target (the stage's and a sprite's
  differ in the unused \<open>newName\<close> only, built from \<open>prefix\<close>). \<open>if (fileName)\<close>
  fails for \<open>null\<close> and for the empty string.
\<close>

fun extractCostumes ::
  "('b, 'f, 's, 'd, 'n) decompiler_env \<Rightarrow> string js_map \<Rightarrow> string \<Rightarrow> sb3_costume list \<Rightarrow>
     'd dstate \<Rightarrow> string + (costume_config list \<times> 'd dstate)" where
  "extractCostumes denv archive prefix [] st = Inr ([], st)"
| "extractCostumes denv archive prefix (costume # rest) st =
     (case extractAsset denv archive (dc_md5ext costume) (prefix @ dc_name costume) st of
        Inl err \<Rightarrow> Inl err
      | Inr (fileName, st1) \<Rightarrow>
          (case extractCostumes denv archive prefix rest st1 of
             Inl err \<Rightarrow> Inl err
           | Inr (entries, st2) \<Rightarrow>
               (if fileName \<noteq> None \<and> fileName \<noteq> Some []
                then Inr (\<lparr>cc_name = dc_name costume, cc_path = ''assets/'' @ the fileName,
                            cc_x = orDefault (dc_rotationCenterX costume) 0,
                            cc_y = orDefault (dc_rotationCenterY costume) 0\<rparr> # entries, st2)
                else Inr (entries, st2))))"

fun extractSounds ::
  "('b, 'f, 's, 'd, 'n) decompiler_env \<Rightarrow> string js_map \<Rightarrow> string \<Rightarrow> sb3_sound list \<Rightarrow>
     'd dstate \<Rightarrow> string + (sound_config list \<times> 'd dstate)" where
  "extractSounds denv archive prefix [] st = Inr ([], st)"
| "extractSounds denv archive prefix (sound # rest) st =
     (case extractAsset denv archive (ds_md5ext sound) (prefix @ ds_name sound) st of
        Inl err \<Rightarrow> Inl err
      | Inr (fileName, st1) \<Rightarrow>
          (case extractSounds denv archive prefix rest st1 of
             Inl err \<Rightarrow> Inl err
           | Inr (entries, st2) \<Rightarrow>
               (if fileName \<noteq> None \<and> fileName \<noteq> Some []
                then Inr (\<lparr>sc_name = ds_name sound, sc_path = ''assets/'' @ the fileName\<rparr>
                            # entries, st2)
                else Inr (entries, st2))))"

subsection \<open>Decompiling one target\<close>

text \<open>
  The declarations read from a table: \<open>Object.values(table || {})\<close> in order, each
  \<open>[name, value]\<close> giving a variable of the given type and scope.
\<close>

definition declarationsOf ::
  "string \<Rightarrow> bool \<Rightarrow> table option \<Rightarrow> (variable \<times> jsval) list" where
  "declarationsOf type isGlobal tbl =
     map (\<lambda>(name, value).
            (\<lparr>var_type = type, var_name = name, var_isGlobal = isGlobal,
              var_exportName = None\<rparr>, value))
         (map snd (orElse tbl []))"

text \<open>
  Step 1 of \<open>decompileTarget\<close>: the sprite's scalars, then its lists, all local. The
  test for a name conflict is commented out in the code, and the function no longer
  receives the globals.
\<close>

definition localDeclarations :: "'b sb3_target \<Rightarrow> (variable \<times> jsval) list" where
  "localDeclarations target =
     declarationsOf ''scalar'' False (dt_variables target) @
     declarationsOf ''list'' False (dt_lists target)"

text \<open>Step 5.1 of the main function: the stage's scalars, then its lists, all global.\<close>

definition globalVariableDeclarations :: "'b sb3_target \<Rightarrow> (variable \<times> jsval) list" where
  "globalVariableDeclarations stageTarget =
     declarationsOf ''scalar'' True (dt_variables stageTarget) @
     declarationsOf ''list'' True (dt_lists stageTarget)"

text \<open>
  The loop over the variable declarations is not guarded: an exception of
  \<open>decompileVariable\<close> ends it.
\<close>

fun decompileVariables ::
  "('b, 'f, 's, 'd, 'n) decompiler_env \<Rightarrow> (variable \<times> jsval) list \<Rightarrow> 'd \<Rightarrow>
     'd \<times> (string + 'n list)" where
  "decompileVariables denv [] d = (d, Inr [])"
| "decompileVariables denv ((variable, value) # rest) d =
     (case decompileVariable denv d variable value of
        (d1, Inl err) \<Rightarrow> (d1, Inl err)
      | (d1, Inr varDecl) \<Rightarrow>
          (case decompileVariables denv rest d1 of
             (d2, Inl err) \<Rightarrow> (d2, Inl err)
           | (d2, Inr nodes) \<Rightarrow> (d2, Inr (varDecl # nodes))))"

text \<open>
  The loops over functions and over scripts: \<open>try { ... astNodes.push(...) } catch
  { console.log(warning) }\<close> around every single unit. The result is the state of the
  library, the nodes pushed and the warnings printed, both in order.
\<close>

fun decompileFunctions ::
  "('b, 'f, 's, 'd, 'n) decompiler_env \<Rightarrow> 'f list \<Rightarrow> 'd \<Rightarrow> 'd \<times> 'n list \<times> console_line list" where
  "decompileFunctions denv [] d = (d, [], [])"
| "decompileFunctions denv (func # rest) d =
     (case decompileFunction denv d func of
        (d1, Inr funcDecl) \<Rightarrow>
          (case decompileFunctions denv rest d1 of
             (d2, nodes, warnings) \<Rightarrow> (d2, funcDecl # nodes, warnings))
      | (d1, Inl err) \<Rightarrow>
          (case decompileFunctions denv rest d1 of
             (d2, nodes, warnings) \<Rightarrow>
               (d2, nodes,
                Warning (''Could not decompile function '' @ proccode denv func @ '': '' @ err)
                  # warnings)))"

fun decompileScripts ::
  "('b, 'f, 's, 'd, 'n) decompiler_env \<Rightarrow> 's list \<Rightarrow> 'd \<Rightarrow> 'd \<times> 'n list \<times> console_line list" where
  "decompileScripts denv [] d = (d, [], [])"
| "decompileScripts denv (script # rest) d =
     (case decompileScript denv d script of
        (d1, Inr scriptAst) \<Rightarrow>
          (case decompileScripts denv rest d1 of
             (d2, nodes, warnings) \<Rightarrow> (d2, scriptAst @ nodes, warnings))
      | (d1, Inl err) \<Rightarrow>
          (case decompileScripts denv rest d1 of
             (d2, nodes, warnings) \<Rightarrow>
               (d2, nodes, Warning (''Could not decompile script: '' @ err) # warnings)))"

text \<open>The module declarations for the modules the decompiler generated.\<close>

definition moduleNodes :: "('b, 'f, 's, 'd, 'n) decompiler_env \<Rightarrow> 'd \<Rightarrow> 'n node list" where
  "moduleNodes denv d =
     map (\<lambda>(moduleName, externs). ModuleDeclaration moduleName externs)
         (generatedModules denv d)"

text \<open>The outer \<open>catch\<close>: two \<open>console.error\<close> lines, and \<open>null\<close> is returned.\<close>

definition failed :: "string \<Rightarrow> string \<Rightarrow> 'd dstate \<Rightarrow> string option \<times> 'd dstate" where
  "failed what err st = (None, print [Failure (what @ err), Failure err] st)"

text \<open>
  \<open>decompileTarget(target, modules, variableManager)\<close>: the regenerated source of a
  sprite, or \<open>null\<close>.
\<close>

definition decompileTarget ::
  "('b, 'f, 's, 'd, 'n) decompiler_env \<Rightarrow> 'b sb3_target \<Rightarrow> 'd dstate \<Rightarrow>
     string option \<times> 'd dstate" where
  "decompileTarget denv target st =
     (let variableDeclarations = localDeclarations target;
          localVars = map fst variableDeclarations;
          what = ''Error decompiling target: ''
      in (case deserializeAllScripts denv (dt_blocks target) of
            Inl err \<Rightarrow> failed what err st
          | Inr scripts \<Rightarrow>
              (case deserializeAllFunctions denv (dt_blocks target) of
                 Inl err \<Rightarrow> failed what err st
               | Inr functions \<Rightarrow>
                   (let st1 = print [Found (length scripts) (length functions)] st
                    in (case createDecompiler denv (lib st1) localVars functions of
                          Inl err \<Rightarrow> failed what err st1
                        | Inr d0 \<Rightarrow>
                            (case decompileVariables denv variableDeclarations d0 of
                               (d1, Inl err) \<Rightarrow> failed what err (st1\<lparr>lib := d1\<rparr>)
                             | (d1, Inr varNodes) \<Rightarrow>
                                 (case decompileFunctions denv functions d1 of
                                    (d2, funcNodes, warnings1) \<Rightarrow>
                                      (case decompileScripts denv scripts d2 of
                                         (d3, scriptNodes, warnings2) \<Rightarrow>
                                           (let astNodes = varNodes @ funcNodes @ scriptNodes;
                                                st2 = print (warnings1 @ warnings2)
                                                        (st1\<lparr>lib := d3\<rparr>)
                                            in if astNodes = [] \<and> moduleNodes denv d3 = []
                                               then (None, st2)
                                               else (case toSource denv
                                                            (moduleNodes denv d3 @
                                                             map Declaration astNodes) of
                                                       Inl err \<Rightarrow> failed what err st2
                                                     | Inr sourceCode \<Rightarrow>
                                                         (Some sourceCode, st2)))))))))))"

text \<open>
  \<open>decompileStage(stageTarget, modules, globalVariableDeclarations, variableManager)\<close>:
  the same with the global declarations, \<open>blocks || {}\<close>, and a source generated even
  when the body is empty.
\<close>

definition decompileStage ::
  "('b, 'f, 's, 'd, 'n) decompiler_env \<Rightarrow> 'b sb3_target \<Rightarrow> (variable \<times> jsval) list \<Rightarrow>
     'd dstate \<Rightarrow> string option \<times> 'd dstate" where
  "decompileStage denv stageTarget globalDeclarations st =
     (let workspace = Some (orElse (dt_blocks stageTarget) []);
          what = ''Error decompiling stage: ''
      in (case deserializeAllScripts denv workspace of
            Inl err \<Rightarrow> failed what err st
          | Inr scripts \<Rightarrow>
              (case deserializeAllFunctions denv workspace of
                 Inl err \<Rightarrow> failed what err st
               | Inr functions \<Rightarrow>
                   (let st1 = print [Found (length scripts) (length functions)] st
                    in (case createDecompiler denv (lib st1) (map fst globalDeclarations)
                                functions of
                          Inl err \<Rightarrow> failed what err st1
                        | Inr d0 \<Rightarrow>
                            (case decompileVariables denv globalDeclarations d0 of
                               (d1, Inl err) \<Rightarrow> failed what err (st1\<lparr>lib := d1\<rparr>)
                             | (d1, Inr varNodes) \<Rightarrow>
                                 (case decompileFunctions denv functions d1 of
                                    (d2, funcNodes, warnings1) \<Rightarrow>
                                      (case decompileScripts denv scripts d2 of
                                         (d3, scriptNodes, warnings2) \<Rightarrow>
                                           (let astNodes = varNodes @ funcNodes @ scriptNodes;
                                                st2 = print (warnings1 @ warnings2)
                                                        (st1\<lparr>lib := d3\<rparr>)
                                            in (case toSource denv
                                                        (moduleNodes denv d3 @
                                                         map Declaration astNodes) of
                                                  Inl err \<Rightarrow> failed what err st2
                                                | Inr sourceCode \<Rightarrow>
                                                    (Some sourceCode, st2)))))))))))"

subsection \<open>The main function of the decompiler\<close>

text \<open>
  \<open>target.name.replace(/[^a-zA-Z0-9_]/g, '_')\<close>, on the bytes of the name (a character
  outside ASCII is one underscore in the code and one per byte here).
\<close>

definition safeName :: "string \<Rightarrow> string" where
  "safeName name =
     map (\<lambda>c. if c \<in> set ''abcdefghijklmnopqrstuvwxyzABCDEFGHIJKLMNOPQRSTUVWXYZ0123456789_''
               then c else CHR ''_'') name"

text \<open>
  A source is written to \<open>scripts/<name>.fuse\<close> and becomes the entry when it is
  neither \<open>null\<close> nor empty; an exception of \<open>fs.writeFileSync\<close> ends the run.
\<close>

definition writeScript ::
  "('b, 'f, 's, 'd, 'n) decompiler_env \<Rightarrow> string \<Rightarrow> string option \<times> 'd dstate \<Rightarrow>
     string + (string option \<times> 'd dstate)" where
  "writeScript denv fileName r =
     (case r of
        (Some source, st) \<Rightarrow>
          (if source = [] then Inr (None, st)
           else (let scriptPath = path_join denv (scriptsDir denv) fileName
                 in (case writeFileSync denv scriptPath source of
                       Inl err \<Rightarrow> Inl err
                     | Inr done \<Rightarrow>
                         Inr (Some (''scripts/'' @ fileName),
                              st\<lparr>files := AList.update scriptPath source (files st)\<rparr>))))
      | (None, st) \<Rightarrow> Inr (None, st))"

text \<open>
  Step 5.4, the loop over the sprites: costumes, sounds, then the script when
  \<open>target.blocks\<close> has a key. The progress lines the main function prints are left
  out; the console holds what \<open>decompileStage\<close> and \<open>decompileTarget\<close> print.
\<close>

definition decompileSprite ::
  "('b, 'f, 's, 'd, 'n) decompiler_env \<Rightarrow> string js_map \<Rightarrow> 'b sb3_target \<Rightarrow> 'd dstate \<Rightarrow>
     string + (target_config \<times> 'd dstate)" where
  "decompileSprite denv archive target st =
     (case extractCostumes denv archive (''costume_'' @ dt_name target @ ''_'')
             (dt_costumes target) st of
        Inl err \<Rightarrow> Inl err
      | Inr (costumes, st1) \<Rightarrow>
          (case extractSounds denv archive (''sound_'' @ dt_name target @ ''_'')
                  (dt_sounds target) st1 of
             Inl err \<Rightarrow> Inl err
           | Inr (sounds, st2) \<Rightarrow>
               (case (if dt_blocks target \<noteq> None \<and> dt_blocks target \<noteq> Some []
                      then writeScript denv (safeName (dt_name target) @ ''.fuse'')
                             (decompileTarget denv target st2)
                      else Inr (None, st2)) of
                  Inl err \<Rightarrow> Inl err
                | Inr (entry, st3) \<Rightarrow>
                    Inr (\<lparr>tc_name = dt_name target,
                          tc_currentCostume = orDefault (dt_currentCostume target) 0,
                          tc_rotationStyle =
                            (case dt_rotationStyle target of
                               None \<Rightarrow> ''all around''
                             | Some r \<Rightarrow> if r = [] then ''all around'' else r),
                          tc_layerOrder = orDefault (dt_layerOrder target) 0,
                          tc_visible = orElse (dt_visible target) True,
                          tc_x = orDefault (dt_x target) 0,
                          tc_y = orDefault (dt_y target) 0,
                          tc_size = orDefault (dt_size target) 100,
                          tc_direction = orDefault (dt_direction target) 90,
                          tc_draggable = orElse (dt_draggable target) False,
                          tc_volume = orDefault (dt_volume target) 100,
                          tc_costumes = costumes, tc_sounds = sounds, tc_entry = entry\<rparr>,
                         st3))))"

fun decompileSprites ::
  "('b, 'f, 's, 'd, 'n) decompiler_env \<Rightarrow> string js_map \<Rightarrow> 'b sb3_target list \<Rightarrow> 'd dstate \<Rightarrow>
     string + (target_config list \<times> 'd dstate)" where
  "decompileSprites denv archive [] st = Inr ([], st)"
| "decompileSprites denv archive (target # rest) st =
     (case decompileSprite denv archive target st of
        Inl err \<Rightarrow> Inl err
      | Inr (targetConfig, st1) \<Rightarrow>
          (case decompileSprites denv archive rest st1 of
             Inl err \<Rightarrow> Inl err
           | Inr (configs, st2) \<Rightarrow> Inr (targetConfig # configs, st2)))"

text \<open>
  The main function from Step 5 on, given the targets and extensions of
  \<open>project.json\<close>, the files of the archive and the initial state of the library. It
  stops with \<open>process.exit(1)\<close> when no target is the stage, and it ends by writing
  \<open>project.yaml\<close>.
\<close>

definition decompile ::
  "('b, 'f, 's, 'd, 'n) decompiler_env \<Rightarrow> string list option \<Rightarrow> 'b sb3_target list \<Rightarrow>
     string js_map \<Rightarrow> 'd \<Rightarrow> string + (project_config \<times> 'd dstate)" where
  "decompile denv extensions projectTargets archive lib0 =
     (case find dt_isStage projectTargets of
        None \<Rightarrow> Inl ''Error: No stage target found''
      | Some stageTarget \<Rightarrow>
          (case extractCostumes denv archive ''backdrop_'' (dt_costumes stageTarget)
                  \<lparr>files = [], assetMapping = [], out = [], lib = lib0\<rparr> of
             Inl err \<Rightarrow> Inl err
           | Inr (backdrops, st1) \<Rightarrow>
               (case extractSounds denv archive ''sound_stage_'' (dt_sounds stageTarget) st1 of
                  Inl err \<Rightarrow> Inl err
                | Inr (sounds, st2) \<Rightarrow>
                    (case writeScript denv ''stage.fuse''
                            (decompileStage denv stageTarget
                               (globalVariableDeclarations stageTarget) st2) of
                       Inl err \<Rightarrow> Inl err
                     | Inr (entry, st3) \<Rightarrow>
                         (case decompileSprites denv archive
                                 (filter (\<lambda>t. \<not> dt_isStage t) projectTargets) st3 of
                            Inl err \<Rightarrow> Inl err
                          | Inr (configs, st4) \<Rightarrow>
                              (let projectConfig =
                                     \<lparr>pc_extensions = orElse extensions [],
                                      pc_stage =
                                        \<lparr>so_backdrops = backdrops, so_sounds = sounds,
                                         so_currentBackdrop =
                                           orDefault (dt_currentCostume stageTarget) 0,
                                         so_tempo = orDefault (dt_tempo stageTarget) 60,
                                         so_volume = orDefault (dt_volume stageTarget) 100,
                                         so_entry = entry\<rparr>,
                                      pc_targets = configs\<rparr>;
                                   yamlPath = path_join denv (outputDir denv) ''project.yaml'';
                                   yamlContent = yaml_stringify denv projectConfig
                               in (case writeFileSync denv yamlPath yamlContent of
                                     Inl err \<Rightarrow> Inl err
                                   | Inr done \<Rightarrow>
                                       Inr (projectConfig,
                                            st4\<lparr>files := AList.update yamlPath yamlContent
                                                             (files st4)\<rparr>))))))))"

section \<open>The older decompiler: \<open>src/unnamed/part_001\<close>\<close>





section \<open>The older compiler: \<open>src/unnamed/part_000\<close>\<close>

text \<open>
  The older script works with another library: \<open>getProgramInfo\<close> gives the variables
  of a program (the entries of a \<open>Map\<close>) and its namespaces before anything is
  compiled, and \<open>compileProgram\<close> stands for the rest of \<open>compileScript\<close> (the
  \<open>Scope\<close>, \<open>Compiler.getFunctions\<close>, the \<open>Compiler\<close> and the serialization). No
  exception is caught. A namespace is opaque, and \<open>mergeNamespace\<close> merges two of them.
\<close>

record ('p, 'n, 'w) old_env =
  o_inputDir :: string
  o_isAbsolute :: "string \<Rightarrow> bool"
  o_join :: "string \<Rightarrow> string \<Rightarrow> string"
  o_readFileSync :: "string \<Rightarrow> string option"
  o_parse :: "string \<Rightarrow> string + 'p"
  getProgramInfo :: "'p \<Rightarrow> string + (var_map \<times> 'n js_map)"
  mergeNamespace :: "'n \<Rightarrow> 'n \<Rightarrow> 'n"
  compileProgram :: "'p \<Rightarrow> variable js_map \<Rightarrow> 'n js_map \<Rightarrow> string + 'w"

text \<open>
  \<open>mergeNamespaces(base, upper)\<close>: a copy of \<open>base\<close> in which every namespace of
  \<open>upper\<close> is merged into the one of the same name, or added.
\<close>

fun mergeNamespaces_into ::
  "('p, 'n, 'w) old_env \<Rightarrow> 'n js_map \<Rightarrow> 'n js_map \<Rightarrow> 'n js_map" where
  "mergeNamespaces_into env merged [] = merged"
| "mergeNamespaces_into env merged ((name, namespace) # rest) =
     mergeNamespaces_into env
       (case map_of merged name of
          Some existing \<Rightarrow> AList.update name (mergeNamespace env existing namespace) merged
        | None \<Rightarrow> AList.update name namespace merged)
       rest"

definition mergeNamespaces ::
  "('p, 'n, 'w) old_env \<Rightarrow> 'n js_map \<Rightarrow> 'n js_map \<Rightarrow> 'n js_map" where
  "mergeNamespaces env base upper = mergeNamespaces_into env (new_Map base) upper"

text \<open>
  The loop over \<open>programInfo.variables.entries()\<close>: with a table of globals at hand a
  variable goes there when it is global and to \<open>variables\<close> otherwise; without one
  (the stage) it goes to \<open>variables\<close>. The key is that of the entry.
\<close>

fun collect_old ::
  "var_map \<Rightarrow> var_map option \<Rightarrow> var_map \<Rightarrow> var_map option \<times> var_map" where
  "collect_old [] stageVars variables = (stageVars, variables)"
| "collect_old ((key, variable, defaultValue) # rest) stageVars variables =
     (case stageVars of
        Some sv \<Rightarrow>
          (if var_isGlobal variable
           then collect_old rest (Some (AList.update key (variable, defaultValue) sv)) variables
           else collect_old rest stageVars
                  (AList.update key (variable, defaultValue) variables))
      | None \<Rightarrow>
          collect_old rest stageVars (AList.update key (variable, defaultValue) variables))"

definition fullPathOf_old :: "('p, 'n, 'w) old_env \<Rightarrow> string \<Rightarrow> string" where
  "fullPathOf_old env p = (if o_isAbsolute env p then p else o_join env (o_inputDir env) p)"

text \<open>
  The older \<open>compileScript(entry, baseNamespaceDefinition, stageVariables, variables)\<close>,
  with the paths read so far as its only effect. For the stage every variable is first
  marked global. The combined scope is built after the tables are filled, from
  \<open>stageVariables.entries()\<close>, which throws a \<open>TypeError\<close> when \<open>stageVariables\<close> is
  \<open>null\<close>.
\<close>

definition compileScript_old ::
  "('p, 'n, 'w) old_env \<Rightarrow> string option \<Rightarrow> 'n js_map \<Rightarrow> var_map option \<Rightarrow> var_map \<Rightarrow>
     string list \<Rightarrow> error + ('w workspace \<times> var_map option \<times> var_map \<times> string list)" where
  "compileScript_old env entry baseNamespaceDefinition stageVars variables reads =
     (if entry = None \<or> entry = Some []
      then Inr (EmptyWorkspace, stageVars, variables, reads)
      else
        (let fullPath = fullPathOf_old env (the entry)
         in (case o_readFileSync env fullPath of
               None \<Rightarrow> Inl (ScriptError fullPath ''ENOENT'')
             | Some sourceCode \<Rightarrow>
                 (case o_parse env sourceCode of
                    Inl msg \<Rightarrow> Inl (ScriptError fullPath msg)
                  | Inr program \<Rightarrow>
                      (case getProgramInfo env program of
                         Inl msg \<Rightarrow> Inl (ScriptError fullPath msg)
                       | Inr (infoVariables, infoNamespaces) \<Rightarrow>
                           (let localNamespaceDefinition =
                                  mergeNamespaces env baseNamespaceDefinition infoNamespaces;
                                marked =
                                  (if stageVars = None
                                   then map (\<lambda>(key, v, d). (key, v\<lparr>var_isGlobal := True\<rparr>, d))
                                          infoVariables
                                   else infoVariables)
                            in (case collect_old marked stageVars variables of
                                  (None, variables') \<Rightarrow>
                                    Inl (TypeError ''stageVariables is null'')
                                | (Some stageVars', variables') \<Rightarrow>
                                    (case compileProgram env program
                                            (new_Map
                                               (map (\<lambda>(key, v, d). (key, v)) stageVars' @
                                                map (\<lambda>(key, v, d). (key, v)) variables'))
                                            localNamespaceDefinition of
                                       Inl msg \<Rightarrow> Inl (ScriptError fullPath msg)
                                     | Inr ws \<Rightarrow>
                                         Inr (Workspace ws, Some stageVars', variables',
                                              reads @ [fullPath])))))))))"

section \<open>Notions used in the statements\<close>

text \<open>A sprite whose \<open>entry\<close> is truthy, so that its script is compiled.\<close>

definition hasEntry :: "sprite_config \<Rightarrow> bool" where
  "hasEntry t = (sp_entry t \<noteq> None \<and> sp_entry t \<noteq> Some [])"

text \<open>
  The costume entry of the placeholder: the asset whose identifier is the MD5 digest of
  \<open>EMPTY_SVG\<close> and whose storage key is that digest followed by \<open>.svg\<close>.
\<close>

definition placeholder :: "('p, 'm, 'c, 'w) compiler_env \<Rightarrow> costume_entry" where
  "placeholder env =
     \<lparr>c_assetId = md5Bytes env EMPTY_SVG, c_name = Some ''empty'',
      c_md5ext = md5Bytes env EMPTY_SVG @ ''.svg'', c_dataFormat = ''svg'',
      c_rotationCenterX = 0, c_rotationCenterY = 0\<rparr>"

text \<open>A target that declares zero costumes or backdrops: the list is absent or empty.\<close>

definition noCostumes :: "asset_decl list option \<Rightarrow> bool" where
  "noCostumes costumes = (costumes = None \<or> costumes = Some [])"

text \<open>
  What re-keying is to produce from the variables \<open>vs\<close> of a target when the first
  identifier it draws is the \<open>n\<close>-th: the \<open>i\<close>-th variable is stored under the
  identifier of call \<open>n + i\<close>, with its display name and its default value, in
  \<open>variables\<close> unless its type is \<open>'list'\<close>.
\<close>

definition varEntries ::
  "('p, 'm, 'c, 'w) compiler_env \<Rightarrow> nat \<Rightarrow> (variable \<times> jsval) list \<Rightarrow> table" where
  "varEntries env n vs =
     map (\<lambda>(i, v, d). (uid env i, displayName v, nullish d (Num 0)))
         (filter (\<lambda>(i, v, d). var_type v \<noteq> ''list'') (enumerate n vs))"

definition listEntries ::
  "('p, 'm, 'c, 'w) compiler_env \<Rightarrow> nat \<Rightarrow> (variable \<times> jsval) list \<Rightarrow> table" where
  "listEntries env n vs =
     map (\<lambda>(i, v, d). (uid env i, displayName v, if isArray d then d else Arr []))
         (filter (\<lambda>(i, v, d). var_type v = ''list'') (enumerate n vs))"

text \<open>
  The number of identifiers drawn before the variables of sprite \<open>j\<close> are re-keyed:
  one for every global and one for every local variable of the sprites before it.
\<close>

definition firstUid :: "'w compiled \<Rightarrow> nat \<Rightarrow> nat" where
  "firstUid c j =
     length (stageVariables c) +
     sum_list (map (\<lambda>(t, ws, vs). length vs) (take j (targets c)))"

text \<open>The identifiers under which a target stores its variables and lists.\<close>

definition idsOf :: "'w target \<Rightarrow> string list" where
  "idsOf T = keys (t_variables T) @ keys (t_lists T)"

text \<open>
  An asset is kept by the decompiler when the archive has a blob under its storage key
  (and the key is not the empty string); \<open>keptCostumes\<close> and \<open>keptSounds\<close> are the
  entries of the regenerated project configuration for the assets kept, in order.
\<close>

definition kept :: "string js_map \<Rightarrow> string \<Rightarrow> bool" where
  "kept archive key = (map_of archive key \<noteq> None \<and> key \<noteq> [])"

definition keptCostumes :: "string js_map \<Rightarrow> sb3_costume list \<Rightarrow> costume_config list" where
  "keptCostumes archive costumes =
     map (\<lambda>c. \<lparr>cc_name = dc_name c, cc_path = ''assets/'' @ dc_md5ext c,
                cc_x = orDefault (dc_rotationCenterX c) 0,
                cc_y = orDefault (dc_rotationCenterY c) 0\<rparr>)
         (filter (\<lambda>c. kept archive (dc_md5ext c)) costumes)"

definition keptSounds :: "string js_map \<Rightarrow> sb3_sound list \<Rightarrow> sound_config list" where
  "keptSounds archive sounds =
     map (\<lambda>s. \<lparr>sc_name = ds_name s, sc_path = ''assets/'' @ ds_md5ext s\<rparr>)
         (filter (\<lambda>s. kept archive (ds_md5ext s)) sounds)"

text \<open>
  A target without the costumes and sounds whose storage key names no file of the
  archive.
\<close>

definition withBlobs :: "string js_map \<Rightarrow> 'b sb3_target \<Rightarrow> 'b sb3_target" where
  "withBlobs archive target =
     target\<lparr>dt_costumes :=
              filter (\<lambda>c. map_of archive (dc_md5ext c) \<noteq> None) (dt_costumes target),
            dt_sounds :=
              filter (\<lambda>s. map_of archive (ds_md5ext s) \<noteq> None) (dt_sounds target)\<rparr>"

text \<open>
  Every file of the archive that an asset of the list names can be read and written to
  the directory of assets.
\<close>

definition extractable ::
  "('b, 'f, 's, 'd, 'n) decompiler_env \<Rightarrow> string js_map \<Rightarrow> string list \<Rightarrow> bool" where
  "extractable denv archive ks =
     list_all (\<lambda>k. case map_of archive k of
                       None \<Rightarrow> True
                     | Some file \<Rightarrow>
                         (case file_async denv file of
                            Inl err \<Rightarrow> False
                          | Inr data \<Rightarrow>
                              writeFileSync denv (path_join denv (assetsDir denv) k) data
                                = Inr ())) ks"

text \<open>
  The files a run on these targets may write can be written, and the files of the
  archive it reads can be read: the assets of every target, the script of the stage
  and of every sprite, and \<open>project.yaml\<close>.
\<close>

definition writable ::
  "('b, 'f, 's, 'd, 'n) decompiler_env \<Rightarrow> string js_map \<Rightarrow> 'b sb3_target list \<Rightarrow> bool" where
  "writable denv archive projectTargets =
     (list_all (\<lambda>t. extractable denv archive (map dc_md5ext (dt_costumes t)) \<and>
                     extractable denv archive (map ds_md5ext (dt_sounds t))) projectTargets \<and>
      list_all (\<lambda>t. \<forall>source.
                     writeFileSync denv
                       (path_join denv (scriptsDir denv) (safeName (dt_name t) @ ''.fuse''))
                       source = Inr ()) projectTargets \<and>
      (\<forall>source.
         writeFileSync denv (path_join denv (scriptsDir denv) ''stage.fuse'') source
           = Inr ()) \<and>
      (\<forall>yamlContent.
         writeFileSync denv (path_join denv (outputDir denv) ''project.yaml'') yamlContent
           = Inr ()))"



text \<open>The warning the older script prints when it skips a scalar.\<close>

definition conflictWarning :: "string \<Rightarrow> console_line" where
  "conflictWarning name =
     Warning (''Variable name conflict for '' @ [CHR 0x27] @ name @ [CHR 0x27] @
                          '', skipping local variable'')"

text \<open>A printed line that is not such a warning.\<close>

definition plain :: "console_line \<Rightarrow> bool" where
  "plain l = (\<forall>name. l \<noteq> conflictWarning name)"

section \<open>An example project\<close>

text \<open>
  A small project on which the theorems below are run. The collaborators are stand-ins:
  the parser returns the source text, the compiler looks the variables of a script up
  in a table, the \<open>n\<close>-th identifier is \<open>n + 1\<close> letters long, and the hash function
  is a parameter. The stage declares \<open>score\<close>; the first and the third sprite each
  declare a local \<open>counter\<close>, the second sprite a global \<open>lives\<close> and a local list
  \<open>trail\<close>; the fourth sprite has no entry script.
\<close>

definition example_extname :: "string \<Rightarrow> string" where
  "example_extname p =
     (if CHR ''.'' \<in> set p
      then CHR ''.'' # rev (takeWhile (\<lambda>c. c \<noteq> CHR ''.'') (rev p))
      else [])"

definition example_var :: "string \<Rightarrow> string \<Rightarrow> bool \<Rightarrow> variable" where
  "example_var type name isGlobal =
     \<lparr>var_type = type, var_name = name, var_isGlobal = isGlobal, var_exportName = None\<rparr>"

definition example_scripts :: "(string \<times> (variable \<times> jsval) list) list" where
  "example_scripts =
     [(''stage script'', [(example_var ''scalar'' ''score'' False, Num 0)]),
      (''walker script'', [(example_var ''scalar'' ''counter'' False, Num 1)]),
      (''keeper script'',
         [(example_var ''scalar'' ''lives'' True, Num 3),
          (example_var ''list'' ''trail'' False, Undefined)])]"

definition example_env ::
  "(string \<Rightarrow> string) \<Rightarrow> (string, unit, unit, unit) compiler_env" where
  "example_env md5 =
     \<lparr>inputDir = ''proj'',
      isAbsolute = (\<lambda>p. take 1 p = ''/''),
      join = (\<lambda>dir p. dir @ ''/'' @ p),
      extname = example_extname,
      readFileSync =
        map_of [(''proj/stage.fuse'', ''stage script''),
                (''proj/walker.fuse'', ''walker script''),
                (''proj/keeper.fuse'', ''keeper script''),
                (''proj/cat.png'', ''PIXELS''),
                (''proj/copy.png'', ''PIXELS''),
                (''proj/cat.svg'', ''PIXELS'')],
      parse = Inr,
      compile =
        (\<lambda>program module.
           case map_of example_scripts program of
             None \<Rightarrow> Inl ''unknown script''
           | Some vs \<Rightarrow> Inr \<lparr>result_variables = vs, result_code = ()\<rparr>),
      serialize = (\<lambda>code. Inr ()),
      uid = (\<lambda>n. replicate (Suc n) CHR ''i''),
      md5Bytes = md5\<rparr>"

definition example_stage :: stage_config where
  "example_stage =
     \<lparr>st_currentBackdrop = None, st_tempo = None, st_volume = None, st_backdrops = None,
      st_sounds = None, st_entry = Some ''stage.fuse''\<rparr>"

definition example_sprite :: "string \<Rightarrow> string option \<Rightarrow> sprite_config" where
  "example_sprite name entry =
     \<lparr>sp_name = name, sp_currentCostume = None, sp_rotationStyle = None,
      sp_layerOrder = None, sp_visible = None, sp_x = None, sp_y = None, sp_size = None,
      sp_direction = None, sp_draggable = None, sp_tempo = None, sp_volume = None,
      sp_costumes = None, sp_sounds = None, sp_entry = entry\<rparr>"

definition example_sprites :: "sprite_config list" where
  "example_sprites =
     [example_sprite ''Walker'' (Some ''walker.fuse''),
      example_sprite ''Keeper'' (Some ''keeper.fuse''),
      example_sprite ''Runner'' (Some ''walker.fuse''),
      example_sprite ''Idle'' None]"

section \<open>An example archive\<close>

text \<open>
  A small archive on which the theorems about the decompiler are run. A block is its
  text; the stand-in library takes the blocks that start with \<open>when\<close> for scripts and
  those that start with \<open>define\<close> for functions, fails on the units named
  \<open>broken\<close>, counts its successful calls in its state, and generates no module. The
  stage has the scalar \<open>score\<close>; the sprite has a scalar and a list of that name too, a
  scalar \<open>steps\<close>, two costumes of which the second has no blob in the archive, and
  three functions and two scripts of which one each fails. Reading a file of the
  archive gives its content; writing fails below a directory that was not made (a path
  with more than two separators) and succeeds elsewhere.
\<close>

definition example_denv :: "(string, string, string, nat, string) decompiler_env" where
  "example_denv =
     \<lparr>outputDir = ''out'',
      assetsDir = ''out/assets'',
      scriptsDir = ''out/scripts'',
      path_join = (\<lambda>dir p. dir @ ''/'' @ p),
      file_async = Inr,
      writeFileSync =
        (\<lambda>p data. if length (filter (\<lambda>c. c = CHR ''/'') p) > 2
                  then Inl ''ENOENT: no such file or directory'' else Inr ()),
      yaml_stringify = (\<lambda>config. concat (map (\<lambda>t. ''target '' @ tc_name t @ ''; '')
                                             (pc_targets config))),
      deserializeAllScripts =
        (\<lambda>ws. case ws of
                None \<Rightarrow> Inl ''no blocks''
              | Some bs \<Rightarrow> Inr (filter (\<lambda>b. take 5 b = ''when '') (map snd bs))),
      deserializeAllFunctions =
        (\<lambda>ws. case ws of
                None \<Rightarrow> Inl ''no blocks''
              | Some bs \<Rightarrow> Inr (filter (\<lambda>b. take 7 b = ''define '') (map snd bs))),
      createDecompiler = (\<lambda>d localVars functions. Inr d),
      decompileVariable = (\<lambda>d v value. (Suc d, Inr (''var '' @ var_name v))),
      decompileFunction =
        (\<lambda>d f. if f = ''define broken'' then (d, Inl ''unknown opcode'')
               else (Suc d, Inr (''fn '' @ drop 7 f))),
      decompileScript =
        (\<lambda>d s. if s = ''when broken'' then (d, Inl ''unknown opcode'')
               else (Suc d, Inr [''on '' @ drop 5 s])),
      proccode = drop 7,
      generatedModules = (\<lambda>d. []),
      toSource =
        (\<lambda>body. Inr (concat (map (\<lambda>n. case n of
                                          Declaration s \<Rightarrow> s @ ''; ''
                                        | ModuleDeclaration m externs \<Rightarrow> ''module '' @ m @ ''; '')
                                  body)))\<rparr>"

definition example_target :: "bool \<Rightarrow> string \<Rightarrow> string sb3_target" where
  "example_target isStage name =
     \<lparr>dt_isStage = isStage, dt_name = name, dt_variables = None, dt_lists = None,
      dt_blocks = None, dt_costumes = [], dt_sounds = [], dt_currentCostume = None,
      dt_rotationStyle = None, dt_layerOrder = None, dt_visible = None, dt_x = None,
      dt_y = None, dt_size = None, dt_direction = None, dt_draggable = None,
      dt_volume = None, dt_tempo = None\<rparr>"

definition example_stageTarget :: "string sb3_target" where
  "example_stageTarget =
     (example_target True ''Stage'')\<lparr>dt_variables := Some [(''id1'', ''score'', Num 0)]\<rparr>"

definition example_costumes :: "sb3_costume list" where
  "example_costumes =
     [\<lparr>dc_name = ''cat'', dc_md5ext = ''aa.svg'', dc_rotationCenterX = Some 48,
       dc_rotationCenterY = None\<rparr>,
      \<lparr>dc_name = ''lost'', dc_md5ext = ''bb.png'', dc_rotationCenterX = None,
       dc_rotationCenterY = None\<rparr>,
      \<lparr>dc_name = ''dog'', dc_md5ext = ''cc.png'', dc_rotationCenterX = None,
       dc_rotationCenterY = None\<rparr>]"

definition example_spriteTarget :: "string sb3_target" where
  "example_spriteTarget =
     (example_target False ''Cat'')
       \<lparr>dt_variables := Some [(''id2'', ''score'', Num 7), (''id3'', ''steps'', Num 1)],
        dt_lists := Some [(''id4'', ''score'', Arr [])],
        dt_blocks :=
          Some [(''b1'', ''define jump''), (''b2'', ''define broken''), (''b3'', ''define run''),
                (''b4'', ''when broken''), (''b5'', ''when clicked'')],
        dt_costumes := example_costumes,
        dt_sounds := [\<lparr>ds_name = ''meow'', ds_md5ext = ''dd.wav''\<rparr>]\<rparr>"

definition example_archive :: "string js_map" where
  "example_archive = [(''aa.svg'', ''<svg/>''), (''cc.png'', ''PNG'')]"

text \<open>
  The stand-in for the older library on the example project: a program is its source
  text, and its variables are those of \<open>example_scripts\<close> under their names.
\<close>

definition example_old_env :: "(string, unit, unit) old_env" where
  "example_old_env =
     \<lparr>o_inputDir = ''proj'',
      o_isAbsolute = (\<lambda>p. take 1 p = ''/''),
      o_join = (\<lambda>dir p. dir @ ''/'' @ p),
      o_readFileSync =
        map_of [(''proj/stage.fuse'', ''stage script''),
                (''proj/keeper.fuse'', ''keeper script'')],
      o_parse = Inr,
      getProgramInfo =
        (\<lambda>program.
           case map_of example_scripts program of
             None \<Rightarrow> Inl ''unknown script''
           | Some vs \<Rightarrow> Inr (map (\<lambda>(v, d). (var_name v, v, d)) vs, [])),
      mergeNamespace = (\<lambda>existing namespace. ()),
      compileProgram = (\<lambda>program scope namespaces. Inr ())\<rparr>"

section \<open>Verified properties\<close>

lemma keys_collectStage:
  "set (keys (collectStage rv m)) = set (keys m) \<union> (\<lambda>p. var_name (fst p)) ` set rv"
proof (induction rv arbitrary: m)
  case Nil
  then show ?case by simp
next
  case (Cons p rv)
  obtain v d where p: "p = (v, d)" by (cases p)
  have "set (keys (collectStage (p # rv) m)) =
          set (keys (AList.update (var_name v) (v\<lparr>var_isGlobal := True\<rparr>, d) m)) \<union>
          (\<lambda>p. var_name (fst p)) ` set rv"
    unfolding p using Cons.IH by simp
  also have "set (keys (AList.update (var_name v) (v\<lparr>var_isGlobal := True\<rparr>, d) m)) =
          insert (var_name v) (set (keys m))"
    by (simp add: keys_def AList.dom_update)
  finally show ?case by (simp add: p)
qed

lemma collectStage_keeps_global:
  "map_of m k = Some (v', d') \<Longrightarrow> var_isGlobal v' \<Longrightarrow>
   \<exists>v'' d''. map_of (collectStage rv m) k = Some (v'', d'') \<and> var_isGlobal v''"
proof (induction rv arbitrary: m v' d')
  case Nil
  then show ?case by auto
next
  case (Cons p rv)
  obtain v d where p: "p = (v, d)" by (cases p)
  show ?case
  proof (cases "var_name v = k")
    case True
    have "map_of (AList.update (var_name v) (v\<lparr>var_isGlobal := True\<rparr>, d) m) k
            = Some (v\<lparr>var_isGlobal := True\<rparr>, d)"
      using True by (simp add: AList.update_conv')
    from Cons.IH[OF this] show ?thesis by (simp add: p)
  next
    case False
    have "map_of (AList.update (var_name v) (v\<lparr>var_isGlobal := True\<rparr>, d) m) k = Some (v', d')"
      using False Cons.prems by (simp add: AList.update_conv')
    from Cons.IH[OF this Cons.prems(2)] show ?thesis by (simp add: p)
  qed
qed

lemma collectStage_marks_global:
  "(v, d) \<in> set rv \<Longrightarrow>
   \<exists>v' d'. map_of (collectStage rv m) (var_name v) = Some (v', d') \<and> var_isGlobal v'"
proof (induction rv arbitrary: m)
  case Nil
  then show ?case by simp
next
  case (Cons p rv)
  obtain w e where p: "p = (w, e)" by (cases p)
  show ?case
  proof (cases "(v, d) \<in> set rv")
    case True
    from Cons.IH[OF True] show ?thesis by (simp add: p)
  next
    case False
    then have eq: "w = v" "e = d" using Cons.prems p by auto
    have "map_of (AList.update (var_name v) (v\<lparr>var_isGlobal := True\<rparr>, d) m) (var_name v)
            = Some (v\<lparr>var_isGlobal := True\<rparr>, d)"
      by (simp add: AList.update_conv')
    from collectStage_keeps_global[OF this, of rv] show ?thesis by (simp add: p eq)
  qed
qed

lemma keys_update: "set (keys (AList.update k v m)) = insert k (set (keys m))"
  by (simp add: keys_def AList.dom_update)

lemma keys_collectSprite:
  "collectSprite rv sv vs = (sv', vs') \<Longrightarrow>
     set (keys sv') = set (keys sv) \<union> set [var_name v. (v, d) \<leftarrow> rv, var_isGlobal v] \<and>
     set (keys vs') = set (keys vs) \<union> set [var_name v. (v, d) \<leftarrow> rv, \<not> var_isGlobal v]"
proof (induction rv arbitrary: sv vs)
  case Nil
  then show ?case by simp
next
  case (Cons p rv)
  obtain w e where p: "p = (w, e)" by (cases p)
  show ?case
  proof (cases "var_isGlobal w")
    case True
    with Cons.prems p have "collectSprite rv (AList.update (var_name w) (w, e) sv) vs = (sv', vs')"
      by simp
    from Cons.IH[OF this] show ?thesis using True p by (simp add: keys_update)
  next
    case False
    with Cons.prems p have "collectSprite rv sv (AList.update (var_name w) (w, e) vs) = (sv', vs')"
      by simp
    from Cons.IH[OF this] show ?thesis using False p by (simp add: keys_update)
  qed
qed

lemma collectSprite_global_kept:
  "collectSprite rv sv vs = (sv', vs') \<Longrightarrow> map_of sv k = Some (v', d') \<Longrightarrow> var_isGlobal v' \<Longrightarrow>
   \<exists>v'' d''. map_of sv' k = Some (v'', d'') \<and> var_isGlobal v''"
proof (induction rv arbitrary: sv vs v' d')
  case Nil
  then show ?case by auto
next
  case (Cons p rv)
  obtain w e where p: "p = (w, e)" by (cases p)
  show ?case
  proof (cases "var_isGlobal w")
    case True
    with Cons.prems(1) p
    have run: "collectSprite rv (AList.update (var_name w) (w, e) sv) vs = (sv', vs')" by simp
    show ?thesis
    proof (cases "var_name w = k")
      case same: True
      have "map_of (AList.update (var_name w) (w, e) sv) k = Some (w, e)"
        using same by (simp add: AList.update_conv')
      from Cons.IH[OF run this True] show ?thesis .
    next
      case False
      then have "map_of (AList.update (var_name w) (w, e) sv) k = Some (v', d')"
        using Cons.prems(2) by (simp add: AList.update_conv')
      from Cons.IH[OF run this Cons.prems(3)] show ?thesis .
    qed
  next
    case False
    with Cons.prems(1) p
    have run: "collectSprite rv sv (AList.update (var_name w) (w, e) vs) = (sv', vs')" by simp
    from Cons.IH[OF run Cons.prems(2,3)] show ?thesis .
  qed
qed

lemma collectSprite_local_kept:
  "collectSprite rv sv vs = (sv', vs') \<Longrightarrow> map_of vs k = Some (v', d') \<Longrightarrow> \<not> var_isGlobal v' \<Longrightarrow>
   \<exists>v'' d''. map_of vs' k = Some (v'', d'') \<and> \<not> var_isGlobal v''"
proof (induction rv arbitrary: sv vs v' d')
  case Nil
  then show ?case by auto
next
  case (Cons p rv)
  obtain w e where p: "p = (w, e)" by (cases p)
  show ?case
  proof (cases "var_isGlobal w")
    case True
    with Cons.prems(1) p
    have run: "collectSprite rv (AList.update (var_name w) (w, e) sv) vs = (sv', vs')" by simp
    from Cons.IH[OF run Cons.prems(2,3)] show ?thesis .
  next
    case False
    with Cons.prems(1) p
    have run: "collectSprite rv sv (AList.update (var_name w) (w, e) vs) = (sv', vs')" by simp
    show ?thesis
    proof (cases "var_name w = k")
      case same: True
      have "map_of (AList.update (var_name w) (w, e) vs) k = Some (w, e)"
        using same by (simp add: AList.update_conv')
      from Cons.IH[OF run this False] show ?thesis .
    next
      case diff: False
      then have "map_of (AList.update (var_name w) (w, e) vs) k = Some (v', d')"
        using Cons.prems(2) by (simp add: AList.update_conv')
      from Cons.IH[OF run this Cons.prems(3)] show ?thesis .
    qed
  qed
qed

lemma collectSprite_stores:
  "collectSprite rv sv vs = (sv', vs') \<Longrightarrow> (v, d) \<in> set rv \<Longrightarrow>
   (if var_isGlobal v
    then \<exists>v' d'. map_of sv' (var_name v) = Some (v', d') \<and> var_isGlobal v'
    else \<exists>v' d'. map_of vs' (var_name v) = Some (v', d') \<and> \<not> var_isGlobal v')"
proof (induction rv arbitrary: sv vs)
  case Nil
  then show ?case by simp
next
  case (Cons p rv)
  obtain w e where p: "p = (w, e)" by (cases p)
  show ?case
  proof (cases "var_isGlobal w")
    case True
    with Cons.prems(1) p
    have run: "collectSprite rv (AList.update (var_name w) (w, e) sv) vs = (sv', vs')" by simp
    show ?thesis
    proof (cases "(v, d) \<in> set rv")
      case inrest: True
      from Cons.IH[OF run inrest] show ?thesis .
    next
      case False
      then have eq: "w = v" "e = d" using Cons.prems(2) p by auto
      have "map_of (AList.update (var_name w) (w, e) sv) (var_name v) = Some (w, e)"
        using eq by (simp add: AList.update_conv')
      from collectSprite_global_kept[OF run this True] show ?thesis using True eq by simp
    qed
  next
    case False
    with Cons.prems(1) p
    have run: "collectSprite rv sv (AList.update (var_name w) (w, e) vs) = (sv', vs')" by simp
    show ?thesis
    proof (cases "(v, d) \<in> set rv")
      case inrest: True
      from Cons.IH[OF run inrest] show ?thesis .
    next
      case notin: False
      then have eq: "w = v" "e = d" using Cons.prems(2) p by auto
      have "map_of (AList.update (var_name w) (w, e) vs) (var_name v) = Some (w, e)"
        using eq by (simp add: AList.update_conv')
      from collectSprite_local_kept[OF run this False] show ?thesis using False eq by simp
    qed
  qed
qed

text \<open>
  C10. For a target that declares no entry script (the field is absent, or is the empty
  string), \<open>compileScript\<close> returns the empty workspace at once: the table of globals
  and the target's own table come back as they were, and so do the effects, so no file
  was read and the compiler was not called. In the loop over the sprites such a sprite
  gets the empty workspace and an empty table of its own, and the table of globals goes
  on to the next sprite unchanged; the line printed before the call is the only effect.
  The older script returns in the same way.
\<close>

theorem compileScript_without_entry:
  "compileScript env None base sv vs eff = Inr (EmptyWorkspace, sv, vs, eff) \<and>
   compileScript env (Some []) base sv vs eff = Inr (EmptyWorkspace, sv, vs, eff) \<and>
   compileSprites env base globals [t\<lparr>sp_entry := None\<rparr>] eff =
     Inr ([(t\<lparr>sp_entry := None\<rparr>, EmptyWorkspace, [])], globals,
          say (''Compiling sprite: '' @ sp_name t) eff) \<and>
   fs_reads (say line eff) = fs_reads eff \<and>
   compile_calls (say line eff) = compile_calls eff \<and>
   compileScript_old oenv None obase sv vs reads = Inr (EmptyWorkspace, sv, vs, reads) \<and>
   compileScript_old oenv (Some []) obase sv vs reads = Inr (EmptyWorkspace, sv, vs, reads)"
  by (simp add: compileScript_def compileScript_old_def say_def)

lemma map_of_update_add:
  "map_of (AList.update k x m) ++ n = map_of m ++ ([k \<mapsto> x] ++ n)"
  by (rule ext) (simp add: map_add_def update_conv' split: option.splits)

lemma map_of_rev_Cons:
  "map_of (rev (p # ps)) = [fst p \<mapsto> snd p] ++ map_of (rev ps)"
  by (cases p) simp

lemma map_of_collectStage:
  "map_of (collectStage rv m) =
     map_of m ++ map_of (rev (map (\<lambda>(v, d). (var_name v, (v\<lparr>var_isGlobal := True\<rparr>, d))) rv))"
proof (induction rv arbitrary: m)
  case Nil
  show ?case by simp
next
  case (Cons p rv)
  obtain v d where p: "p = (v, d)" by (cases p)
  let ?f = "\<lambda>(v, d). (var_name v, (v\<lparr>var_isGlobal := True\<rparr>, d))"
  let ?M = "map_of (rev (map ?f rv))"
  have 1: "collectStage (p # rv) m =
             collectStage rv (AList.update (var_name v) (v\<lparr>var_isGlobal := True\<rparr>, d) m)"
    unfolding p by simp
  have 2: "map_of (rev (map ?f (p # rv))) =
             [var_name v \<mapsto> (v\<lparr>var_isGlobal := True\<rparr>, d)] ++ ?M"
    unfolding list.map map_of_rev_Cons p by simp
  show ?case
    unfolding 1 2 Cons.IH by (rule map_of_update_add)
qed

lemma map_of_collectSprite:
  "collectSprite rv sv vs = (sv', vs') \<Longrightarrow>
     map_of sv' =
       map_of sv ++ map_of (rev (map (\<lambda>(v, d). (var_name v, (v, d)))
                                  (filter (\<lambda>(v, d). var_isGlobal v) rv))) \<and>
     map_of vs' =
       map_of vs ++ map_of (rev (map (\<lambda>(v, d). (var_name v, (v, d)))
                                  (filter (\<lambda>(v, d). \<not> var_isGlobal v) rv)))"
proof (induction rv arbitrary: sv vs)
  case Nil
  then show ?case by simp
next
  case (Cons p rv)
  obtain v d where p: "p = (v, d)" by (cases p)
  let ?f = "\<lambda>(v, d). (var_name v, (v, d))"
  let ?G = "map_of (rev (map ?f (filter (\<lambda>(v, d). var_isGlobal v) rv)))"
  let ?L = "map_of (rev (map ?f (filter (\<lambda>(v, d). \<not> var_isGlobal v) rv)))"
  show ?case
  proof (cases "var_isGlobal v")
    case True
    with Cons.prems p
    have "collectSprite rv (AList.update (var_name v) (v, d) sv) vs = (sv', vs')" by simp
    from Cons.IH[OF this]
    have g: "map_of sv' = map_of (AList.update (var_name v) (v, d) sv) ++ ?G"
      and l: "map_of vs' = map_of vs ++ ?L"
      by blast+
    have e1: "filter (\<lambda>(v, d). var_isGlobal v) (p # rv) = p # filter (\<lambda>(v, d). var_isGlobal v) rv"
      and e2: "filter (\<lambda>(v, d). \<not> var_isGlobal v) (p # rv) = filter (\<lambda>(v, d). \<not> var_isGlobal v) rv"
      using True unfolding p by simp_all
    have 2: "map_of (rev (map ?f (p # filter (\<lambda>(v, d). var_isGlobal v) rv))) =
               [var_name v \<mapsto> (v, d)] ++ ?G"
      unfolding list.map map_of_rev_Cons p by simp
    show ?thesis
      unfolding e1 e2 2 g l by (rule conjI[OF map_of_update_add refl])
  next
    case False
    with Cons.prems p
    have "collectSprite rv sv (AList.update (var_name v) (v, d) vs) = (sv', vs')" by simp
    from Cons.IH[OF this]
    have g: "map_of sv' = map_of sv ++ ?G"
      and l: "map_of vs' = map_of (AList.update (var_name v) (v, d) vs) ++ ?L"
      by blast+
    have e1: "filter (\<lambda>(v, d). var_isGlobal v) (p # rv) = filter (\<lambda>(v, d). var_isGlobal v) rv"
      and e2: "filter (\<lambda>(v, d). \<not> var_isGlobal v) (p # rv) =
                 p # filter (\<lambda>(v, d). \<not> var_isGlobal v) rv"
      using False unfolding p by simp_all
    have 2: "map_of (rev (map ?f (p # filter (\<lambda>(v, d). \<not> var_isGlobal v) rv))) =
               [var_name v \<mapsto> (v, d)] ++ ?L"
      unfolding list.map map_of_rev_Cons p by simp
    show ?thesis
      unfolding e1 e2 2 g l by (rule conjI[OF refl map_of_update_add])
  qed
qed

text \<open>
  C2. When the entry script of a target is read, parsed, compiled and serialized without
  an exception, \<open>compileScript\<close> returns, and the variables the compiler discovered
  are classified as follows. For the stage (\<open>stageVariables\<close> is \<open>null\<close>) every
  discovered variable is stored in the table of globals under its name, with its type,
  its export name and its default value, and marked global however it was declared. For
  a sprite the variables declared global are stored in the table of globals and those
  declared local in the sprite's own table, each under its name and as it was
  discovered. Of two discovered variables with one name the later one is stored, an
  entry the table had under a discovered name is replaced, and every other entry of
  either table stays as it was: nothing else is added to either.
\<close>

theorem discovered_variables_classified:
  assumes "e \<noteq> []"
    and "readFileSync env (fullPathOf env e) = Some src"
    and "parse env src = Inr program"
    and "compile env program
           \<lparr>mod_name = [], mod_variables = combinedVariables sv0 vs, mod_children = base,
            mod_filename = fullPathOf env e\<rparr> = Inr result"
    and "serialize env (result_code result) = Inr w"
  shows "\<exists>sv' vs' eff'.
           compileScript env (Some e) base sv0 vs eff = Inr (Workspace w, sv', vs', eff') \<and>
           (case sv0 of
              None \<Rightarrow>
                sv' = None \<and>
                map_of vs' =
                  map_of vs ++
                  map_of (rev (map (\<lambda>(v, d). (var_name v, (v\<lparr>var_isGlobal := True\<rparr>, d)))
                                 (result_variables result))) \<and>
                set (keys vs') =
                  set (keys vs) \<union> set [var_name v. (v, d) \<leftarrow> result_variables result] \<and>
                (\<forall>(v, d) \<in> set (result_variables result).
                   \<exists>v' d'. map_of vs' (var_name v) = Some (v', d') \<and> var_isGlobal v')
            | Some globals \<Rightarrow>
                (\<exists>globals'. sv' = Some globals' \<and>
                   map_of globals' =
                     map_of globals ++
                     map_of (rev (map (\<lambda>(v, d). (var_name v, (v, d)))
                                    (filter (\<lambda>(v, d). var_isGlobal v)
                                       (result_variables result)))) \<and>
                   map_of vs' =
                     map_of vs ++
                     map_of (rev (map (\<lambda>(v, d). (var_name v, (v, d)))
                                    (filter (\<lambda>(v, d). \<not> var_isGlobal v)
                                       (result_variables result)))) \<and>
                   set (keys globals') =
                     set (keys globals) \<union>
                     set [var_name v. (v, d) \<leftarrow> result_variables result, var_isGlobal v] \<and>
                   set (keys vs') =
                     set (keys vs) \<union>
                     set [var_name v. (v, d) \<leftarrow> result_variables result, \<not> var_isGlobal v] \<and>
                   (\<forall>(v, d) \<in> set (result_variables result).
                      if var_isGlobal v
                      then \<exists>v' d'. map_of globals' (var_name v) = Some (v', d') \<and> var_isGlobal v'
                      else \<exists>v' d'. map_of vs' (var_name v) = Some (v', d') \<and> \<not> var_isGlobal v')))"
proof (cases sv0)
  case None
  let ?vs' = "collectStage (result_variables result) vs"
  have run: "compileScript env (Some e) base sv0 vs eff =
      Inr (Workspace w, None, ?vs',
           eff\<lparr>fs_reads := fs_reads eff @ [fullPathOf env e],
               compile_calls := compile_calls eff @ [(fullPathOf env e, combinedVariables sv0 vs)]\<rparr>)"
    using assms None by (simp add: compileScript_def Let_def)
  have k: "set (keys ?vs') = set (keys vs) \<union> set [var_name v. (v, d) \<leftarrow> result_variables result]"
  proof -
    have "[var_name v. (v, d) \<leftarrow> result_variables result] =
            map (\<lambda>p. var_name (fst p)) (result_variables result)"
      by (induction "result_variables result") (auto simp: case_prod_beta)
    then show ?thesis by (simp add: keys_collectStage)
  qed
  have g: "\<forall>(v, d) \<in> set (result_variables result).
             \<exists>v' d'. map_of ?vs' (var_name v) = Some (v', d') \<and> var_isGlobal v'"
    using collectStage_marks_global by fast
  have m: "map_of ?vs' =
             map_of vs ++
             map_of (rev (map (\<lambda>(v, d). (var_name v, (v\<lparr>var_isGlobal := True\<rparr>, d)))
                            (result_variables result)))"
    by (rule map_of_collectStage)
  show ?thesis
    unfolding None option.case
    by (rule exI[of _ None], rule exI[of _ ?vs'], rule exI, intro conjI,
        rule run[unfolded None], rule refl, rule m, rule k, rule g)
next
  case (Some globals)
  obtain g' vs' where c: "collectSprite (result_variables result) globals vs = (g', vs')"
    by (cases "collectSprite (result_variables result) globals vs")
  have run: "compileScript env (Some e) base sv0 vs eff =
      Inr (Workspace w, Some g', vs',
           eff\<lparr>fs_reads := fs_reads eff @ [fullPathOf env e],
               compile_calls := compile_calls eff @ [(fullPathOf env e, combinedVariables sv0 vs)]\<rparr>)"
    using assms Some c by (simp add: compileScript_def Let_def)
  note k = keys_collectSprite[OF c]
  have st: "\<forall>(v, d) \<in> set (result_variables result).
              if var_isGlobal v
              then \<exists>v' d'. map_of g' (var_name v) = Some (v', d') \<and> var_isGlobal v'
              else \<exists>v' d'. map_of vs' (var_name v) = Some (v', d') \<and> \<not> var_isGlobal v'"
    using collectSprite_stores[OF c] by fast
  from map_of_collectSprite[OF c]
  have m1: "map_of g' =
              map_of globals ++
              map_of (rev (map (\<lambda>(v, d). (var_name v, (v, d)))
                             (filter (\<lambda>(v, d). var_isGlobal v) (result_variables result))))"
    and m2: "map_of vs' =
              map_of vs ++
              map_of (rev (map (\<lambda>(v, d). (var_name v, (v, d)))
                             (filter (\<lambda>(v, d). \<not> var_isGlobal v) (result_variables result))))"
    by blast+
  from k have k1: "set (keys g') =
                     set (keys globals) \<union>
                     set [var_name v. (v, d) \<leftarrow> result_variables result, var_isGlobal v]"
    and k2: "set (keys vs') =
                     set (keys vs) \<union>
                     set [var_name v. (v, d) \<leftarrow> result_variables result, \<not> var_isGlobal v]"
    by simp_all
  show ?thesis
    unfolding Some option.case
    by (rule exI[of _ "Some g'"], rule exI[of _ vs'], rule exI, intro conjI,
        rule run[unfolded Some], rule exI[of _ g'], intro conjI,
        rule refl, rule m1, rule m2, rule k1, rule k2, rule st)
qed


lemmas example_defs =
  example_env_def example_scripts_def example_var_def example_stage_def example_sprite_def
  example_sprites_def fullPathOf_def

text \<open>
  The theorem on the example project. The script of the stage declares \<open>score\<close> without
  \<open>global\<close>, and \<open>score\<close> is stored as a global scalar with its default \<open>0\<close>. The
  script of the sprite \<open>Keeper\<close> declares the global scalar \<open>lives\<close> with default
  \<open>3\<close> and the local list \<open>trail\<close>: the first is stored in the table of globals, beside
  \<open>score\<close>, and the second in the sprite's table only.
\<close>

theorem discovered_variables_classified_witness:
  "(\<exists>vs' eff'.
      compileScript (example_env id) (Some ''stage.fuse'') () None []
        \<lparr>fs_reads = [], compile_calls = [], console = []\<rparr> = Inr (Workspace (), None, vs', eff') \<and>
      set (keys vs') = {''score''} \<and>
      map_of vs' ''score'' =
        Some (\<lparr>var_type = ''scalar'', var_name = ''score'', var_isGlobal = True,
               var_exportName = None\<rparr>, Num 0)) \<and>
   (\<exists>globals' vs' eff'.
      compileScript (example_env id) (Some ''keeper.fuse'') ()
        (Some [(''score'', example_var ''scalar'' ''score'' True, Num 0)]) []
        \<lparr>fs_reads = [], compile_calls = [], console = []\<rparr> =
        Inr (Workspace (), Some globals', vs', eff') \<and>
      set (keys globals') = {''lives'', ''score''} \<and> set (keys vs') = {''trail''} \<and>
      map_of globals' ''lives'' =
        Some (\<lparr>var_type = ''scalar'', var_name = ''lives'', var_isGlobal = True,
               var_exportName = None\<rparr>, Num 3) \<and>
      map_of globals' ''score'' =
        Some (\<lparr>var_type = ''scalar'', var_name = ''score'', var_isGlobal = True,
               var_exportName = None\<rparr>, Num 0) \<and>
      map_of globals' ''trail'' = None \<and>
      map_of vs' ''trail'' =
        Some (\<lparr>var_type = ''list'', var_name = ''trail'', var_isGlobal = False,
               var_exportName = None\<rparr>, Undefined) \<and>
      map_of vs' ''lives'' = None)"
proof -
  let ?env = "example_env id"
  let ?eff = "\<lparr>fs_reads = [], compile_calls = [], console = []\<rparr>"
  let ?rs = "\<lparr>result_variables = [(example_var ''scalar'' ''score'' False, Num 0)],
             result_code = ()\<rparr>"
  let ?rk = "\<lparr>result_variables = [(example_var ''scalar'' ''lives'' True, Num 3),
                                  (example_var ''list'' ''trail'' False, Undefined)],
             result_code = ()\<rparr>"
  let ?g = "[(''score'', example_var ''scalar'' ''score'' True, Num 0)]"
  have h1: "readFileSync ?env (fullPathOf ?env ''stage.fuse'') = Some ''stage script''"
    and h2: "parse ?env ''stage script'' = Inr ''stage script''"
    and h3: "compile ?env ''stage script''
               \<lparr>mod_name = [], mod_variables = combinedVariables None [], mod_children = (),
                mod_filename = fullPathOf ?env ''stage.fuse''\<rparr> = Inr ?rs"
    and h4: "serialize ?env (result_code ?rs) = Inr ()"
    by (simp_all add: example_defs)
  have e: "''stage.fuse'' \<noteq> []" "''keeper.fuse'' \<noteq> []" by simp_all
  from discovered_variables_classified [OF e(1) h1 h2 h3 h4, of ?eff]
  obtain vs1 eff1 where
    r1: "compileScript ?env (Some ''stage.fuse'') () None [] ?eff =
           Inr (Workspace (), None, vs1, eff1)"
    and m1: "map_of vs1 =
               map_of ([] :: var_map) ++
               map_of (rev (map (\<lambda>(v, d). (var_name v, (v\<lparr>var_isGlobal := True\<rparr>, d)))
                              (result_variables ?rs)))"
    and k1: "set (keys vs1) =
               set (keys ([] :: var_map)) \<union> set [var_name v. (v, d) \<leftarrow> result_variables ?rs]"
    unfolding option.case by blast
  have A: "\<exists>vs' eff'.
      compileScript ?env (Some ''stage.fuse'') () None [] ?eff = Inr (Workspace (), None, vs', eff') \<and>
      set (keys vs') = {''score''} \<and>
      map_of vs' ''score'' =
        Some (\<lparr>var_type = ''scalar'', var_name = ''score'', var_isGlobal = True,
               var_exportName = None\<rparr>, Num 0)"
  proof -
    have p: "map_of vs1 ''score'' =
        Some (\<lparr>var_type = ''scalar'', var_name = ''score'', var_isGlobal = True,
               var_exportName = None\<rparr>, Num 0)"
      unfolding m1 by (simp add: example_var_def)
    from k1 have k: "set (keys vs1) = {''score''}" by (simp add: keys_def example_var_def)
    from r1 k p show ?thesis by (intro exI[of _ vs1] exI[of _ eff1] conjI)
  qed
  have j1: "readFileSync ?env (fullPathOf ?env ''keeper.fuse'') = Some ''keeper script''"
    and j2: "parse ?env ''keeper script'' = Inr ''keeper script''"
    and j3: "compile ?env ''keeper script''
               \<lparr>mod_name = [], mod_variables = combinedVariables (Some ?g) [], mod_children = (),
                mod_filename = fullPathOf ?env ''keeper.fuse''\<rparr> = Inr ?rk"
    and j4: "serialize ?env (result_code ?rk) = Inr ()"
    by (simp_all add: example_defs)
  from discovered_variables_classified [OF e(2) j1 j2 j3 j4, of ?eff]
  obtain g2 vs2 eff2 where
    r2: "compileScript ?env (Some ''keeper.fuse'') () (Some ?g) [] ?eff =
           Inr (Workspace (), Some g2, vs2, eff2)"
    and m2: "map_of g2 =
               map_of ?g ++
               map_of (rev (map (\<lambda>(v, d). (var_name v, (v, d)))
                              (filter (\<lambda>(v, d). var_isGlobal v) (result_variables ?rk))))"
    and m3: "map_of vs2 =
               map_of ([] :: var_map) ++
               map_of (rev (map (\<lambda>(v, d). (var_name v, (v, d)))
                              (filter (\<lambda>(v, d). \<not> var_isGlobal v) (result_variables ?rk))))"
    and k2: "set (keys g2) =
               set (keys ?g) \<union> set [var_name v. (v, d) \<leftarrow> result_variables ?rk, var_isGlobal v]"
    and k3: "set (keys vs2) =
               set (keys ([] :: var_map)) \<union>
               set [var_name v. (v, d) \<leftarrow> result_variables ?rk, \<not> var_isGlobal v]"
    unfolding option.case by blast
  have B: "\<exists>globals' vs' eff'.
      compileScript ?env (Some ''keeper.fuse'') () (Some ?g) [] ?eff =
        Inr (Workspace (), Some globals', vs', eff') \<and>
      set (keys globals') = {''lives'', ''score''} \<and> set (keys vs') = {''trail''} \<and>
      map_of globals' ''lives'' =
        Some (\<lparr>var_type = ''scalar'', var_name = ''lives'', var_isGlobal = True,
               var_exportName = None\<rparr>, Num 3) \<and>
      map_of globals' ''score'' =
        Some (\<lparr>var_type = ''scalar'', var_name = ''score'', var_isGlobal = True,
               var_exportName = None\<rparr>, Num 0) \<and>
      map_of globals' ''trail'' = None \<and>
      map_of vs' ''trail'' =
        Some (\<lparr>var_type = ''list'', var_name = ''trail'', var_isGlobal = False,
               var_exportName = None\<rparr>, Undefined) \<and>
      map_of vs' ''lives'' = None"
  proof -
    have p: "map_of g2 ''lives'' =
        Some (\<lparr>var_type = ''scalar'', var_name = ''lives'', var_isGlobal = True,
               var_exportName = None\<rparr>, Num 3)"
      "map_of g2 ''score'' =
        Some (\<lparr>var_type = ''scalar'', var_name = ''score'', var_isGlobal = True,
               var_exportName = None\<rparr>, Num 0)"
      "map_of g2 ''trail'' = None"
      unfolding m2 by (simp_all add: example_var_def map_add_def)
    have q: "map_of vs2 ''trail'' =
        Some (\<lparr>var_type = ''list'', var_name = ''trail'', var_isGlobal = False,
               var_exportName = None\<rparr>, Undefined)"
      "map_of vs2 ''lives'' = None"
      unfolding m3 by (simp_all add: example_var_def map_add_def)
    from k2 have k: "set (keys g2) = {''lives'', ''score''}"
      by (simp add: keys_def example_var_def)
    from k3 have k': "set (keys vs2) = {''trail''}"
      by (simp add: keys_def example_var_def)
    from r2 k k' p q show ?thesis by (intro exI[of _ g2] exI[of _ vs2] exI[of _ eff2] conjI)
  qed
  from A B show ?thesis by (rule conjI)
qed

lemma keys_new_Map_from:
  "set (keys (new_Map_from m es)) = set (keys m) \<union> fst ` set es"
  by (induction m es rule: new_Map_from.induct) (auto simp: keys_update)

lemma keys_combinedVariables:
  "set (keys (combinedVariables (Some g) [])) = set (keys g)"
  "set (keys (combinedVariables None [])) = {}"
  by (simp_all add: combinedVariables_def new_Map_def keys_new_Map_from) (simp_all add: keys_def)

lemma compileScript_calls:
  assumes "compileScript env entry base sv0 vs eff = Inr (ws, sv', vs', eff')"
  shows "compile_calls eff' =
           compile_calls eff @
           (if entry = None \<or> entry = Some [] then []
            else [(fullPathOf env (the entry), combinedVariables sv0 vs)])"
  using assms
  by (auto simp: compileScript_def Let_def split: if_splits option.splits sum.splits prod.splits)

lemma compileScript_sprite_globals:
  assumes "compileScript env entry base (Some g) vs eff = Inr (ws, sv', vs', eff')"
  shows "\<exists>g'. sv' = Some g' \<and> set (keys g) \<subseteq> set (keys g')"
  using assms
  by (auto simp: compileScript_def Let_def dest!: keys_collectSprite
           split: if_splits option.splits sum.splits prod.splits)

lemma compileSprites_trace:
  "compileSprites env base g ts eff = Inr (res, g', eff') \<Longrightarrow>
   set (keys g) \<subseteq> set (keys g') \<and>
   (\<exists>new. compile_calls eff' = compile_calls eff @ new \<and>
      map fst new = map (\<lambda>t. fullPathOf env (the (sp_entry t))) (filter hasEntry ts) \<and>
      (\<forall>(file, scope) \<in> set new.
         set (keys g) \<subseteq> set (keys scope) \<and> set (keys scope) \<subseteq> set (keys g')))"
proof (induction ts arbitrary: g eff res)
  case Nil
  then show ?case by simp
next
  case (Cons t ts)
  from Cons.prems obtain ws sv vs eff1 where
    step: "compileScript env (sp_entry t) base (Some g) []
             (say (''Compiling sprite: '' @ sp_name t) eff) = Inr (ws, sv, vs, eff1)"
    by (auto split: sum.splits)
  from compileScript_sprite_globals[OF step] obtain g1 where
    sv: "sv = Some g1" and mono1: "set (keys g) \<subseteq> set (keys g1)" by blast
  from Cons.prems step sv obtain res1 where
    rest: "compileSprites env base g1 ts eff1 = Inr (res1, g', eff')"
    by (auto split: sum.splits)
  from Cons.IH[OF rest] obtain new where
    mono2: "set (keys g1) \<subseteq> set (keys g')"
    and calls2: "compile_calls eff' = compile_calls eff1 @ new"
    and files2: "map fst new = map (\<lambda>t. fullPathOf env (the (sp_entry t))) (filter hasEntry ts)"
    and scopes2: "\<forall>(file, scope) \<in> set new.
         set (keys g1) \<subseteq> set (keys scope) \<and> set (keys scope) \<subseteq> set (keys g')"
    by blast
  let ?first = "if hasEntry t then [(fullPathOf env (the (sp_entry t)), combinedVariables (Some g) [])]
                else []"
  have calls1: "compile_calls eff1 = compile_calls eff @ ?first"
    using compileScript_calls[OF step] by (simp add: say_def hasEntry_def)
  have "compile_calls eff' = compile_calls eff @ (?first @ new)"
    using calls1 calls2 by simp
  moreover have "map fst (?first @ new) =
      map (\<lambda>t. fullPathOf env (the (sp_entry t))) (filter hasEntry (t # ts))"
    using files2 by simp
  moreover have "\<forall>(file, scope) \<in> set (?first @ new).
         set (keys g) \<subseteq> set (keys scope) \<and> set (keys scope) \<subseteq> set (keys g')"
    using scopes2 mono1 mono2 by (fastforce simp: keys_combinedVariables)
  moreover have "set (keys g) \<subseteq> set (keys g')" using mono1 mono2 by blast
  ultimately show ?case by blast
qed

lemma compileSprites_append:
  "compileSprites env base g (xs @ ys) eff =
     (case compileSprites env base g xs eff of
        Inl err \<Rightarrow> Inl err
      | Inr (r1, g1, eff1) \<Rightarrow>
          (case compileSprites env base g1 ys eff1 of
             Inl err \<Rightarrow> Inl err
           | Inr (r2, g2, eff2) \<Rightarrow> Inr (r1 @ r2, g2, eff2)))"
proof (induction xs arbitrary: g eff)
  case Nil
  then show ?case by (simp split: sum.splits prod.splits)
next
  case (Cons t xs)
  show ?case
    by (simp add: Cons.IH split: sum.splits prod.splits option.splits)
qed


lemma compileTargets_Inr:
  assumes "compileTargets env base stage sprites = Inr r"
  obtains ws sv g0 eff1 ts where
    "compileScript env (st_entry stage) base None []
       (say ''Compiling stage...'' \<lparr>fs_reads = [], compile_calls = [], console = []\<rparr>) =
       Inr (ws, sv, g0, eff1)"
    "compileSprites env base g0 sprites eff1 = Inr (ts, stageVariables r, run_effects r)"
  using assms
  by (auto simp: compileTargets_def split: sum.splits prod.splits)



lemma compileScript_sprite_stores:
  assumes run: "compileScript env (Some e) base (Some g) vs eff = Inr (ws, sv', vs', eff')"
    and e: "e \<noteq> []"
    and src: "readFileSync env (fullPathOf env e) = Some src"
    and program: "parse env src = Inr program"
    and result: "compile env program
           \<lparr>mod_name = [], mod_variables = combinedVariables (Some g) vs, mod_children = base,
            mod_filename = fullPathOf env e\<rparr> = Inr result"
    and v: "(v, d) \<in> set (result_variables result)" "var_isGlobal v"
  shows "\<exists>g'. sv' = Some g' \<and> var_name v \<in> set (keys g')"
proof -
  obtain g' l' where c: "collectSprite (result_variables result) g vs = (g', l')"
    by (cases "collectSprite (result_variables result) g vs")
  from run e src program result c have "sv' = Some g'"
    by (auto simp add: compileScript_def Let_def split: sum.splits)
  moreover from keys_collectSprite[OF c] v have "var_name v \<in> set (keys g')"
    by force
  ultimately show ?thesis by blast
qed

lemma compileScript_stage_stores:
  assumes run: "compileScript env (Some e) base None vs eff = Inr (ws, sv', vs', eff')"
    and e: "e \<noteq> []"
    and src: "readFileSync env (fullPathOf env e) = Some src"
    and program: "parse env src = Inr program"
    and result: "compile env program
           \<lparr>mod_name = [], mod_variables = combinedVariables None vs, mod_children = base,
            mod_filename = fullPathOf env e\<rparr> = Inr result"
    and v: "(v, d) \<in> set (result_variables result)"
  shows "var_name v \<in> set (keys vs')"
proof -
  from run e src program result have "vs' = collectStage (result_variables result) vs"
    by (auto simp add: compileScript_def Let_def split: sum.splits)
  with v show ?thesis by (force simp add: keys_collectStage)
qed

text \<open>
  C4. In a run that compiles the stage and then the sprites in their declared order, the
  names in the table of globals after any number of targets are still in it at the end
  of the compilation, and they are in the combined scope of every call of the compiler
  made later, one for each later sprite that has an entry script. A name enters the
  table when the compiler discovers a variable of that name in the script of the stage,
  or a variable declared global in the script of a sprite: such a name is in the table
  from then on, so at the end of the compilation, and in the combined scope of the
  call for every sprite compiled after that target. (The rest of the pipeline,
  \<open>buildProject\<close>, reads the table and returns no new one.)
\<close>

theorem scope_monotonic:
  assumes before: "compileTargets env base stage pre = Inr r_before"
    and whole: "compileTargets env base stage (pre @ post) = Inr r_all"
  shows "set (keys (stageVariables r_before)) \<subseteq> set (keys (stageVariables r_all)) \<and>
         (\<exists>later.
            compile_calls (run_effects r_all) = compile_calls (run_effects r_before) @ later \<and>
            map fst later = map (\<lambda>t. fullPathOf env (the (sp_entry t))) (filter hasEntry post) \<and>
            (\<forall>(file, scope) \<in> set later.
               set (keys (stageVariables r_before)) \<subseteq> set (keys scope))) \<and>
         (\<forall>e src program result v d.
            st_entry stage = Some e \<and> e \<noteq> [] \<and>
            readFileSync env (fullPathOf env e) = Some src \<and>
            parse env src = Inr program \<and>
            compile env program
              \<lparr>mod_name = [], mod_variables = combinedVariables None [], mod_children = base,
               mod_filename = fullPathOf env e\<rparr> = Inr result \<and>
            (v, d) \<in> set (result_variables result) \<longrightarrow>
            var_name v \<in> set (keys (stageVariables r_before))) \<and>
         (\<forall>sprite rest e src program result v d.
            post = sprite # rest \<and> sp_entry sprite = Some e \<and> e \<noteq> [] \<and>
            readFileSync env (fullPathOf env e) = Some src \<and>
            parse env src = Inr program \<and>
            compile env program
              \<lparr>mod_name = [],
               mod_variables = combinedVariables (Some (stageVariables r_before)) [],
               mod_children = base, mod_filename = fullPathOf env e\<rparr> = Inr result \<and>
            (v, d) \<in> set (result_variables result) \<and> var_isGlobal v \<longrightarrow>
            var_name v \<in> set (keys (stageVariables r_all)) \<and>
            (\<exists>own later.
               compile_calls (run_effects r_all) =
                 compile_calls (run_effects r_before) @ own # later \<and>
               map fst later =
                 map (\<lambda>t. fullPathOf env (the (sp_entry t))) (filter hasEntry rest) \<and>
               (\<forall>(file, scope) \<in> set later. var_name v \<in> set (keys scope))))"
proof -
  from before obtain ws sv g0 eff1 ts1 where
    stage: "compileScript env (st_entry stage) base None []
       (say ''Compiling stage...'' \<lparr>fs_reads = [], compile_calls = [], console = []\<rparr>) =
       Inr (ws, sv, g0, eff1)"
    and run1: "compileSprites env base g0 pre eff1 =
                 Inr (ts1, stageVariables r_before, run_effects r_before)"
    by (rule compileTargets_Inr)
  from whole stage obtain ts3 where
    run3: "compileSprites env base g0 (pre @ post) eff1 =
             Inr (ts3, stageVariables r_all, run_effects r_all)"
    by (auto elim!: compileTargets_Inr)
  from run3 run1 obtain tp where
    runp: "compileSprites env base (stageVariables r_before) post (run_effects r_before) =
             Inr (tp, stageVariables r_all, run_effects r_all)"
    unfolding compileSprites_append[of _ _ _ pre] by (auto split: sum.splits prod.splits)
  from compileSprites_trace[OF runp]
  have A: "set (keys (stageVariables r_before)) \<subseteq> set (keys (stageVariables r_all))"
    and B: "\<exists>later.
            compile_calls (run_effects r_all) = compile_calls (run_effects r_before) @ later \<and>
            map fst later = map (\<lambda>t. fullPathOf env (the (sp_entry t))) (filter hasEntry post) \<and>
            (\<forall>(file, scope) \<in> set later.
               set (keys (stageVariables r_before)) \<subseteq> set (keys scope))"
    by fastforce+
  have C: "var_name v \<in> set (keys (stageVariables r_before))"
    if h: "st_entry stage = Some e \<and> e \<noteq> [] \<and>
            readFileSync env (fullPathOf env e) = Some src \<and>
            parse env src = Inr program \<and>
            compile env program
              \<lparr>mod_name = [], mod_variables = combinedVariables None [], mod_children = base,
               mod_filename = fullPathOf env e\<rparr> = Inr result \<and>
            (v, d) \<in> set (result_variables result)"
    for e src program result v d
  proof -
    from stage h have s: "compileScript env (Some e) base None []
       (say ''Compiling stage...'' \<lparr>fs_reads = [], compile_calls = [], console = []\<rparr>) =
       Inr (ws, sv, g0, eff1)" by simp
    from h have "var_name v \<in> set (keys g0)"
      using compileScript_stage_stores[OF s, of src program result v d] by blast
    with compileSprites_trace[OF run1] show ?thesis by blast
  qed
  have D: "var_name v \<in> set (keys (stageVariables r_all)) \<and>
            (\<exists>own later.
               compile_calls (run_effects r_all) =
                 compile_calls (run_effects r_before) @ own # later \<and>
               map fst later =
                 map (\<lambda>t. fullPathOf env (the (sp_entry t))) (filter hasEntry rest) \<and>
               (\<forall>(file, scope) \<in> set later. var_name v \<in> set (keys scope)))"
    if h: "post = sprite # rest \<and> sp_entry sprite = Some e \<and> e \<noteq> [] \<and>
            readFileSync env (fullPathOf env e) = Some src \<and>
            parse env src = Inr program \<and>
            compile env program
              \<lparr>mod_name = [],
               mod_variables = combinedVariables (Some (stageVariables r_before)) [],
               mod_children = base, mod_filename = fullPathOf env e\<rparr> = Inr result \<and>
            (v, d) \<in> set (result_variables result) \<and> var_isGlobal v"
    for sprite rest e src program result v d
  proof -
    let ?eff = "say (''Compiling sprite: '' @ sp_name sprite) (run_effects r_before)"
    from runp h obtain ws' sv' vs' eff2 where
      step: "compileScript env (Some e) base (Some (stageVariables r_before)) [] ?eff =
               Inr (ws', sv', vs', eff2)"
      by (auto split: sum.splits)
    from h obtain g1 where sv': "sv' = Some g1" and in1: "var_name v \<in> set (keys g1)"
      using compileScript_sprite_stores[OF step, of src program result v d] by blast
    from runp h step sv' obtain res1 where
      rest: "compileSprites env base g1 rest eff2 =
               Inr (res1, stageVariables r_all, run_effects r_all)"
      by (auto split: sum.splits)
    from compileSprites_trace[OF rest] obtain later where
      mono: "set (keys g1) \<subseteq> set (keys (stageVariables r_all))"
      and calls: "compile_calls (run_effects r_all) = compile_calls eff2 @ later"
      and files: "map fst later =
                    map (\<lambda>t. fullPathOf env (the (sp_entry t))) (filter hasEntry rest)"
      and scopes: "\<forall>(file, scope) \<in> set later. set (keys g1) \<subseteq> set (keys scope)"
      by fastforce
    from h have own: "compile_calls eff2 =
             compile_calls (run_effects r_before) @
             [(fullPathOf env e, combinedVariables (Some (stageVariables r_before)) [])]"
      using compileScript_calls[OF step] by (simp add: say_def)
    have 1: "var_name v \<in> set (keys (stageVariables r_all))" using mono in1 by blast
    have 2: "compile_calls (run_effects r_all) =
               compile_calls (run_effects r_before) @
               (fullPathOf env e, combinedVariables (Some (stageVariables r_before)) []) # later"
      unfolding calls own by simp
    have 3: "\<forall>(file, scope) \<in> set later. var_name v \<in> set (keys scope)"
      using scopes in1 by fastforce
    from 1 2 files 3 show ?thesis by blast
  qed
  from C have C': "\<forall>e src program result v d.
            st_entry stage = Some e \<and> e \<noteq> [] \<and>
            readFileSync env (fullPathOf env e) = Some src \<and>
            parse env src = Inr program \<and>
            compile env program
              \<lparr>mod_name = [], mod_variables = combinedVariables None [], mod_children = base,
               mod_filename = fullPathOf env e\<rparr> = Inr result \<and>
            (v, d) \<in> set (result_variables result) \<longrightarrow>
            var_name v \<in> set (keys (stageVariables r_before))"
    by (intro allI impI)
  from D have D': "\<forall>sprite rest e src program result v d.
            post = sprite # rest \<and> sp_entry sprite = Some e \<and> e \<noteq> [] \<and>
            readFileSync env (fullPathOf env e) = Some src \<and>
            parse env src = Inr program \<and>
            compile env program
              \<lparr>mod_name = [],
               mod_variables = combinedVariables (Some (stageVariables r_before)) [],
               mod_children = base, mod_filename = fullPathOf env e\<rparr> = Inr result \<and>
            (v, d) \<in> set (result_variables result) \<and> var_isGlobal v \<longrightarrow>
            var_name v \<in> set (keys (stageVariables r_all)) \<and>
            (\<exists>own later.
               compile_calls (run_effects r_all) =
                 compile_calls (run_effects r_before) @ own # later \<and>
               map fst later =
                 map (\<lambda>t. fullPathOf env (the (sp_entry t))) (filter hasEntry rest) \<and>
               (\<forall>(file, scope) \<in> set later. var_name v \<in> set (keys scope)))"
    by (intro allI impI)
  from A B C' D' show ?thesis by (intro conjI)
qed


lemmas run_defs =
  compileTargets_def compileScript_def combinedVariables_def new_Map_def say_def Let_def

lemma example_run_walker:
  "\<exists>r. compileTargets (example_env id) () example_stage
          [example_sprite ''Walker'' (Some ''walker.fuse'')] = Inr r \<and>
        keys (stageVariables r) = [''score'']"
  by (simp add: run_defs example_defs keys_def)


lemma example_run_all:
  "\<exists>r. compileTargets (example_env id) () example_stage
          ([example_sprite ''Walker'' (Some ''walker.fuse'')] @
           [example_sprite ''Keeper'' (Some ''keeper.fuse'')] @
           [example_sprite ''Runner'' (Some ''walker.fuse''), example_sprite ''Idle'' None]) = Inr r"
  by (simp add: run_defs example_defs keys_def)


text \<open>
  The theorem on the example project, before and after the sprites that follow
  \<open>Walker\<close>. The stage's \<open>score\<close>, discovered in its script, is in the table after
  \<open>Walker\<close> and in the scope of the calls for \<open>Keeper\<close> and \<open>Runner\<close>. The script of
  \<open>Keeper\<close> declares the global \<open>lives\<close>, which is not in the table before: it is in
  the table at the end and in the scope of the one later call, for \<open>Runner\<close>.
\<close>

theorem scope_monotonic_witness:
  "\<exists>r_before r_all.
     compileTargets (example_env id) () example_stage
       [example_sprite ''Walker'' (Some ''walker.fuse'')] = Inr r_before \<and>
     compileTargets (example_env id) () example_stage
       ([example_sprite ''Walker'' (Some ''walker.fuse'')] @
        [example_sprite ''Keeper'' (Some ''keeper.fuse'')] @
        [example_sprite ''Runner'' (Some ''walker.fuse''), example_sprite ''Idle'' None]) =
       Inr r_all \<and>
     keys (stageVariables r_before) = [''score''] \<and>
     set (keys (stageVariables r_before)) \<subseteq> set (keys (stageVariables r_all)) \<and>
     (\<exists>later.
        compile_calls (run_effects r_all) = compile_calls (run_effects r_before) @ later \<and>
        map fst later = [''proj/keeper.fuse'', ''proj/walker.fuse''] \<and>
        (\<forall>(file, scope) \<in> set later.
           set (keys (stageVariables r_before)) \<subseteq> set (keys scope))) \<and>
     compile (example_env id) ''stage script''
       \<lparr>mod_name = [], mod_variables = combinedVariables None [], mod_children = (),
        mod_filename = ''proj/stage.fuse''\<rparr> =
       Inr \<lparr>result_variables = [(example_var ''scalar'' ''score'' False, Num 0)],
            result_code = ()\<rparr> \<and>
     ''score'' \<in> set (keys (stageVariables r_before)) \<and>
     compile (example_env id) ''keeper script''
       \<lparr>mod_name = [], mod_variables = combinedVariables (Some (stageVariables r_before)) [],
        mod_children = (), mod_filename = ''proj/keeper.fuse''\<rparr> =
       Inr \<lparr>result_variables = [(example_var ''scalar'' ''lives'' True, Num 3),
                                 (example_var ''list'' ''trail'' False, Undefined)],
            result_code = ()\<rparr> \<and>
     ''lives'' \<notin> set (keys (stageVariables r_before)) \<and>
     ''lives'' \<in> set (keys (stageVariables r_all)) \<and>
     (\<exists>own later.
        compile_calls (run_effects r_all) = compile_calls (run_effects r_before) @ own # later \<and>
        map fst later = [''proj/walker.fuse''] \<and>
        (\<forall>(file, scope) \<in> set later. ''lives'' \<in> set (keys scope)))"
proof -
  let ?env = "example_env id"
  let ?keeper = "example_sprite ''Keeper'' (Some ''keeper.fuse'')"
  let ?rest = "[example_sprite ''Runner'' (Some ''walker.fuse''), example_sprite ''Idle'' None]"
  let ?rs = "\<lparr>result_variables = [(example_var ''scalar'' ''score'' False, Num 0)],
             result_code = ()\<rparr>"
  let ?rk = "\<lparr>result_variables = [(example_var ''scalar'' ''lives'' True, Num 3),
                                  (example_var ''list'' ''trail'' False, Undefined)],
             result_code = ()\<rparr>"
  from example_run_walker obtain r1 where
    r1: "compileTargets ?env () example_stage
           [example_sprite ''Walker'' (Some ''walker.fuse'')] = Inr r1"
    and k1: "keys (stageVariables r1) = [''score'']" by blast
  from example_run_all obtain r3 where
    r3: "compileTargets ?env () example_stage
           ([example_sprite ''Walker'' (Some ''walker.fuse'')] @
            [example_sprite ''Keeper'' (Some ''keeper.fuse'')] @
            [example_sprite ''Runner'' (Some ''walker.fuse''), example_sprite ''Idle'' None]) =
           Inr r3" by blast
  then have r3': "compileTargets ?env () example_stage
           ([example_sprite ''Walker'' (Some ''walker.fuse'')] @ ?keeper # ?rest) = Inr r3"
    by simp
  have files: "map (\<lambda>t. fullPathOf ?env (the (sp_entry t))) (filter hasEntry (?keeper # ?rest)) =
               [''proj/keeper.fuse'', ''proj/walker.fuse'']"
    by (simp add: hasEntry_def example_defs)
  have files': "map (\<lambda>t. fullPathOf ?env (the (sp_entry t))) (filter hasEntry ?rest) =
               [''proj/walker.fuse'']"
    by (simp add: hasEntry_def example_defs)
  have cs: "compile ?env ''stage script''
       \<lparr>mod_name = [], mod_variables = combinedVariables None [], mod_children = (),
        mod_filename = ''proj/stage.fuse''\<rparr> = Inr ?rs"
    by (simp add: example_defs)
  have ck: "compile ?env ''keeper script''
       \<lparr>mod_name = [], mod_variables = combinedVariables (Some (stageVariables r1)) [],
        mod_children = (), mod_filename = ''proj/keeper.fuse''\<rparr> = Inr ?rk"
    by (simp add: example_defs)
  have hs: "st_entry example_stage = Some ''stage.fuse'' \<and> ''stage.fuse'' \<noteq> [] \<and>
            readFileSync ?env (fullPathOf ?env ''stage.fuse'') = Some ''stage script'' \<and>
            parse ?env ''stage script'' = Inr ''stage script'' \<and>
            compile ?env ''stage script''
              \<lparr>mod_name = [], mod_variables = combinedVariables None [], mod_children = (),
               mod_filename = fullPathOf ?env ''stage.fuse''\<rparr> = Inr ?rs \<and>
            (example_var ''scalar'' ''score'' False, Num 0) \<in> set (result_variables ?rs)"
    by (simp add: example_defs)
  have hk: "?keeper # ?rest = ?keeper # ?rest \<and> sp_entry ?keeper = Some ''keeper.fuse'' \<and>
            ''keeper.fuse'' \<noteq> [] \<and>
            readFileSync ?env (fullPathOf ?env ''keeper.fuse'') = Some ''keeper script'' \<and>
            parse ?env ''keeper script'' = Inr ''keeper script'' \<and>
            compile ?env ''keeper script''
              \<lparr>mod_name = [],
               mod_variables = combinedVariables (Some (stageVariables r1)) [],
               mod_children = (), mod_filename = fullPathOf ?env ''keeper.fuse''\<rparr> = Inr ?rk \<and>
            (example_var ''scalar'' ''lives'' True, Num 3) \<in> set (result_variables ?rk) \<and>
            var_isGlobal (example_var ''scalar'' ''lives'' True)"
    by (simp add: example_defs)
  note T = scope_monotonic[OF r1 r3']
  note T1 = T[THEN conjunct1]
  note T2 = T[THEN conjunct2, THEN conjunct1]
  note T3 = T[THEN conjunct2, THEN conjunct2, THEN conjunct1]
  note T4 = T[THEN conjunct2, THEN conjunct2, THEN conjunct2]
  from T2 have B: "\<exists>later.
        compile_calls (run_effects r3) = compile_calls (run_effects r1) @ later \<and>
        map fst later = [''proj/keeper.fuse'', ''proj/walker.fuse''] \<and>
        (\<forall>(file, scope) \<in> set later. set (keys (stageVariables r1)) \<subseteq> set (keys scope))"
    unfolding files .
  from T3[THEN spec, THEN spec, THEN spec, THEN spec, THEN spec, THEN spec, THEN mp, OF hs]
  have C: "''score'' \<in> set (keys (stageVariables r1))" by (simp add: example_var_def)
  from T4[THEN spec, THEN spec, THEN spec, THEN spec, THEN spec, THEN spec, THEN spec,
          THEN spec, THEN mp, OF hk]
  have D: "''lives'' \<in> set (keys (stageVariables r3)) \<and>
     (\<exists>own later.
        compile_calls (run_effects r3) = compile_calls (run_effects r1) @ own # later \<and>
        map fst later = [''proj/walker.fuse''] \<and>
        (\<forall>(file, scope) \<in> set later. ''lives'' \<in> set (keys scope)))"
    unfolding files' by (simp add: example_var_def)
  have N: "''lives'' \<notin> set (keys (stageVariables r1))" unfolding k1 by simp
  from r1 r3 k1 T1 B cs C ck N D show ?thesis
    by (intro exI[of _ r1] exI[of _ r3] conjI) simp_all
qed

lemma count_list_distinct:
  "distinct xs \<Longrightarrow> x \<in> set xs \<Longrightarrow> count_list xs x = 1"
  by (induction xs) (auto simp: count_list_0_iff)

lemma keys_zip_file_present:
  "name \<in> set (keys (zip st)) \<Longrightarrow> keys (zip (zip_file name data st)) = keys (zip st)"
  by (simp add: zip_file_def keys_def AList.update_keys)

lemma distinct_zip_file:
  "distinct (keys (zip st)) \<Longrightarrow> distinct (keys (zip (zip_file name data st)))"
  by (simp add: zip_file_def keys_def AList.distinct_update)

lemma processAsset_Some:
  assumes "readFileSync env (fullPathOf env p) = Some bytes"
  shows "processAsset env (Some p) st =
           Inr (\<lparr>info_assetId = md5Bytes env bytes,
                 info_md5ext = md5Bytes env bytes @ ''.'' @ drop 1 (extname env p),
                 info_dataFormat = drop 1 (extname env p)\<rparr>,
                zip_file (md5Bytes env bytes @ ''.'' @ drop 1 (extname env p)) bytes
                  (st\<lparr>asset_reads := asset_reads st @ [fullPathOf env p]\<rparr>))"
  using assms by (simp add: processAsset_def Let_def)

text \<open>
  C5, as amended. The storage key is the hash of the bytes followed by the extension of
  the declared path. So for two declared assets with identical bytes whose paths have
  the same extension, \<open>processAsset\<close> returns the same storage key; after the first is
  processed the archive holds the blob exactly once under that key, and processing the
  second in any later state of the archive that still holds the key adds no file: the
  file names of the archive stay as they were and the key still names one file, with
  those bytes.
\<close>

theorem same_bytes_same_extension_one_entry:
  assumes b1: "readFileSync env (fullPathOf env p1) = Some bytes"
    and b2: "readFileSync env (fullPathOf env p2) = Some bytes"
    and ext: "extname env p1 = extname env p2"
    and d: "distinct (keys (zip st))"
  shows "\<exists>i1 st1.
           processAsset env (Some p1) st = Inr (i1, st1) \<and>
           info_md5ext i1 = md5Bytes env bytes @ ''.'' @ drop 1 (extname env p1) \<and>
           map_of (zip st1) (info_md5ext i1) = Some bytes \<and>
           count_list (keys (zip st1)) (info_md5ext i1) = 1 \<and>
           (\<forall>st'. distinct (keys (zip st')) \<and> info_md5ext i1 \<in> set (keys (zip st')) \<longrightarrow>
              (\<exists>i2 st2.
                 processAsset env (Some p2) st' = Inr (i2, st2) \<and>
                 info_md5ext i2 = info_md5ext i1 \<and>
                 keys (zip st2) = keys (zip st') \<and>
                 map_of (zip st2) (info_md5ext i1) = Some bytes \<and>
                 count_list (keys (zip st2)) (info_md5ext i1) = 1))"
proof -
  let ?key = "md5Bytes env bytes @ ''.'' @ drop 1 (extname env p1)"
  let ?i = "\<lparr>info_assetId = md5Bytes env bytes, info_md5ext = ?key,
             info_dataFormat = drop 1 (extname env p1)\<rparr>"
  let ?st1 = "zip_file ?key bytes (st\<lparr>asset_reads := asset_reads st @ [fullPathOf env p1]\<rparr>)"
  have first: "processAsset env (Some p1) st = Inr (?i, ?st1)"
    using processAsset_Some[OF b1] .
  have stored: "map_of (zip ?st1) ?key = Some bytes"
    by (simp add: zip_file_def AList.update_conv')
  have "distinct (keys (zip ?st1))" using d distinct_zip_file[of "st\<lparr>asset_reads := asset_reads st @ [fullPathOf env p1]\<rparr>"] by simp
  moreover have "?key \<in> set (keys (zip ?st1))"
    by (simp add: zip_file_def keys_update)
  ultimately have once: "count_list (keys (zip ?st1)) ?key = 1"
    by (rule count_list_distinct)
  have later: "\<exists>i2 st2.
                 processAsset env (Some p2) st' = Inr (i2, st2) \<and>
                 info_md5ext i2 = ?key \<and>
                 keys (zip st2) = keys (zip st') \<and>
                 map_of (zip st2) ?key = Some bytes \<and>
                 count_list (keys (zip st2)) ?key = 1"
    if d': "distinct (keys (zip st'))" and m: "?key \<in> set (keys (zip st'))" for st'
  proof -
    let ?st' = "st'\<lparr>asset_reads := asset_reads st' @ [fullPathOf env p2]\<rparr>"
    let ?st2 = "zip_file ?key bytes ?st'"
    have second: "processAsset env (Some p2) st' =
        Inr (\<lparr>info_assetId = md5Bytes env bytes, info_md5ext = ?key,
               info_dataFormat = drop 1 (extname env p1)\<rparr>, ?st2)"
      using processAsset_Some[OF b2, of st'] ext by simp
    have k: "keys (zip ?st2) = keys (zip st')"
      using keys_zip_file_present[of ?key ?st' bytes] m by simp
    have c: "count_list (keys (zip ?st2)) ?key = 1"
      unfolding k using d' m by (rule count_list_distinct)
    have s: "map_of (zip ?st2) ?key = Some bytes"
      by (simp add: zip_file_def AList.update_conv')
    show ?thesis using second k c s by simp
  qed
  show ?thesis using first stored once later by simp
qed

text \<open>
  The theorem on the example project, for any hash function: \<open>cat.png\<close> and
  \<open>copy.png\<close> have the same bytes and the archive ends with one file.
\<close>

theorem same_bytes_same_extension_one_entry_witness:
  "\<forall>md5. \<exists>i1 st1 i2 st2.
     readFileSync (example_env md5) (fullPathOf (example_env md5) ''cat.png'') = Some ''PIXELS'' \<and>
     readFileSync (example_env md5) (fullPathOf (example_env md5) ''copy.png'') = Some ''PIXELS'' \<and>
     extname (example_env md5) ''cat.png'' = extname (example_env md5) ''copy.png'' \<and>
     processAsset (example_env md5) (Some ''cat.png'')
       \<lparr>zip = [], uid_calls = 0, asset_reads = []\<rparr> = Inr (i1, st1) \<and>
     processAsset (example_env md5) (Some ''copy.png'') st1 = Inr (i2, st2) \<and>
     info_md5ext i1 = md5 ''PIXELS'' @ ''.png'' \<and>
     info_md5ext i2 = md5 ''PIXELS'' @ ''.png'' \<and>
     keys (zip st2) = [md5 ''PIXELS'' @ ''.png'']"
proof
  fix md5 :: "string \<Rightarrow> string"
  let ?env = "example_env md5"
  let ?st = "\<lparr>zip = [], uid_calls = 0, asset_reads = []\<rparr>"
  have b1: "readFileSync ?env (fullPathOf ?env ''cat.png'') = Some ''PIXELS''"
    and b2: "readFileSync ?env (fullPathOf ?env ''copy.png'') = Some ''PIXELS''"
    and ext: "extname ?env ''cat.png'' = extname ?env ''copy.png''"
    and ext1: "drop 1 (extname ?env ''cat.png'') = ''png''"
    and ext2: "drop (Suc 0) (extname ?env ''cat.png'') = ''png''"
    and md: "md5Bytes ?env = md5"
    by (simp_all add: example_defs example_extname_def)
  have d: "distinct (keys (zip ?st))" by (simp add: keys_def)
  from same_bytes_same_extension_one_entry[OF b1 b2 ext d] obtain i1 st1 where
    r1: "processAsset ?env (Some ''cat.png'') ?st = Inr (i1, st1)"
    and k1: "info_md5ext i1 = md5 ''PIXELS'' @ ''.png''"
    and c1: "count_list (keys (zip st1)) (info_md5ext i1) = 1"
    and later: "\<forall>st'. distinct (keys (zip st')) \<and> info_md5ext i1 \<in> set (keys (zip st')) \<longrightarrow>
              (\<exists>i2 st2.
                 processAsset ?env (Some ''copy.png'') st' = Inr (i2, st2) \<and>
                 info_md5ext i2 = info_md5ext i1 \<and>
                 keys (zip st2) = keys (zip st') \<and>
                 map_of (zip st2) (info_md5ext i1) = Some ''PIXELS'' \<and>
                 count_list (keys (zip st2)) (info_md5ext i1) = 1)"
    unfolding ext1 md by auto
  have z1: "keys (zip st1) = [md5 ''PIXELS'' @ ''.png'']"
    using r1 processAsset_Some[OF b1, of ?st] by (auto simp: ext2 md zip_file_def keys_def)
  then have "distinct (keys (zip st1)) \<and> info_md5ext i1 \<in> set (keys (zip st1))"
    using k1 by simp
  with later obtain i2 st2 where
    r2: "processAsset ?env (Some ''copy.png'') st1 = Inr (i2, st2)"
    and k2: "info_md5ext i2 = info_md5ext i1"
    and z2: "keys (zip st2) = keys (zip st1)"
    by blast
  show "\<exists>i1 st1 i2 st2.
     readFileSync ?env (fullPathOf ?env ''cat.png'') = Some ''PIXELS'' \<and>
     readFileSync ?env (fullPathOf ?env ''copy.png'') = Some ''PIXELS'' \<and>
     extname ?env ''cat.png'' = extname ?env ''copy.png'' \<and>
     processAsset ?env (Some ''cat.png'') ?st = Inr (i1, st1) \<and>
     processAsset ?env (Some ''copy.png'') st1 = Inr (i2, st2) \<and>
     info_md5ext i1 = md5 ''PIXELS'' @ ''.png'' \<and>
     info_md5ext i2 = md5 ''PIXELS'' @ ''.png'' \<and>
     keys (zip st2) = [md5 ''PIXELS'' @ ''.png'']"
    using b1 b2 ext r1 r2 k1 k2 z1 z2
    by (intro exI[of _ i1] exI[of _ st1] exI[of _ i2] exI[of _ st2]) simp
qed

text \<open>
  C5 as stated fails: \<open>cat.png\<close> and \<open>cat.svg\<close> of the example project have the same
  bytes, yet for any hash function they get different storage keys and the archive ends
  with two files holding the same bytes.
\<close>

theorem same_bytes_other_extension_two_entries:
  "\<forall>md5. \<exists>i1 st1 i2 st2.
     readFileSync (example_env md5) (fullPathOf (example_env md5) ''cat.png'') =
       readFileSync (example_env md5) (fullPathOf (example_env md5) ''cat.svg'') \<and>
     processAsset (example_env md5) (Some ''cat.png'')
       \<lparr>zip = [], uid_calls = 0, asset_reads = []\<rparr> = Inr (i1, st1) \<and>
     processAsset (example_env md5) (Some ''cat.svg'') st1 = Inr (i2, st2) \<and>
     info_md5ext i1 \<noteq> info_md5ext i2 \<and>
     zip st2 = [(md5 ''PIXELS'' @ ''.png'', ''PIXELS''), (md5 ''PIXELS'' @ ''.svg'', ''PIXELS'')]"
  by (simp add: processAsset_def zip_file_def example_defs example_extname_def Let_def)

lemma buildCostumes_none:
  assumes "noCostumes costumes"
  shows "buildCostumes env costumes st =
           Inr ([placeholder env], zip_file (md5Bytes env EMPTY_SVG @ ''.svg'') EMPTY_SVG st)"
  using assms
  by (auto simp: noCostumes_def buildCostumes_def createEmptyAsset_def emptyCostume_def
                 placeholder_def Let_def)

lemma buildSpriteTarget_costumes:
  assumes "buildSpriteTarget env i (t, ws, vs) st = Inr (T, st')" and "noCostumes (sp_costumes t)"
  shows "t_costumes T = [placeholder env]"
  using assms
  by (auto simp: buildSpriteTarget_def buildCostumes_none split: prod.splits sum.splits)

lemma buildStageTarget_costumes:
  assumes "buildStageTarget env stage ws g st = Inr (T, st')" and "noCostumes (st_backdrops stage)"
  shows "t_costumes T = [placeholder env]"
  using assms
  by (auto simp: buildStageTarget_def buildCostumes_none split: prod.splits sum.splits)

lemma buildSpriteTargets_costumes:
  "buildSpriteTargets env i cs st = Inr (Ts, st') \<Longrightarrow>
   length Ts = length cs \<and>
   (\<forall>j < length cs. noCostumes (sp_costumes (fst (cs ! j))) \<longrightarrow>
      t_costumes (Ts ! j) = [placeholder env])"
proof (induction cs arbitrary: i st Ts)
  case Nil
  then show ?case by simp
next
  case (Cons c cs)
  obtain t ws vs where c: "c = (t, ws, vs)" by (cases c)
  from Cons.prems obtain T st1 rest where
    one: "buildSpriteTarget env i (t, ws, vs) st = Inr (T, st1)"
    and more: "buildSpriteTargets env (Suc i) cs st1 = Inr (rest, st')"
    and Ts: "Ts = T # rest"
    by (auto simp: c split: sum.splits prod.splits)
  note IH = Cons.IH[OF more]
  show ?case
  proof (intro conjI allI impI)
    show "length Ts = length (c # cs)" using IH Ts by simp
  next
    fix j
    assume j: "j < length (c # cs)" and n: "noCostumes (sp_costumes (fst ((c # cs) ! j)))"
    show "t_costumes (Ts ! j) = [placeholder env]"
    proof (cases j)
      case 0
      then show ?thesis using buildSpriteTarget_costumes[OF one] n Ts c by simp
    next
      case (Suc k)
      then show ?thesis using IH j n Ts by simp
    qed
  qed
qed

text \<open>
  C6. In the manifest that \<open>buildProject\<close> returns, the stage comes first and the
  sprites follow, one per compiled sprite and in their order. The stage when it declares
  zero backdrops, and every sprite that declares zero costumes, has exactly one costume
  entry, the placeholder: its storage key is the MD5 digest of the fixed text
  \<open>EMPTY_SVG\<close> followed by \<open>.svg\<close>. Building the costumes of such a target never
  fails, and it stores \<open>EMPTY_SVG\<close> in the archive under that key.
\<close>

theorem placeholder_for_target_without_costumes:
  assumes "buildProject env extensions stage c = Inr (pj, st)"
  shows "\<exists>stageTarget spriteTargets.
           pj_targets pj = stageTarget # spriteTargets \<and>
           length spriteTargets = length (targets c) \<and>
           (noCostumes (st_backdrops stage) \<longrightarrow> t_costumes stageTarget = [placeholder env]) \<and>
           (\<forall>j < length (targets c).
              noCostumes (sp_costumes (fst (targets c ! j))) \<longrightarrow>
                t_costumes (spriteTargets ! j) = [placeholder env]) \<and>
           c_md5ext (placeholder env) = md5Bytes env EMPTY_SVG @ ''.svg'' \<and>
           (\<forall>costumes st0. noCostumes costumes \<longrightarrow>
              buildCostumes env costumes st0 =
                Inr ([placeholder env],
                     zip_file (md5Bytes env EMPTY_SVG @ ''.svg'') EMPTY_SVG st0))"
proof -
  from assms obtain S st1 Ts where
    s: "buildStageTarget env stage (stageWorkspace c) (stageVariables c)
          \<lparr>zip = [], uid_calls = 0, asset_reads = []\<rparr> = Inr (S, st1)"
    and t: "buildSpriteTargets env 0 (targets c) st1 = Inr (Ts, st)"
    and pj: "pj_targets pj = S # Ts"
    by (auto simp: buildProject_def split: sum.splits prod.splits)
  from buildSpriteTargets_costumes[OF t] buildStageTarget_costumes[OF s] pj
  show ?thesis
    by (auto simp: buildCostumes_none) (simp add: placeholder_def)
qed

lemmas build_defs =
  buildProject_def buildStageTarget_def buildSpriteTarget_def buildCostumes_def buildSounds_def
  createEmptyAsset_def emptyCostume_def zip_file_def displayName_def

lemma example_build:
  "\<exists>c pj st.
     compileTargets (example_env md5) () example_stage example_sprites = Inr c \<and>
     buildProject (example_env md5) None example_stage c = Inr (pj, st) \<and>
     map fst (targets c) = example_sprites"
  by (simp add: run_defs build_defs example_defs)

text \<open>
  The theorem on the example project, for any hash function: none of its five targets
  declares a costume, and each gets the placeholder.
\<close>

theorem placeholder_for_target_without_costumes_witness:
  "\<forall>md5. \<exists>c pj st.
     compileTargets (example_env md5) () example_stage example_sprites = Inr c \<and>
     buildProject (example_env md5) None example_stage c = Inr (pj, st) \<and>
     map t_costumes (pj_targets pj) = replicate 5 [placeholder (example_env md5)] \<and>
     c_md5ext (placeholder (example_env md5)) = md5 EMPTY_SVG @ ''.svg''"
proof
  fix md5 :: "string \<Rightarrow> string"
  let ?env = "example_env md5"
  from example_build[of md5] obtain c pj st where
    c: "compileTargets ?env () example_stage example_sprites = Inr c"
    and b: "buildProject ?env None example_stage c = Inr (pj, st)"
    and ts: "map fst (targets c) = example_sprites" by blast
  from ts have "length (map fst (targets c)) = length example_sprites" by simp
  then have len: "length (targets c) = 4" by (simp add: example_sprites_def)
  have nth: "fst (targets c ! j) = example_sprites ! j" if "j < 4" for j
    using ts that len by (metis nth_map)
  have none: "noCostumes (sp_costumes (fst (targets c ! j)))" if "j < 4" for j
  proof -
    have "j = 0 \<or> j = 1 \<or> j = 2 \<or> j = 3" using that by arith
    then show ?thesis unfolding nth[OF that]
      by (auto simp: noCostumes_def example_sprites_def example_sprite_def)
  qed
  have stage: "noCostumes (st_backdrops example_stage)"
    by (simp add: noCostumes_def example_stage_def)
  from placeholder_for_target_without_costumes[OF b] obtain S Ts where
    pj: "pj_targets pj = S # Ts" and l: "length Ts = length (targets c)"
    and s: "noCostumes (st_backdrops example_stage) \<longrightarrow> t_costumes S = [placeholder ?env]"
    and t: "\<forall>j < length (targets c).
              noCostumes (sp_costumes (fst (targets c ! j))) \<longrightarrow>
                t_costumes (Ts ! j) = [placeholder ?env]"
    and k: "c_md5ext (placeholder ?env) = md5Bytes ?env EMPTY_SVG @ ''.svg''"
    by blast
  have "map t_costumes Ts = replicate 4 [placeholder ?env]"
    using l len t none by (auto simp: list_eq_iff_nth_eq)
  then have "map t_costumes (pj_targets pj) = replicate 5 [placeholder ?env]"
    using pj s stage by (simp add: numeral_eq_Suc)
  moreover have "md5Bytes ?env = md5" by (simp add: example_env_def)
  ultimately show "\<exists>c pj st.
     compileTargets ?env () example_stage example_sprites = Inr c \<and>
     buildProject ?env None example_stage c = Inr (pj, st) \<and>
     map t_costumes (pj_targets pj) = replicate 5 [placeholder ?env] \<and>
     c_md5ext (placeholder ?env) = md5 EMPTY_SVG @ ''.svg''"
    using c b k by auto
qed

lemma update_fresh: "k \<notin> fst ` set al \<Longrightarrow> AList.update k v al = al @ [(k, v)]"
  by (induction al) auto

lemma rekeyVariables_append:
  assumes "inj (uid env)"
    and "fst ` set V \<subseteq> uid env ` {..<n}" and "fst ` set L \<subseteq> uid env ` {..<n}"
  shows "rekeyVariables env vs n V L =
           (V @ varEntries env n vs, L @ listEntries env n vs, n + length vs)"
  using assms(2,3)
proof (induction vs arbitrary: n V L)
  case Nil
  then show ?case by (simp add: varEntries_def listEntries_def)
next
  case (Cons p vs)
  obtain v d where p: "p = (v, d)" by (cases p)
  have fresh: "uid env n \<notin> uid env ` {..<n}"
    using assms(1) by (auto simp: inj_def)
  have fV: "uid env n \<notin> fst ` set V" and fL: "uid env n \<notin> fst ` set L"
    using fresh Cons.prems by blast+
  have sub: "uid env ` {..<n} \<subseteq> uid env ` {..<Suc n}" by auto
  show ?case
  proof (cases "var_type v = ''list''")
    case True
    let ?L = "L @ [(uid env n, displayName v, if isArray d then d else Arr [])]"
    have "fst ` set V \<subseteq> uid env ` {..<Suc n}" using Cons.prems(1) sub by blast
    moreover have "fst ` set ?L \<subseteq> uid env ` {..<Suc n}" using Cons.prems(2) sub by auto
    ultimately have "rekeyVariables env vs (Suc n) V ?L =
        (V @ varEntries env (Suc n) vs, ?L @ listEntries env (Suc n) vs, Suc n + length vs)"
      by (rule Cons.IH)
    then show ?thesis using True p fL
      by (simp add: update_fresh varEntries_def listEntries_def)
  next
    case False
    let ?V = "V @ [(uid env n, displayName v, nullish d (Num 0))]"
    have "fst ` set ?V \<subseteq> uid env ` {..<Suc n}" using Cons.prems(1) sub by auto
    moreover have "fst ` set L \<subseteq> uid env ` {..<Suc n}" using Cons.prems(2) sub by blast
    ultimately have "rekeyVariables env vs (Suc n) ?V L =
        (?V @ varEntries env (Suc n) vs, L @ listEntries env (Suc n) vs, Suc n + length vs)"
      by (rule Cons.IH)
    then show ?thesis using False p fV
      by (simp add: update_fresh varEntries_def listEntries_def)
  qed
qed

lemma rekeyVariables_fresh:
  "inj (uid env) \<Longrightarrow>
   rekeyVariables env vs n [] [] = (varEntries env n vs, listEntries env n vs, n + length vs)"
  using rekeyVariables_append[of env "[]" n "[]" vs] by simp

lemma entries_length:
  "length (varEntries env n vs) + length (listEntries env n vs) = length vs"
proof -
  let ?P = "\<lambda>(i :: nat, v, d :: jsval). var_type v \<noteq> ''list''"
  have "filter (\<lambda>(i, v, d). var_type v = ''list'') (enumerate n vs) =
        filter (\<lambda>x. \<not> ?P x) (enumerate n vs)"
    by (rule filter_cong) auto
  then have "length (varEntries env n vs) + length (listEntries env n vs) =
        length (filter ?P (enumerate n vs)) + length (filter (\<lambda>x. \<not> ?P x) (enumerate n vs))"
    by (simp add: varEntries_def listEntries_def)
  also have "\<dots> = length (enumerate n vs)" by (rule sum_length_filter_compl)
  finally show ?thesis by simp
qed

lemma entries_ids:
  "set (keys (varEntries env n vs)) \<union> set (keys (listEntries env n vs)) =
     uid env ` {n..<n + length vs}"
proof -
  have e: "fst ` set (enumerate n vs) = {n..<n + length vs}"
    by (metis list.set_map map_fst_enumerate set_upt)
  have "set (keys (varEntries env n vs)) \<union> set (keys (listEntries env n vs)) =
          (\<lambda>x. uid env (fst x)) ` set (enumerate n vs)"
    by (auto simp: varEntries_def listEntries_def keys_def image_iff) force+
  also have "\<dots> = uid env ` fst ` set (enumerate n vs)" by (simp add: image_image)
  finally show ?thesis using e by simp
qed

lemma processAsset_uid:
  "processAsset env p st = Inr (i, st') \<Longrightarrow> uid_calls st' = uid_calls st"
  by (auto simp: processAsset_def zip_file_def Let_def split: option.splits)

lemma processCostumes_uid:
  "processCostumes env cs st = Inr (es, st') \<Longrightarrow> uid_calls st' = uid_calls st"
proof (induction cs arbitrary: st es)
  case Nil
  then show ?case by simp
next
  case (Cons c cs)
  from Cons.prems obtain i st1 es1 where
    "processAsset env (asset_path c) st = Inr (i, st1)"
    "processCostumes env cs st1 = Inr (es1, st')"
    by (auto split: sum.splits prod.splits)
  then show ?case using Cons.IH processAsset_uid by fastforce
qed

lemma processSounds_uid:
  "processSounds env ss st = Inr (es, st') \<Longrightarrow> uid_calls st' = uid_calls st"
proof (induction ss arbitrary: st es)
  case Nil
  then show ?case by simp
next
  case (Cons c cs)
  from Cons.prems obtain i st1 es1 where
    "processAsset env (sound_path c) st = Inr (i, st1)"
    "processSounds env cs st1 = Inr (es1, st')"
    by (auto split: sum.splits prod.splits)
  then show ?case using Cons.IH processAsset_uid by fastforce
qed

lemma buildCostumes_uid:
  "buildCostumes env cs st = Inr (es, st') \<Longrightarrow> uid_calls st' = uid_calls st"
  by (auto simp: buildCostumes_def createEmptyAsset_def zip_file_def Let_def
           simp del: processCostumes.simps
           dest: processCostumes_uid split: option.splits list.splits)

lemma buildSounds_uid:
  "buildSounds env ss st = Inr (es, st') \<Longrightarrow> uid_calls st' = uid_calls st"
  by (auto simp: buildSounds_def simp del: processSounds.simps
           dest: processSounds_uid split: option.splits list.splits)

lemma buildSpriteTarget_tables:
  assumes "inj (uid env)" and "buildSpriteTarget env i (t, ws, vs) st = Inr (T, st')"
  shows "t_variables T = varEntries env (uid_calls st) (map snd vs) \<and>
         t_lists T = listEntries env (uid_calls st) (map snd vs) \<and>
         uid_calls st' = uid_calls st + length vs"
proof -
  from assms(2) obtain cs st1 ss where
    c: "buildCostumes env (sp_costumes t) (st\<lparr>uid_calls := uid_calls st + length vs\<rparr>) =
          Inr (cs, st1)"
    and s: "buildSounds env (sp_sounds t) st1 = Inr (ss, st')"
    and T: "t_variables T = varEntries env (uid_calls st) (map snd vs)"
           "t_lists T = listEntries env (uid_calls st) (map snd vs)"
    by (auto simp: buildSpriteTarget_def rekeyVariables_fresh[OF assms(1)]
             split: sum.splits prod.splits)
  from buildCostumes_uid[OF c] buildSounds_uid[OF s] T show ?thesis by simp
qed

lemma buildStageTarget_tables:
  assumes "inj (uid env)" and "buildStageTarget env stage ws g st = Inr (T, st')"
  shows "t_variables T = varEntries env (uid_calls st) (map snd g) \<and>
         t_lists T = listEntries env (uid_calls st) (map snd g) \<and>
         uid_calls st' = uid_calls st + length g"
proof -
  from assms(2) obtain cs st1 ss where
    c: "buildCostumes env (st_backdrops stage) (st\<lparr>uid_calls := uid_calls st + length g\<rparr>) =
          Inr (cs, st1)"
    and s: "buildSounds env (st_sounds stage) st1 = Inr (ss, st')"
    and T: "t_variables T = varEntries env (uid_calls st) (map snd g)"
           "t_lists T = listEntries env (uid_calls st) (map snd g)"
    by (auto simp: buildStageTarget_def rekeyVariables_fresh[OF assms(1)]
             split: sum.splits prod.splits)
  from buildCostumes_uid[OF c] buildSounds_uid[OF s] T show ?thesis by simp
qed

lemma buildSpriteTargets_tables:
  assumes "inj (uid env)"
  shows "buildSpriteTargets env i cs st = Inr (Ts, st') \<Longrightarrow>
   length Ts = length cs \<and>
   (\<forall>j < length cs.
      t_variables (Ts ! j) =
        varEntries env (uid_calls st + sum_list (map (\<lambda>(t, ws, vs). length vs) (take j cs)))
          (map snd (snd (snd (cs ! j)))) \<and>
      t_lists (Ts ! j) =
        listEntries env (uid_calls st + sum_list (map (\<lambda>(t, ws, vs). length vs) (take j cs)))
          (map snd (snd (snd (cs ! j)))))"
proof (induction cs arbitrary: i st Ts)
  case Nil
  then show ?case by simp
next
  case (Cons c cs)
  obtain t ws vs where c: "c = (t, ws, vs)" by (cases c)
  from Cons.prems obtain T st1 rest where
    one: "buildSpriteTarget env i (t, ws, vs) st = Inr (T, st1)"
    and more: "buildSpriteTargets env (Suc i) cs st1 = Inr (rest, st')"
    and Ts: "Ts = T # rest"
    by (auto simp: c split: sum.splits prod.splits)
  note first = buildSpriteTarget_tables[OF assms one]
  note IH = Cons.IH[OF more]
  show ?case
  proof (intro conjI allI impI)
    show "length Ts = length (c # cs)" using IH Ts by simp
  next
    fix j assume j: "j < length (c # cs)"
    show "t_variables (Ts ! j) =
        varEntries env (uid_calls st + sum_list (map (\<lambda>(t, ws, vs). length vs) (take j (c # cs))))
          (map snd (snd (snd ((c # cs) ! j))))"
    proof (cases j)
      case 0
      then show ?thesis using first Ts c by simp
    next
      case (Suc k)
      then show ?thesis using IH j Ts first c by (simp add: add.assoc)
    qed
  next
    fix j assume j: "j < length (c # cs)"
    show "t_lists (Ts ! j) =
        listEntries env (uid_calls st + sum_list (map (\<lambda>(t, ws, vs). length vs) (take j (c # cs))))
          (map snd (snd (snd ((c # cs) ! j))))"
    proof (cases j)
      case 0
      then show ?thesis using first Ts c by simp
    next
      case (Suc k)
      then show ?thesis using IH j Ts first c by (simp add: add.assoc)
    qed
  qed
qed

lemma sum_take_mono:
  fixes f :: "'a \<Rightarrow> nat"
  assumes "j < k" and "k \<le> length xs"
  shows "sum_list (map f (take j xs)) + f (xs ! j) \<le> sum_list (map f (take k xs))"
proof -
  have "take k xs = take (Suc j) xs @ take (k - Suc j) (drop (Suc j) xs)"
    using assms by (metis Suc_leI le_add_diff_inverse take_add)
  moreover have "take (Suc j) xs = take j xs @ [xs ! j]"
    using assms by (simp add: take_Suc_conv_app_nth)
  ultimately show ?thesis by simp
qed

lemma idsOf_entries:
  assumes "t_variables T = varEntries env n vs" and "t_lists T = listEntries env n vs"
  shows "set (idsOf T) = uid env ` {n..<n + length vs}"
    and "length (idsOf T) = length vs"
  using assms entries_ids[of env n vs] entries_length[of env n vs]
  by (simp_all add: idsOf_def keys_def)

text \<open>
  C7, as amended. Suppose \<open>uid()\<close> never returns the same identifier twice. In the
  manifest that \<open>buildProject\<close> returns, the tables of the stage are the globals and
  the tables of every sprite are its own variables, re-keyed: each variable is stored
  under the identifier drawn for it, with its export name when it has one and its
  symbolic name otherwise as display name, in \<open>lists\<close> when its type is \<open>'list'\<close> and in
  \<open>variables\<close> otherwise. A target has as many entries as its table has variables, and no
  identifier of one target is an identifier of another, so that variables of the same
  name in two sprites are two entries, each in the tables of its own sprite.
\<close>

theorem tables_rekeyed:
  assumes inj: "inj (uid env)"
    and b: "buildProject env extensions stage c = Inr (pj, st)"
  shows "\<exists>stageTarget spriteTargets.
           pj_targets pj = stageTarget # spriteTargets \<and>
           length spriteTargets = length (targets c) \<and>
           t_variables stageTarget = varEntries env 0 (map snd (stageVariables c)) \<and>
           t_lists stageTarget = listEntries env 0 (map snd (stageVariables c)) \<and>
           length (idsOf stageTarget) = length (stageVariables c) \<and>
           (\<forall>j < length (targets c).
              t_variables (spriteTargets ! j) =
                varEntries env (firstUid c j) (map snd (snd (snd (targets c ! j)))) \<and>
              t_lists (spriteTargets ! j) =
                listEntries env (firstUid c j) (map snd (snd (snd (targets c ! j)))) \<and>
              length (idsOf (spriteTargets ! j)) = length (snd (snd (targets c ! j))) \<and>
              set (idsOf stageTarget) \<inter> set (idsOf (spriteTargets ! j)) = {} \<and>
              (\<forall>k < length (targets c). j < k \<longrightarrow>
                 set (idsOf (spriteTargets ! j)) \<inter> set (idsOf (spriteTargets ! k)) = {}))"
proof -
  let ?len = "\<lambda>(t :: sprite_config, ws :: 'd workspace, vs :: var_map). length vs"
  from b obtain S st1 Ts where
    s: "buildStageTarget env stage (stageWorkspace c) (stageVariables c)
          \<lparr>zip = [], uid_calls = 0, asset_reads = []\<rparr> = Inr (S, st1)"
    and t: "buildSpriteTargets env 0 (targets c) st1 = Inr (Ts, st)"
    and pj: "pj_targets pj = S # Ts"
    by (auto simp: buildProject_def split: sum.splits prod.splits)
  from buildStageTarget_tables[OF inj s] have
    sv: "t_variables S = varEntries env 0 (map snd (stageVariables c))"
    and sl: "t_lists S = listEntries env 0 (map snd (stageVariables c))"
    and u1: "uid_calls st1 = length (stageVariables c)" by simp_all
  note sids = idsOf_entries[OF sv sl]
  from buildSpriteTargets_tables[OF inj t] have
    len: "length Ts = length (targets c)"
    and tabs: "\<And>j. j < length (targets c) \<Longrightarrow>
      t_variables (Ts ! j) = varEntries env (firstUid c j) (map snd (snd (snd (targets c ! j)))) \<and>
      t_lists (Ts ! j) = listEntries env (firstUid c j) (map snd (snd (snd (targets c ! j))))"
    by (simp_all add: u1 firstUid_def)
  have ids: "set (idsOf (Ts ! j)) =
               uid env ` {firstUid c j..<firstUid c j + length (snd (snd (targets c ! j)))}"
    and idl: "length (idsOf (Ts ! j)) = length (snd (snd (targets c ! j)))"
    if "j < length (targets c)" for j
    using idsOf_entries[of "Ts ! j" env "firstUid c j" "map snd (snd (snd (targets c ! j)))"]
      tabs[OF that] by simp_all
  have apart: "uid env ` {a..<b} \<inter> uid env ` {a'..<b'} = {}" if le: "b \<le> a'" for a b a' b'
  proof -
    have False if "x \<in> {a..<b}" and "y \<in> {a'..<b'}" and "uid env x = uid env y" for x y
    proof -
      from that(3) inj have "x = y" by (simp add: inj_def)
      with that(1,2) le show False by simp
    qed
    then show ?thesis by blast
  qed
  have stage_apart: "set (idsOf S) \<inter> set (idsOf (Ts ! j)) = {}" if "j < length (targets c)" for j
  proof -
    have "0 + length (map snd (stageVariables c)) \<le> firstUid c j" by (simp add: firstUid_def)
    from apart[OF this] show ?thesis using sids(1) ids[OF that] by simp
  qed
  have sprites_apart: "set (idsOf (Ts ! j)) \<inter> set (idsOf (Ts ! k)) = {}"
    if "j < k" and "k < length (targets c)" for j k
  proof -
    have "sum_list (map ?len (take j (targets c))) + ?len (targets c ! j)
            \<le> sum_list (map ?len (take k (targets c)))"
      using that by (intro sum_take_mono) simp_all
    then have "firstUid c j + length (snd (snd (targets c ! j))) \<le> firstUid c k"
      by (simp add: firstUid_def case_prod_beta)
    from apart[OF this] show ?thesis using ids[of j] ids[of k] that by simp
  qed
  show ?thesis
    using pj len sv sl sids(2) tabs idl stage_apart sprites_apart
    by (intro exI[of _ S] exI[of _ Ts]) simp
qed

lemma example_compiled:
  "\<exists>c. compileTargets (example_env md5) () example_stage example_sprites = Inr c \<and>
       map snd (stageVariables c) =
         [(example_var ''scalar'' ''score'' True, Num 0),
          (example_var ''scalar'' ''lives'' True, Num 3)] \<and>
       map (\<lambda>(t, ws, vs). map snd vs) (targets c) =
         [[(example_var ''scalar'' ''counter'' False, Num 1)],
          [(example_var ''list'' ''trail'' False, Undefined)],
          [(example_var ''scalar'' ''counter'' False, Num 1)],
          []]"
  by (simp add: run_defs example_defs)

lemma example_uid_inj: "inj (uid (example_env md5))"
proof (rule injI)
  fix x y assume "uid (example_env md5) x = uid (example_env md5) y"
  then have "length (replicate (Suc x) CHR ''i'') = length (replicate (Suc y) CHR ''i'')"
    by (simp add: example_env_def)
  then show "x = y" by simp
qed

text \<open>
  The theorem on the example project: the first and the third sprite each declare a local
  \<open>counter\<close>, stored under different identifiers in their own tables.
\<close>

theorem tables_rekeyed_witness:
  "\<exists>c pj st stageTarget spriteTargets.
     inj (uid (example_env id)) \<and>
     compileTargets (example_env id) () example_stage example_sprites = Inr c \<and>
     buildProject (example_env id) None example_stage c = Inr (pj, st) \<and>
     pj_targets pj = stageTarget # spriteTargets \<and>
     t_variables stageTarget = [(''i'', ''score'', Num 0), (''ii'', ''lives'', Num 3)] \<and>
     t_variables (spriteTargets ! 0) = [(''iii'', ''counter'', Num 1)] \<and>
     t_lists (spriteTargets ! 1) = [(''iiii'', ''trail'', Arr [])] \<and>
     t_variables (spriteTargets ! 2) = [(''iiiii'', ''counter'', Num 1)] \<and>
     set (idsOf (spriteTargets ! 0)) \<inter> set (idsOf (spriteTargets ! 2)) = {}"
proof -
  let ?env = "example_env id"
  from example_build[of id] obtain c pj st where
    c: "compileTargets ?env () example_stage example_sprites = Inr c"
    and b: "buildProject ?env None example_stage c = Inr (pj, st)" by blast
  from example_compiled[of id] c have
    g: "map snd (stageVariables c) =
         [(example_var ''scalar'' ''score'' True, Num 0),
          (example_var ''scalar'' ''lives'' True, Num 3)]"
    and ts: "map (\<lambda>(t, ws, vs). map snd vs) (targets c) =
         [[(example_var ''scalar'' ''counter'' False, Num 1)],
          [(example_var ''list'' ''trail'' False, Undefined)],
          [(example_var ''scalar'' ''counter'' False, Num 1)],
          []]"
    by auto
  from ts have "length (map (\<lambda>(t, ws, vs). map snd vs) (targets c)) = 4" by simp
  then have len: "length (targets c) = 4" by simp
  have nth: "map snd (snd (snd (targets c ! j))) =
               [[(example_var ''scalar'' ''counter'' False, Num 1)],
                [(example_var ''list'' ''trail'' False, Undefined)],
                [(example_var ''scalar'' ''counter'' False, Num 1)],
                []] ! j" if "j < 4" for j
    using nth_map[of j "targets c" "\<lambda>(t, ws, vs). map snd vs"] that len
    unfolding ts by (simp add: case_prod_beta)
  have lens: "map (\<lambda>(t, ws, vs). length vs) (targets c) = [1, 1, 1, 0]"
  proof -
    have "map (\<lambda>(t, ws, vs). length vs) (targets c) =
            map length (map (\<lambda>(t, ws, vs). map snd vs) (targets c))"
      by (simp add: case_prod_beta)
    then show ?thesis unfolding ts by simp
  qed
  have gl: "length (stageVariables c) = 2"
    using arg_cong[OF g, of length] by simp
  have f: "firstUid c j = 2 + sum_list (take j [1, 1, 1, 0])" for j
    unfolding firstUid_def take_map[symmetric] lens gl ..
  have f0: "firstUid c 0 = 2" and f1: "firstUid c 1 = 3" and f2: "firstUid c 2 = 4"
    by (simp_all add: f numeral_2_eq_2)
  from tables_rekeyed[OF example_uid_inj b] obtain S Ts where
    pj: "pj_targets pj = S # Ts"
    and sv: "t_variables S = varEntries ?env 0 (map snd (stageVariables c))"
    and tabs: "\<forall>j < length (targets c).
              t_variables (Ts ! j) =
                varEntries ?env (firstUid c j) (map snd (snd (snd (targets c ! j)))) \<and>
              t_lists (Ts ! j) =
                listEntries ?env (firstUid c j) (map snd (snd (snd (targets c ! j)))) \<and>
              length (idsOf (Ts ! j)) = length (snd (snd (targets c ! j))) \<and>
              set (idsOf S) \<inter> set (idsOf (Ts ! j)) = {} \<and>
              (\<forall>k < length (targets c). j < k \<longrightarrow>
                 set (idsOf (Ts ! j)) \<inter> set (idsOf (Ts ! k)) = {})"
    by blast
  have u: "uid ?env = (\<lambda>n. replicate (Suc n) CHR ''i'')" by (simp add: example_env_def)
  have s0: "t_variables S = [(''i'', ''score'', Num 0), (''ii'', ''lives'', Num 3)]"
    unfolding sv g by (simp add: varEntries_def u example_var_def displayName_def)
  have t0: "t_variables (Ts ! 0) = [(''iii'', ''counter'', Num 1)]"
    using tabs len nth[of 0] f0
    by (simp add: varEntries_def u example_var_def displayName_def numeral_2_eq_2)
  have t1: "t_lists (Ts ! 1) = [(''iiii'', ''trail'', Arr [])]"
    using tabs len nth[of 1] f1
    by (simp add: listEntries_def u example_var_def displayName_def numeral_3_eq_3)
  have t2: "t_variables (Ts ! 2) = [(''iiiii'', ''counter'', Num 1)]"
    using tabs len nth[of 2] f2
    by (simp add: varEntries_def u example_var_def displayName_def numeral_eq_Suc)
  have d: "set (idsOf (Ts ! 0)) \<inter> set (idsOf (Ts ! 2)) = {}"
    using tabs len by simp
  show ?thesis
    using example_uid_inj[of id] c b pj s0 t0 t1 t2 d
    by (intro exI[of _ c] exI[of _ pj] exI[of _ st] exI[of _ S] exI[of _ Ts]) simp
qed

text \<open>
  C7 as stated fails: the display field is not the symbolic name when the variable has an
  export name. The variable \<open>hp\<close> exported as \<open>Health\<close> is stored as
  \<open>[Health, 5]\<close>, and \<open>hp\<close> is not retained.
\<close>

theorem export_name_is_the_display_name:
  "\<forall>md5.
     rekeyVariables (example_env md5)
       [(\<lparr>var_type = ''scalar'', var_name = ''hp'', var_isGlobal = False,
          var_exportName = Some ''Health''\<rparr>, Num 5)] 0 [] [] =
     ([(''i'', ''Health'', Num 5)], [], 1)"
  by (simp add: example_env_def displayName_def)

lemma extractAsset_missing:
  "map_of archive key = None \<Longrightarrow> extractAsset denv archive key newName st = Inr (None, st)"
  by (simp add: extractAsset_def)

lemma extractAsset_Inr:
  "extractAsset denv archive key newName st = Inr (fileName, st') \<Longrightarrow>
     fileName = (if map_of archive key = None then None else Some key) \<and> out st' = out st"
  by (auto simp add: extractAsset_def Let_def split: option.splits sum.splits)

lemma sum_prod_case_id:
  "(case x of Inl err \<Rightarrow> Inl err | Inr (entries, st2) \<Rightarrow> Inr (entries, st2)) = x"
  by (cases x) auto

lemma extractCostumes_filter:
  "extractCostumes denv archive prefix costumes st =
     extractCostumes denv archive prefix
       (filter (\<lambda>c. map_of archive (dc_md5ext c) \<noteq> None) costumes) st"
proof (induction costumes arbitrary: st)
  case Nil
  show ?case by simp
next
  case (Cons c rest)
  show ?case
  proof (cases "map_of archive (dc_md5ext c) = None")
    case True
    then show ?thesis
      using Cons.IH[of st] by (simp add: extractAsset_missing split: sum.splits prod.splits)
  next
    case False
    then show ?thesis
      using Cons.IH by (simp split: sum.splits prod.splits)
  qed
qed

lemma extractSounds_filter:
  "extractSounds denv archive prefix sounds st =
     extractSounds denv archive prefix
       (filter (\<lambda>s. map_of archive (ds_md5ext s) \<noteq> None) sounds) st"
proof (induction sounds arbitrary: st)
  case Nil
  show ?case by simp
next
  case (Cons s rest)
  show ?case
  proof (cases "map_of archive (ds_md5ext s) = None")
    case True
    then show ?thesis
      using Cons.IH[of st] by (simp add: extractAsset_missing split: sum.splits prod.splits)
  next
    case False
    then show ?thesis
      using Cons.IH by (simp split: sum.splits prod.splits)
  qed
qed

lemma extractCostumes_Inr:
  "extractCostumes denv archive prefix costumes st = Inr (entries, st') \<Longrightarrow>
     entries = keptCostumes archive costumes \<and> out st' = out st"
proof (induction costumes arbitrary: st entries st')
  case Nil
  then show ?case by (simp add: keptCostumes_def)
next
  case (Cons c rest)
  from Cons.prems obtain fileName st1 es st2 where
    a: "extractAsset denv archive (dc_md5ext c) (prefix @ dc_name c) st = Inr (fileName, st1)"
    and r: "extractCostumes denv archive prefix rest st1 = Inr (es, st2)"
    by (auto split: sum.splits prod.splits)
  from extractAsset_Inr[OF a]
  have f: "fileName = (if map_of archive (dc_md5ext c) = None then None else Some (dc_md5ext c))"
    and o: "out st1 = out st" by simp_all
  from Cons.IH[OF r] have i: "es = keptCostumes archive rest" "out st2 = out st1" by simp_all
  from Cons.prems a r f i o show ?case
    by (auto simp add: keptCostumes_def kept_def split: if_splits)
qed

lemma extractSounds_Inr:
  "extractSounds denv archive prefix sounds st = Inr (entries, st') \<Longrightarrow>
     entries = keptSounds archive sounds \<and> out st' = out st"
proof (induction sounds arbitrary: st entries st')
  case Nil
  then show ?case by (simp add: keptSounds_def)
next
  case (Cons s rest)
  from Cons.prems obtain fileName st1 es st2 where
    a: "extractAsset denv archive (ds_md5ext s) (prefix @ ds_name s) st = Inr (fileName, st1)"
    and r: "extractSounds denv archive prefix rest st1 = Inr (es, st2)"
    by (auto split: sum.splits prod.splits)
  from extractAsset_Inr[OF a]
  have f: "fileName = (if map_of archive (ds_md5ext s) = None then None else Some (ds_md5ext s))"
    and o: "out st1 = out st" by simp_all
  from Cons.IH[OF r] have i: "es = keptSounds archive rest" "out st2 = out st1" by simp_all
  from Cons.prems a r f i o show ?case
    by (auto simp add: keptSounds_def kept_def split: if_splits)
qed

lemma extractAsset_extractable:
  "extractable denv archive [key] \<Longrightarrow> \<exists>r. extractAsset denv archive key newName st = Inr r"
  by (auto simp add: extractable_def extractAsset_def Let_def split: option.splits sum.splits)

lemma extractCostumes_extractable:
  "extractable denv archive (map dc_md5ext costumes) \<Longrightarrow>
     \<exists>st'. extractCostumes denv archive prefix costumes st =
             Inr (keptCostumes archive costumes, st')"
proof (induction costumes arbitrary: st)
  case Nil
  show ?case by (simp add: keptCostumes_def)
next
  case (Cons c rest)
  from Cons.prems have 1: "extractable denv archive [dc_md5ext c]"
    and 2: "extractable denv archive (map dc_md5ext rest)"
    by (simp_all add: extractable_def)
  from extractAsset_extractable[OF 1] obtain fileName st1 where
    a: "extractAsset denv archive (dc_md5ext c) (prefix @ dc_name c) st = Inr (fileName, st1)"
    by (metis surj_pair)
  from Cons.IH[OF 2] obtain st2 where
    r: "extractCostumes denv archive prefix rest st1 = Inr (keptCostumes archive rest, st2)"
    by blast
  have "\<exists>es st'. extractCostumes denv archive prefix (c # rest) st = Inr (es, st')"
    using a r by simp
  then obtain es st' where
    e: "extractCostumes denv archive prefix (c # rest) st = Inr (es, st')"
    by blast
  from extractCostumes_Inr[OF e] e show ?case by simp
qed

lemma extractSounds_extractable:
  "extractable denv archive (map ds_md5ext sounds) \<Longrightarrow>
     \<exists>st'. extractSounds denv archive prefix sounds st =
             Inr (keptSounds archive sounds, st')"
proof (induction sounds arbitrary: st)
  case Nil
  show ?case by (simp add: keptSounds_def)
next
  case (Cons s rest)
  from Cons.prems have 1: "extractable denv archive [ds_md5ext s]"
    and 2: "extractable denv archive (map ds_md5ext rest)"
    by (simp_all add: extractable_def)
  from extractAsset_extractable[OF 1] obtain fileName st1 where
    a: "extractAsset denv archive (ds_md5ext s) (prefix @ ds_name s) st = Inr (fileName, st1)"
    by (metis surj_pair)
  from Cons.IH[OF 2] obtain st2 where
    r: "extractSounds denv archive prefix rest st1 = Inr (keptSounds archive rest, st2)"
    by blast
  have "\<exists>es st'. extractSounds denv archive prefix (s # rest) st = Inr (es, st')"
    using a r by simp
  then obtain es st' where
    e: "extractSounds denv archive prefix (s # rest) st = Inr (es, st')"
    by blast
  from extractSounds_Inr[OF e] e show ?case by simp
qed

lemma withBlobs_sel:
  "dt_isStage (withBlobs archive target) = dt_isStage target"
  "dt_name (withBlobs archive target) = dt_name target"
  "dt_variables (withBlobs archive target) = dt_variables target"
  "dt_lists (withBlobs archive target) = dt_lists target"
  "dt_blocks (withBlobs archive target) = dt_blocks target"
  "dt_currentCostume (withBlobs archive target) = dt_currentCostume target"
  "dt_rotationStyle (withBlobs archive target) = dt_rotationStyle target"
  "dt_layerOrder (withBlobs archive target) = dt_layerOrder target"
  "dt_visible (withBlobs archive target) = dt_visible target"
  "dt_x (withBlobs archive target) = dt_x target"
  "dt_y (withBlobs archive target) = dt_y target"
  "dt_size (withBlobs archive target) = dt_size target"
  "dt_direction (withBlobs archive target) = dt_direction target"
  "dt_draggable (withBlobs archive target) = dt_draggable target"
  "dt_volume (withBlobs archive target) = dt_volume target"
  "dt_tempo (withBlobs archive target) = dt_tempo target"
  by (simp_all add: withBlobs_def)

lemma decompileTarget_withBlobs:
  "decompileTarget denv (withBlobs archive target) st = decompileTarget denv target st"
  unfolding decompileTarget_def localDeclarations_def withBlobs_sel ..

lemma decompileStage_withBlobs:
  "decompileStage denv (withBlobs archive target)
     (globalVariableDeclarations (withBlobs archive target)) st =
   decompileStage denv target (globalVariableDeclarations target) st"
  unfolding decompileStage_def globalVariableDeclarations_def withBlobs_sel ..

lemma decompileSprite_withBlobs:
  "decompileSprite denv archive (withBlobs archive target) st =
   decompileSprite denv archive target st"
proof -
  have c: "extractCostumes denv archive prefix (dt_costumes (withBlobs archive target)) s =
           extractCostumes denv archive prefix (dt_costumes target) s" for prefix s
    using extractCostumes_filter[of denv archive prefix "dt_costumes target" s]
    by (simp add: withBlobs_def)
  have s: "extractSounds denv archive prefix (dt_sounds (withBlobs archive target)) s =
           extractSounds denv archive prefix (dt_sounds target) s" for prefix s
    using extractSounds_filter[of denv archive prefix "dt_sounds target" s]
    by (simp add: withBlobs_def)
  show ?thesis
    unfolding decompileSprite_def c s withBlobs_sel decompileTarget_withBlobs ..
qed

lemma decompileSprites_withBlobs:
  "decompileSprites denv archive (map (withBlobs archive) ts) st =
   decompileSprites denv archive ts st"
  by (induction ts arbitrary: st)
     (simp_all add: decompileSprite_withBlobs split: sum.splits prod.splits)

lemma find_withBlobs:
  "find dt_isStage (map (withBlobs archive) ts) = map_option (withBlobs archive) (find dt_isStage ts)"
  by (induction ts) (simp_all add: withBlobs_def)

lemma filter_withBlobs:
  "filter (\<lambda>t. \<not> dt_isStage t) (map (withBlobs archive) ts) =
   map (withBlobs archive) (filter (\<lambda>t. \<not> dt_isStage t) ts)"
  by (induction ts) (simp_all add: withBlobs_def)

lemma decompile_withBlobs:
  "decompile denv extensions (map (withBlobs archive) projectTargets) archive lib0 =
   decompile denv extensions projectTargets archive lib0"
proof (cases "find dt_isStage projectTargets")
  case None
  then show ?thesis by (simp add: decompile_def find_withBlobs)
next
  case (Some stageTarget)
  have c: "extractCostumes denv archive prefix (dt_costumes (withBlobs archive stageTarget)) s =
           extractCostumes denv archive prefix (dt_costumes stageTarget) s" for prefix s
    using extractCostumes_filter[of denv archive prefix "dt_costumes stageTarget" s]
    by (simp add: withBlobs_def)
  have s: "extractSounds denv archive prefix (dt_sounds (withBlobs archive stageTarget)) s =
           extractSounds denv archive prefix (dt_sounds stageTarget) s" for prefix s
    using extractSounds_filter[of denv archive prefix "dt_sounds stageTarget" s]
    by (simp add: withBlobs_def)
  show ?thesis
    unfolding decompile_def find_withBlobs Some option.map option.case c s withBlobs_sel
      decompileStage_withBlobs filter_withBlobs decompileSprites_withBlobs ..
qed

lemma decompileSprite_Inr:
  "decompileSprite denv archive target st = Inr (config, st') \<Longrightarrow>
     tc_costumes config = keptCostumes archive (dt_costumes target) \<and>
     tc_sounds config = keptSounds archive (dt_sounds target)"
proof -
  assume h: "decompileSprite denv archive target st = Inr (config, st')"
  then obtain cs st1 where
    c: "extractCostumes denv archive (''costume_'' @ dt_name target @ ''_'')
          (dt_costumes target) st = Inr (cs, st1)"
    by (auto simp add: decompileSprite_def split: sum.splits prod.splits)
  with h obtain ss st2 where
    s: "extractSounds denv archive (''sound_'' @ dt_name target @ ''_'')
          (dt_sounds target) st1 = Inr (ss, st2)"
    by (auto simp add: decompileSprite_def split: sum.splits prod.splits)
  from h c s have "tc_costumes config = cs \<and> tc_sounds config = ss"
    by (auto simp add: decompileSprite_def split: sum.splits prod.splits)
  with extractCostumes_Inr[OF c] extractSounds_Inr[OF s] show ?thesis by simp
qed

lemma decompileSprites_Inr:
  "decompileSprites denv archive ts st = Inr (configs, st') \<Longrightarrow>
     map tc_costumes configs = map (\<lambda>t. keptCostumes archive (dt_costumes t)) ts \<and>
     map tc_sounds configs = map (\<lambda>t. keptSounds archive (dt_sounds t)) ts"
proof (induction ts arbitrary: st configs st')
  case Nil
  then show ?case by simp
next
  case (Cons t rest)
  from Cons.prems obtain c st1 cs st2 where
    a: "decompileSprite denv archive t st = Inr (c, st1)"
    and r: "decompileSprites denv archive rest st1 = Inr (cs, st2)"
    and e: "configs = c # cs"
    by (auto split: sum.splits prod.splits)
  from decompileSprite_Inr[OF a] Cons.IH[OF r] e show ?case by simp
qed


lemma writeScript_writable:
  "\<forall>source. writeFileSync denv (path_join denv (scriptsDir denv) fileName) source = Inr () \<Longrightarrow>
     \<exists>r. writeScript denv fileName x = Inr r"
  by (cases x) (auto simp add: writeScript_def Let_def split: option.splits)

lemma decompileSprite_writable:
  assumes c: "extractable denv archive (map dc_md5ext (dt_costumes target))"
    and s: "extractable denv archive (map ds_md5ext (dt_sounds target))"
    and w: "\<forall>source. writeFileSync denv
              (path_join denv (scriptsDir denv) (safeName (dt_name target) @ ''.fuse''))
              source = Inr ()"
  shows "\<exists>r. decompileSprite denv archive target st = Inr r"
proof -
  from extractCostumes_extractable[OF c] obtain st1 where
    1: "extractCostumes denv archive (''costume_'' @ dt_name target @ ''_'')
          (dt_costumes target) st = Inr (keptCostumes archive (dt_costumes target), st1)"
    by blast
  from extractSounds_extractable[OF s] obtain st2 where
    2: "extractSounds denv archive (''sound_'' @ dt_name target @ ''_'')
          (dt_sounds target) st1 = Inr (keptSounds archive (dt_sounds target), st2)"
    by blast
  from writeScript_writable[OF w] obtain e st3 where
    3: "writeScript denv (safeName (dt_name target) @ ''.fuse'')
          (decompileTarget denv target st2) = Inr (e, st3)"
    by (metis surj_pair)
  show ?thesis
    unfolding decompileSprite_def using 1 2 3 by simp
qed

lemma decompileSprites_writable:
  "list_all (\<lambda>t. extractable denv archive (map dc_md5ext (dt_costumes t)) \<and>
                  extractable denv archive (map ds_md5ext (dt_sounds t))) ts \<Longrightarrow>
   list_all (\<lambda>t. \<forall>source.
                  writeFileSync denv
                    (path_join denv (scriptsDir denv) (safeName (dt_name t) @ ''.fuse''))
                    source = Inr ()) ts \<Longrightarrow>
   \<exists>r. decompileSprites denv archive ts st = Inr r"
proof (induction ts arbitrary: st)
  case Nil
  show ?case by simp
next
  case (Cons t rest)
  from Cons.prems have "\<exists>r. decompileSprite denv archive t st = Inr r"
    by (intro decompileSprite_writable) simp_all
  then obtain c st1 where
    1: "decompileSprite denv archive t st = Inr (c, st1)"
    by (metis surj_pair)
  from Cons.prems have "\<exists>r. decompileSprites denv archive rest st1 = Inr r"
    by (intro Cons.IH) simp_all
  then obtain cs st2 where
    2: "decompileSprites denv archive rest st1 = Inr (cs, st2)"
    by (metis surj_pair)
  show ?case using 1 2 by simp
qed

lemma list_all_find:
  "list_all P xs \<Longrightarrow> find Q xs = Some x \<Longrightarrow> P x"
  by (induction xs) (auto split: if_splits)

lemma decompile_writable:
  assumes w: "writable denv archive projectTargets"
    and f: "find dt_isStage projectTargets = Some stageTarget"
  shows "\<exists>r. decompile denv extensions projectTargets archive lib0 = Inr r"
proof -
  let ?st0 = "\<lparr>files = [], assetMapping = [], out = [], lib = lib0\<rparr>"
  from w have a: "list_all (\<lambda>t. extractable denv archive (map dc_md5ext (dt_costumes t)) \<and>
                     extractable denv archive (map ds_md5ext (dt_sounds t))) projectTargets"
    and b: "list_all (\<lambda>t. \<forall>source.
                     writeFileSync denv
                       (path_join denv (scriptsDir denv) (safeName (dt_name t) @ ''.fuse''))
                       source = Inr ()) projectTargets"
    and c: "\<forall>source.
         writeFileSync denv (path_join denv (scriptsDir denv) ''stage.fuse'') source = Inr ()"
    and y: "\<forall>yamlContent.
         writeFileSync denv (path_join denv (outputDir denv) ''project.yaml'') yamlContent
           = Inr ()"
    by (simp_all add: writable_def)
  from list_all_find[OF a f]
  have sc: "extractable denv archive (map dc_md5ext (dt_costumes stageTarget))"
    and ss: "extractable denv archive (map ds_md5ext (dt_sounds stageTarget))" by simp_all
  from extractCostumes_extractable[OF sc] obtain st1 where
    1: "extractCostumes denv archive ''backdrop_'' (dt_costumes stageTarget) ?st0 =
          Inr (keptCostumes archive (dt_costumes stageTarget), st1)"
    by blast
  from extractSounds_extractable[OF ss] obtain st2 where
    2: "extractSounds denv archive ''sound_stage_'' (dt_sounds stageTarget) st1 =
          Inr (keptSounds archive (dt_sounds stageTarget), st2)"
    by blast
  from writeScript_writable[OF c] obtain e st3 where
    3: "writeScript denv ''stage.fuse''
          (decompileStage denv stageTarget (globalVariableDeclarations stageTarget) st2) =
          Inr (e, st3)"
    by (metis surj_pair)
  from a have a': "list_all (\<lambda>t. extractable denv archive (map dc_md5ext (dt_costumes t)) \<and>
                     extractable denv archive (map ds_md5ext (dt_sounds t)))
                     (filter (\<lambda>t. \<not> dt_isStage t) projectTargets)"
    by (simp add: list_all_iff)
  from b have b': "list_all (\<lambda>t. \<forall>source.
                     writeFileSync denv
                       (path_join denv (scriptsDir denv) (safeName (dt_name t) @ ''.fuse''))
                       source = Inr ()) (filter (\<lambda>t. \<not> dt_isStage t) projectTargets)"
    by (simp add: list_all_iff)
  from decompileSprites_writable[OF a' b'] obtain cs st4 where
    4: "decompileSprites denv archive (filter (\<lambda>t. \<not> dt_isStage t) projectTargets) st3 =
          Inr (cs, st4)"
    by (metis surj_pair)
  show ?thesis
    unfolding decompile_def using f 1 2 3 4 y by (simp add: Let_def)
qed

lemma decompile_Inr:
  assumes h: "decompile denv extensions projectTargets archive lib0 = Inr (config, st')"
  shows "\<exists>stageTarget. find dt_isStage projectTargets = Some stageTarget \<and>
           so_backdrops (pc_stage config) = keptCostumes archive (dt_costumes stageTarget) \<and>
           so_sounds (pc_stage config) = keptSounds archive (dt_sounds stageTarget) \<and>
           map tc_costumes (pc_targets config) =
             map (\<lambda>t. keptCostumes archive (dt_costumes t))
               (filter (\<lambda>t. \<not> dt_isStage t) projectTargets) \<and>
           map tc_sounds (pc_targets config) =
             map (\<lambda>t. keptSounds archive (dt_sounds t))
               (filter (\<lambda>t. \<not> dt_isStage t) projectTargets)"
proof -
  let ?st0 = "\<lparr>files = [], assetMapping = [], out = [], lib = lib0\<rparr>"
  from h obtain stageTarget where f: "find dt_isStage projectTargets = Some stageTarget"
    by (auto simp add: decompile_def split: option.splits)
  from h f obtain bs st1 where
    1: "extractCostumes denv archive ''backdrop_'' (dt_costumes stageTarget) ?st0 =
          Inr (bs, st1)"
    by (auto simp add: decompile_def split: sum.splits prod.splits)
  from h f 1 obtain ss st2 where
    2: "extractSounds denv archive ''sound_stage_'' (dt_sounds stageTarget) st1 =
          Inr (ss, st2)"
    by (auto simp add: decompile_def split: sum.splits prod.splits)
  from h f 1 2 obtain e st3 where
    3: "writeScript denv ''stage.fuse''
          (decompileStage denv stageTarget (globalVariableDeclarations stageTarget) st2) =
          Inr (e, st3)"
    by (auto simp add: decompile_def split: sum.splits prod.splits)
  from h f 1 2 3 obtain cs st4 where
    4: "decompileSprites denv archive (filter (\<lambda>t. \<not> dt_isStage t) projectTargets) st3 =
          Inr (cs, st4)"
    by (auto simp add: decompile_def split: sum.splits prod.splits)
  from h f 1 2 3 4
  have c: "so_backdrops (pc_stage config) = bs \<and> so_sounds (pc_stage config) = ss \<and>
           pc_targets config = cs"
    by (auto simp add: decompile_def Let_def split: sum.splits)
  from c f extractCostumes_Inr[OF 1] extractSounds_Inr[OF 2] decompileSprites_Inr[OF 4]
  show ?thesis by simp
qed


text \<open>
  C9. When the archive has no file under a storage key, \<open>extractAsset\<close> returns \<open>null\<close>
  and changes nothing. So the loops over the costumes and over the sounds of a target,
  and the whole run, go exactly as they would without the assets that have no file:
  nothing is raised or printed for them and the assets after them are processed. A
  loop that ends has made the entries of exactly the assets whose file the archive has,
  in order, and has printed nothing; so has a run that ends, for the stage and for
  every sprite. A loop ends when the files that are there can be read and written, and
  a run on an archive with a stage ends when, besides, its scripts and \<open>project.yaml\<close>
  can be written; an exception of reading or writing ends the run.
\<close>

theorem missing_blob_is_omitted:
  "(map_of archive key = None \<longrightarrow>
      extractAsset denv archive key newName st = Inr (None, st)) \<and>
   extractCostumes denv archive costumePrefix costumes st =
     extractCostumes denv archive costumePrefix
       (filter (\<lambda>c. map_of archive (dc_md5ext c) \<noteq> None) costumes) st \<and>
   extractSounds denv archive soundPrefix sounds st =
     extractSounds denv archive soundPrefix
       (filter (\<lambda>s. map_of archive (ds_md5ext s) \<noteq> None) sounds) st \<and>
   decompile denv extensions projectTargets archive lib0 =
     decompile denv extensions (map (withBlobs archive) projectTargets) archive lib0 \<and>
   (\<forall>entries st'.
      extractCostumes denv archive costumePrefix costumes st = Inr (entries, st') \<longrightarrow>
      entries = keptCostumes archive costumes \<and> out st' = out st) \<and>
   (\<forall>entries st'.
      extractSounds denv archive soundPrefix sounds st = Inr (entries, st') \<longrightarrow>
      entries = keptSounds archive sounds \<and> out st' = out st) \<and>
   (\<forall>config st'.
      decompile denv extensions projectTargets archive lib0 = Inr (config, st') \<longrightarrow>
      (\<exists>stageTarget.
         find dt_isStage projectTargets = Some stageTarget \<and>
         so_backdrops (pc_stage config) = keptCostumes archive (dt_costumes stageTarget) \<and>
         so_sounds (pc_stage config) = keptSounds archive (dt_sounds stageTarget) \<and>
         map tc_costumes (pc_targets config) =
           map (\<lambda>t. keptCostumes archive (dt_costumes t))
             (filter (\<lambda>t. \<not> dt_isStage t) projectTargets) \<and>
         map tc_sounds (pc_targets config) =
           map (\<lambda>t. keptSounds archive (dt_sounds t))
             (filter (\<lambda>t. \<not> dt_isStage t) projectTargets))) \<and>
   (extractable denv archive (map dc_md5ext costumes) \<longrightarrow>
      (\<exists>st'. extractCostumes denv archive costumePrefix costumes st =
               Inr (keptCostumes archive costumes, st'))) \<and>
   (extractable denv archive (map ds_md5ext sounds) \<longrightarrow>
      (\<exists>st'. extractSounds denv archive soundPrefix sounds st =
               Inr (keptSounds archive sounds, st'))) \<and>
   (writable denv archive projectTargets \<and> find dt_isStage projectTargets \<noteq> None \<longrightarrow>
      (\<exists>config st'.
         decompile denv extensions projectTargets archive lib0 = Inr (config, st')))"
proof -
  have 1: "map_of archive key = None \<longrightarrow>
             extractAsset denv archive key newName st = Inr (None, st)"
    by (simp add: extractAsset_missing)
  have 2: "decompile denv extensions projectTargets archive lib0 =
             decompile denv extensions (map (withBlobs archive) projectTargets) archive lib0"
    by (simp add: decompile_withBlobs)
  have 3: "\<forall>entries st'.
      extractCostumes denv archive costumePrefix costumes st = Inr (entries, st') \<longrightarrow>
      entries = keptCostumes archive costumes \<and> out st' = out st"
    using extractCostumes_Inr[of denv archive costumePrefix costumes st] by blast
  have 4: "\<forall>entries st'.
      extractSounds denv archive soundPrefix sounds st = Inr (entries, st') \<longrightarrow>
      entries = keptSounds archive sounds \<and> out st' = out st"
    using extractSounds_Inr[of denv archive soundPrefix sounds st] by blast
  have 5: "\<forall>config st'.
      decompile denv extensions projectTargets archive lib0 = Inr (config, st') \<longrightarrow>
      (\<exists>stageTarget.
         find dt_isStage projectTargets = Some stageTarget \<and>
         so_backdrops (pc_stage config) = keptCostumes archive (dt_costumes stageTarget) \<and>
         so_sounds (pc_stage config) = keptSounds archive (dt_sounds stageTarget) \<and>
         map tc_costumes (pc_targets config) =
           map (\<lambda>t. keptCostumes archive (dt_costumes t))
             (filter (\<lambda>t. \<not> dt_isStage t) projectTargets) \<and>
         map tc_sounds (pc_targets config) =
           map (\<lambda>t. keptSounds archive (dt_sounds t))
             (filter (\<lambda>t. \<not> dt_isStage t) projectTargets))"
    using decompile_Inr[of denv extensions projectTargets archive lib0] by blast
  have 6: "extractable denv archive (map dc_md5ext costumes) \<longrightarrow>
      (\<exists>st'. extractCostumes denv archive costumePrefix costumes st =
               Inr (keptCostumes archive costumes, st'))"
    using extractCostumes_extractable[of denv archive costumes costumePrefix st] by blast
  have 7: "extractable denv archive (map ds_md5ext sounds) \<longrightarrow>
      (\<exists>st'. extractSounds denv archive soundPrefix sounds st =
               Inr (keptSounds archive sounds, st'))"
    using extractSounds_extractable[of denv archive sounds soundPrefix st] by blast
  have 8: "writable denv archive projectTargets \<and> find dt_isStage projectTargets \<noteq> None \<longrightarrow>
      (\<exists>config st'.
         decompile denv extensions projectTargets archive lib0 = Inr (config, st'))"
    using decompile_writable[of denv archive projectTargets _ extensions lib0] by fastforce
  from 1 extractCostumes_filter[of denv archive costumePrefix costumes st]
    extractSounds_filter[of denv archive soundPrefix sounds st] 2 3 4 5 6 7 8
  show ?thesis by (intro conjI)
qed

lemmas archive_defs =
  example_denv_def example_target_def example_stageTarget_def example_spriteTarget_def
  example_costumes_def example_archive_def

text \<open>
  The theorem on the example archive, which has no file for the costume \<open>lost\<close> nor
  for the sound \<open>meow\<close> of the sprite: every file that is there can be read and
  written, the loop over the costumes gives \<open>cat\<close> and \<open>dog\<close>, and the run ends with
  these two costumes and no sound, as it does on the sprite without \<open>lost\<close> and
  \<open>meow\<close>. Under a storage key with a path separator the write fails, and so does
  \<open>extractAsset\<close>.
\<close>

theorem missing_blob_is_omitted_witness:
  "map_of example_archive ''bb.png'' = None \<and>
   extractAsset example_denv example_archive ''bb.png'' ''costume_Cat_lost''
     \<lparr>files = [], assetMapping = [], out = [], lib = 0\<rparr> =
     Inr (None, \<lparr>files = [], assetMapping = [], out = [], lib = 0\<rparr>) \<and>
   extractable example_denv example_archive (map dc_md5ext example_costumes) \<and>
   (\<exists>st'. extractCostumes example_denv example_archive ''costume_Cat_'' example_costumes
            \<lparr>files = [], assetMapping = [], out = [], lib = 0\<rparr> =
            Inr ([\<lparr>cc_name = ''cat'', cc_path = ''assets/aa.svg'', cc_x = 48, cc_y = 0\<rparr>,
                  \<lparr>cc_name = ''dog'', cc_path = ''assets/cc.png'', cc_x = 0, cc_y = 0\<rparr>], st') \<and>
            out st' = []) \<and>
   extractable example_denv example_archive [''dd.wav''] \<and>
   (\<exists>st'. extractSounds example_denv example_archive ''sound_Cat_''
            [\<lparr>ds_name = ''meow'', ds_md5ext = ''dd.wav''\<rparr>]
            \<lparr>files = [], assetMapping = [], out = [], lib = 0\<rparr> = Inr ([], st')) \<and>
   writable example_denv example_archive [example_stageTarget, example_spriteTarget] \<and>
   find dt_isStage [example_stageTarget, example_spriteTarget] = Some example_stageTarget \<and>
   (\<exists>config st'.
      decompile example_denv None [example_stageTarget, example_spriteTarget] example_archive 0 =
        Inr (config, st') \<and>
      decompile example_denv None
        [example_stageTarget,
         example_spriteTarget\<lparr>dt_costumes := [example_costumes ! 0, example_costumes ! 2],
                              dt_sounds := []\<rparr>] example_archive 0 =
        Inr (config, st') \<and>
      so_backdrops (pc_stage config) = [] \<and>
      map (map cc_name) (map tc_costumes (pc_targets config)) = [[''cat'', ''dog'']] \<and>
      map tc_sounds (pc_targets config) = [[]]) \<and>
   extractAsset example_denv [(''sub/aa.svg'', ''<svg/>'')] ''sub/aa.svg'' ''costume_Cat_cat''
     \<lparr>files = [], assetMapping = [], out = [], lib = 0\<rparr> =
     Inl ''ENOENT: no such file or directory''"
proof -
  let ?st = "\<lparr>files = [], assetMapping = [], out = [], lib = 0 :: nat\<rparr>"
  let ?ts = "[example_stageTarget, example_spriteTarget]"
  have m: "map_of example_archive ''bb.png'' = None" by (simp add: example_archive_def)
  have f: "find dt_isStage ?ts = Some example_stageTarget"
    by (simp add: archive_defs)
  have xc: "extractable example_denv example_archive (map dc_md5ext example_costumes)"
    by (simp add: archive_defs extractable_def)
  have xs: "extractable example_denv example_archive
              (map ds_md5ext [\<lparr>ds_name = ''meow'', ds_md5ext = ''dd.wav''\<rparr>])"
    by (simp add: archive_defs extractable_def)
  have w: "writable example_denv example_archive ?ts"
    by (simp add: archive_defs extractable_def writable_def safeName_def)
  have b: "map (withBlobs example_archive) ?ts =
             [example_stageTarget,
              example_spriteTarget\<lparr>dt_costumes := [example_costumes ! 0, example_costumes ! 2],
                                   dt_sounds := []\<rparr>]"
    by (simp add: archive_defs withBlobs_def)
  have e: "extractAsset example_denv [(''sub/aa.svg'', ''<svg/>'')] ''sub/aa.svg''
             ''costume_Cat_cat'' ?st = Inl ''ENOENT: no such file or directory''"
    by (simp add: example_denv_def extractAsset_def)
  note T = missing_blob_is_omitted[of example_archive "''bb.png''" example_denv
      "''costume_Cat_lost''" ?st "''costume_Cat_''" example_costumes "''sound_Cat_''"
      "[\<lparr>ds_name = ''meow'', ds_md5ext = ''dd.wav''\<rparr>]" None ?ts 0]
  note T1 = T[THEN conjunct1]
  note T4 = T[THEN conjunct2, THEN conjunct2, THEN conjunct2, THEN conjunct1]
  note T5 = T[THEN conjunct2, THEN conjunct2, THEN conjunct2, THEN conjunct2, THEN conjunct1]
  note T7 = T[THEN conjunct2, THEN conjunct2, THEN conjunct2, THEN conjunct2, THEN conjunct2,
      THEN conjunct2, THEN conjunct1]
  note T8 = T[THEN conjunct2, THEN conjunct2, THEN conjunct2, THEN conjunct2, THEN conjunct2,
      THEN conjunct2, THEN conjunct2, THEN conjunct1]
  note T9 = T[THEN conjunct2, THEN conjunct2, THEN conjunct2, THEN conjunct2, THEN conjunct2,
      THEN conjunct2, THEN conjunct2, THEN conjunct2, THEN conjunct1]
  note T10 = T[THEN conjunct2, THEN conjunct2, THEN conjunct2, THEN conjunct2, THEN conjunct2,
      THEN conjunct2, THEN conjunct2, THEN conjunct2, THEN conjunct2]
  from T1 m have a: "extractAsset example_denv example_archive ''bb.png'' ''costume_Cat_lost'' ?st =
                      Inr (None, ?st)" by (rule mp)
  from T8[THEN mp, OF xc] obtain st1 where
    c: "extractCostumes example_denv example_archive ''costume_Cat_'' example_costumes ?st =
          Inr (keptCostumes example_archive example_costumes, st1)"
    by (rule exE)
  from T5[THEN spec, THEN spec, THEN mp, OF c] have co: "out st1 = out ?st" by (rule conjunct2)
  have ck: "keptCostumes example_archive example_costumes =
              [\<lparr>cc_name = ''cat'', cc_path = ''assets/aa.svg'', cc_x = 48, cc_y = 0\<rparr>,
               \<lparr>cc_name = ''dog'', cc_path = ''assets/cc.png'', cc_x = 0, cc_y = 0\<rparr>]"
    by (simp add: archive_defs keptCostumes_def kept_def orDefault_def)
  from T9[THEN mp, OF xs] obtain st2 where
    s: "extractSounds example_denv example_archive ''sound_Cat_''
          [\<lparr>ds_name = ''meow'', ds_md5ext = ''dd.wav''\<rparr>] ?st =
          Inr (keptSounds example_archive [\<lparr>ds_name = ''meow'', ds_md5ext = ''dd.wav''\<rparr>], st2)"
    by (rule exE)
  have sk: "keptSounds example_archive [\<lparr>ds_name = ''meow'', ds_md5ext = ''dd.wav''\<rparr>] = []"
    by (simp add: archive_defs keptSounds_def kept_def)
  from f have f': "find dt_isStage ?ts \<noteq> None" by simp
  from T10[THEN mp, OF conjI[OF w f']] obtain config st' where
    d: "decompile example_denv None ?ts example_archive 0 = Inr (config, st')"
    by (elim exE)
  from T4 d have d': "decompile example_denv None (map (withBlobs example_archive) ?ts)
                       example_archive 0 = Inr (config, st')"
    by simp
  from T7[THEN spec, THEN spec, THEN mp, OF d] obtain stageTarget where
    k0: "find dt_isStage ?ts = Some stageTarget"
    and k: "so_backdrops (pc_stage config) =
                        keptCostumes example_archive (dt_costumes stageTarget)"
    "map tc_costumes (pc_targets config) =
       map (\<lambda>t. keptCostumes example_archive (dt_costumes t))
         (filter (\<lambda>t. \<not> dt_isStage t) ?ts)"
    "map tc_sounds (pc_targets config) =
       map (\<lambda>t. keptSounds example_archive (dt_sounds t))
         (filter (\<lambda>t. \<not> dt_isStage t) ?ts)"
    by (elim exE conjE)
  from k0 f have k0': "stageTarget = example_stageTarget" by simp
  have k1: "so_backdrops (pc_stage config) = []"
    unfolding k k0' by (simp add: archive_defs keptCostumes_def)
  have k2: "map (map cc_name) (map tc_costumes (pc_targets config)) = [[''cat'', ''dog'']]"
    unfolding k by (simp add: archive_defs keptCostumes_def kept_def)
  have k3: "map tc_sounds (pc_targets config) = [[]]"
    unfolding k by (simp add: archive_defs keptSounds_def kept_def)
  have xs': "extractable example_denv example_archive [''dd.wav'']" using xs by simp
  have P1: "\<exists>st'. extractCostumes example_denv example_archive ''costume_Cat_'' example_costumes ?st =
            Inr ([\<lparr>cc_name = ''cat'', cc_path = ''assets/aa.svg'', cc_x = 48, cc_y = 0\<rparr>,
                  \<lparr>cc_name = ''dog'', cc_path = ''assets/cc.png'', cc_x = 0, cc_y = 0\<rparr>], st') \<and>
            out st' = []"
    using c co ck by simp
  have P2: "\<exists>st'. extractSounds example_denv example_archive ''sound_Cat_''
            [\<lparr>ds_name = ''meow'', ds_md5ext = ''dd.wav''\<rparr>] ?st = Inr ([], st')"
    using s sk by simp
  have P3: "\<exists>config st'.
      decompile example_denv None ?ts example_archive 0 = Inr (config, st') \<and>
      decompile example_denv None
        [example_stageTarget,
         example_spriteTarget\<lparr>dt_costumes := [example_costumes ! 0, example_costumes ! 2],
                              dt_sounds := []\<rparr>] example_archive 0 =
        Inr (config, st') \<and>
      so_backdrops (pc_stage config) = [] \<and>
      map (map cc_name) (map tc_costumes (pc_targets config)) = [[''cat'', ''dog'']] \<and>
      map tc_sounds (pc_targets config) = [[]]"
    using d d' k1 k2 k3 unfolding b by (intro exI[of _ config] exI[of _ st'] conjI)
  from m a xc P1 xs' P2 w f P3 e show ?thesis by (intro conjI)
qed

lemma decompileFunctions_append:
  "decompileFunctions denv (xs @ ys) d =
     (case decompileFunctions denv xs d of
        (d1, nodes1, warnings1) \<Rightarrow>
          (case decompileFunctions denv ys d1 of
             (d2, nodes2, warnings2) \<Rightarrow> (d2, nodes1 @ nodes2, warnings1 @ warnings2)))"
  by (induction xs arbitrary: d) (auto split: prod.splits sum.splits)

lemma decompileScripts_append:
  "decompileScripts denv (xs @ ys) d =
     (case decompileScripts denv xs d of
        (d1, nodes1, warnings1) \<Rightarrow>
          (case decompileScripts denv ys d1 of
             (d2, nodes2, warnings2) \<Rightarrow> (d2, nodes1 @ nodes2, warnings1 @ warnings2)))"
  by (induction xs arbitrary: d) (auto split: prod.splits sum.splits)

lemma decompileFunctions_skip:
  assumes "decompileFunctions denv fs1 d = (d1, nodes1, warnings1)"
    and "decompileFunction denv d1 f = (d2, Inl err)"
    and "decompileFunctions denv fs2 d2 = (d3, nodes2, warnings2)"
  shows "decompileFunctions denv (fs1 @ f # fs2) d =
           (d3, nodes1 @ nodes2,
            warnings1 @
            Warning (''Could not decompile function '' @ proccode denv f @ '': '' @ err) #
            warnings2)"
  using assms by (simp add: decompileFunctions_append)

lemma decompileScripts_skip:
  assumes "decompileScripts denv ss1 d = (d1, nodes1, warnings1)"
    and "decompileScript denv d1 s = (d2, Inl err)"
    and "decompileScripts denv ss2 d2 = (d3, nodes2, warnings2)"
  shows "decompileScripts denv (ss1 @ s # ss2) d =
           (d3, nodes1 @ nodes2,
            warnings1 @ Warning (''Could not decompile script: '' @ err) # warnings2)"
  using assms by (simp add: decompileScripts_append)

lemma decompileFunctions_count:
  "decompileFunctions denv fs d = (d', nodes, warnings) \<Longrightarrow>
   length nodes + length warnings = length fs"
proof (induction fs arbitrary: d d' nodes warnings)
  case Nil
  then show ?case by simp
next
  case (Cons f fs)
  obtain d1 r where s: "decompileFunction denv d f = (d1, r)"
    by (cases "decompileFunction denv d f")
  obtain d2 ns ws where rest: "decompileFunctions denv fs d1 = (d2, ns, ws)"
    by (cases "decompileFunctions denv fs d1")
  from Cons.IH[OF rest] have "length ns + length ws = length fs" .
  with Cons.prems s rest show ?case by (cases r) auto
qed

text \<open>
  C8. Take a target whose blocks are deserialized, whose decompiler is created and whose
  variable declarations are decompiled without an exception, and whose program is
  printed. Then \<open>decompileTarget\<close> (for a body that is not empty) and \<open>decompileStage\<close>
  return the printed source, however many functions or scripts failed: the body holds the
  declarations of the variables, then the nodes of the function loop, then those of the
  script loop, and the warnings of both loops are printed. Every function is either in
  the body or warned about. When the decompilation of one function throws, the nodes of
  the loop are those of the functions before it followed by those of the functions after
  it, and one warning for it is printed between theirs; the same holds for a script that
  throws.
\<close>

theorem failed_unit_is_skipped:
  assumes scripts: "deserializeAllScripts denv ws = Inr scripts"
    and funcs: "deserializeAllFunctions denv ws = Inr functions"
    and created: "createDecompiler denv (lib st) (map fst decls) functions = Inr d0"
    and declared: "decompileVariables denv decls d0 = (d1, Inr varNodes)"
    and loop1: "decompileFunctions denv functions d1 = (d2, funcNodes, warnings1)"
    and loop2: "decompileScripts denv scripts d2 = (d3, scriptNodes, warnings2)"
    and printed: "toSource denv (moduleNodes denv d3 @
                    map Declaration (varNodes @ funcNodes @ scriptNodes)) = Inr sourceCode"
    and st': "st' = st\<lparr>lib := d3,
                        out := out st @ Found (length scripts) (length functions) #
                               warnings1 @ warnings2\<rparr>"
  shows "(ws = dt_blocks target \<and> decls = localDeclarations target \<and>
          (varNodes @ funcNodes @ scriptNodes \<noteq> [] \<or> moduleNodes denv d3 \<noteq> []) \<longrightarrow>
            decompileTarget denv target st = (Some sourceCode, st')) \<and>
         (ws = Some (orElse (dt_blocks stageTarget) []) \<longrightarrow>
            decompileStage denv stageTarget decls st = (Some sourceCode, st')) \<and>
         length funcNodes + length warnings1 = length functions \<and>
         (\<forall>fs1 f fs2 e1 e2 e3 err nodes1 nodes2 w1 w2.
            functions = fs1 @ f # fs2 \<and>
            decompileFunctions denv fs1 d1 = (e1, nodes1, w1) \<and>
            decompileFunction denv e1 f = (e2, Inl err) \<and>
            decompileFunctions denv fs2 e2 = (e3, nodes2, w2) \<longrightarrow>
            funcNodes = nodes1 @ nodes2 \<and>
            warnings1 =
              w1 @ Warning (''Could not decompile function '' @ proccode denv f @ '': '' @ err)
                     # w2) \<and>
         (\<forall>ss1 s ss2 e1 e2 e3 err nodes1 nodes2 w1 w2.
            scripts = ss1 @ s # ss2 \<and>
            decompileScripts denv ss1 d2 = (e1, nodes1, w1) \<and>
            decompileScript denv e1 s = (e2, Inl err) \<and>
            decompileScripts denv ss2 e2 = (e3, nodes2, w2) \<longrightarrow>
            scriptNodes = nodes1 @ nodes2 \<and>
            warnings2 = w1 @ Warning (''Could not decompile script: '' @ err) # w2)"
proof (intro conjI impI allI)
  assume a: "ws = dt_blocks target \<and> decls = localDeclarations target \<and>
          (varNodes @ funcNodes @ scriptNodes \<noteq> [] \<or> moduleNodes denv d3 \<noteq> [])"
  then have "\<not> (varNodes @ funcNodes @ scriptNodes = [] \<and> moduleNodes denv d3 = [])" by blast
  with a scripts funcs created declared loop1 loop2 printed st'
  show "decompileTarget denv target st = (Some sourceCode, st')"
    by (simp add: decompileTarget_def print_def Let_def del: append_is_Nil_conv)
next
  assume "ws = Some (orElse (dt_blocks stageTarget) [])"
  with scripts funcs created declared loop1 loop2 printed st'
  show "decompileStage denv stageTarget decls st = (Some sourceCode, st')"
    by (simp add: decompileStage_def print_def Let_def)
next
  show "length funcNodes + length warnings1 = length functions"
    using loop1 by (rule decompileFunctions_count)
next
  fix fs1 f fs2 e1 e2 e3 err nodes1 nodes2 w1 w2
  assume h: "functions = fs1 @ f # fs2 \<and>
            decompileFunctions denv fs1 d1 = (e1, nodes1, w1) \<and>
            decompileFunction denv e1 f = (e2, Inl err) \<and>
            decompileFunctions denv fs2 e2 = (e3, nodes2, w2)"
  then have "decompileFunctions denv (fs1 @ f # fs2) d1 =
           (e3, nodes1 @ nodes2,
            w1 @ Warning (''Could not decompile function '' @ proccode denv f @ '': '' @ err) # w2)"
    using decompileFunctions_skip[of denv fs1 d1 e1 nodes1 w1 f e2 err fs2 e3 nodes2 w2] by blast
  with h loop1 show "funcNodes = nodes1 @ nodes2"
    and "warnings1 =
              w1 @ Warning (''Could not decompile function '' @ proccode denv f @ '': '' @ err)
                     # w2" by simp_all
next
  fix ss1 s ss2 e1 e2 e3 err nodes1 nodes2 w1 w2
  assume h: "scripts = ss1 @ s # ss2 \<and>
            decompileScripts denv ss1 d2 = (e1, nodes1, w1) \<and>
            decompileScript denv e1 s = (e2, Inl err) \<and>
            decompileScripts denv ss2 e2 = (e3, nodes2, w2)"
  then have "decompileScripts denv (ss1 @ s # ss2) d2 =
           (e3, nodes1 @ nodes2, w1 @ Warning (''Could not decompile script: '' @ err) # w2)"
    using decompileScripts_skip[of denv ss1 d2 e1 nodes1 w1 s e2 err ss2 e3 nodes2 w2] by blast
  with h loop2 show "scriptNodes = nodes1 @ nodes2"
    and "warnings2 = w1 @ Warning (''Could not decompile script: '' @ err) # w2" by simp_all
qed

text \<open>
  The theorem on the sprite of the example archive: the second of its three functions and
  the first of its two scripts fail; the source holds the other two functions and the
  other script, and two warnings are printed.
\<close>

theorem failed_unit_is_skipped_witness:
  "deserializeAllFunctions example_denv (dt_blocks example_spriteTarget) =
     Inr ([''define jump''] @ ''define broken'' # [''define run'']) \<and>
   decompileFunction example_denv 4 ''define broken'' = (4, Inl ''unknown opcode'') \<and>
   deserializeAllScripts example_denv (dt_blocks example_spriteTarget) =
     Inr ([] @ ''when broken'' # [''when clicked'']) \<and>
   decompileScript example_denv 5 ''when broken'' = (5, Inl ''unknown opcode'') \<and>
   decompileTarget example_denv example_spriteTarget
     \<lparr>files = [], assetMapping = [], out = [], lib = 0\<rparr> =
     (Some ''var score; var steps; var score; fn jump; fn run; on clicked; '',
      \<lparr>files = [], assetMapping = [],
       out = [Found 2 3,
              Warning ''Could not decompile function broken: unknown opcode'',
              Warning ''Could not decompile script: unknown opcode''],
       lib = 6\<rparr>)"
proof -
  let ?st = "\<lparr>files = [], assetMapping = [], out = [], lib = 0 :: nat\<rparr>"
  let ?ws = "dt_blocks example_spriteTarget"
  let ?decls = "localDeclarations example_spriteTarget"
  let ?fs = "[''define jump''] @ ''define broken'' # [''define run'']"
  let ?ss = "[] @ ''when broken'' # [''when clicked'']"
  let ?vars = "[''var score'', ''var steps'', ''var score'']"
  let ?w1 = "[Warning ''Could not decompile function broken: unknown opcode'']"
  let ?w2 = "[Warning ''Could not decompile script: unknown opcode'']"
  let ?src = "''var score; var steps; var score; fn jump; fn run; on clicked; ''"
  let ?st' = "\<lparr>files = [], assetMapping = [],
       out = [Found 2 3,
              Warning ''Could not decompile function broken: unknown opcode'',
              Warning ''Could not decompile script: unknown opcode''],
       lib = 6 :: nat\<rparr>"
  have h1: "deserializeAllScripts example_denv ?ws = Inr ?ss"
    and h2: "deserializeAllFunctions example_denv ?ws = Inr ?fs"
    and h3: "createDecompiler example_denv (lib ?st) (map fst ?decls) ?fs = Inr 0"
    by (simp_all add: archive_defs)
  have h4: "decompileVariables example_denv ?decls 0 = (3, Inr ?vars)"
    by (simp add: archive_defs localDeclarations_def declarationsOf_def numeral_3_eq_3)
  have h5: "decompileFunctions example_denv ?fs 3 = (5, [''fn jump'', ''fn run''], ?w1)"
    by (simp add: example_denv_def eval_nat_numeral)
  have h6: "decompileScripts example_denv ?ss 5 = (6, [''on clicked''], ?w2)"
    by (simp add: example_denv_def eval_nat_numeral)
  have h7: "toSource example_denv (moduleNodes example_denv 6 @
              map Declaration (?vars @ [''fn jump'', ''fn run''] @ [''on clicked''])) = Inr ?src"
    by (simp add: example_denv_def moduleNodes_def)
  have h8: "?st' = ?st\<lparr>lib := 6, out := out ?st @ Found (length ?ss) (length ?fs) # ?w1 @ ?w2\<rparr>"
    by simp
  have f: "decompileFunction example_denv 4 ''define broken'' = (4, Inl ''unknown opcode'')"
    and s: "decompileScript example_denv 5 ''when broken'' = (5, Inl ''unknown opcode'')"
    by (simp_all add: example_denv_def)
  from failed_unit_is_skipped[OF h1 h2 h3 h4 h5 h6 h7 h8, of example_spriteTarget]
  have "decompileTarget example_denv example_spriteTarget ?st = (Some ?src, ?st')"
    by simp
  with h1 h2 f s show ?thesis by simp
qed


lemma decompileVariables_length:
  "decompileVariables denv decls d = (d', Inr nodes) \<Longrightarrow> length nodes = length decls"
proof (induction decls arbitrary: d d' nodes)
  case Nil
  then show ?case by simp
next
  case (Cons p decls)
  obtain v val where p: "p = (v, val)" by (cases p)
  from Cons.prems obtain d1 n d2 ns where
    "decompileVariable denv d v val = (d1, Inr n)"
    "decompileVariables denv decls d1 = (d2, Inr ns)" "nodes = n # ns"
    by (auto simp: p split: prod.splits sum.splits)
  with Cons.IH show ?case by fastforce
qed




lemma plain_simps:
  "plain (Found n m)" "plain (Failure x)" "plain (Warning (CHR ''C'' # s))"
  by (simp_all add: plain_def conflictWarning_def)

lemma failed_out:
  "\<exists>new. out (snd (failed what err st)) = out st @ new \<and> (\<forall>l \<in> set new. plain l)"
  by (simp add: failed_def print_def plain_simps)

lemma print_out: "out (print ls st) = out st @ ls"
  by (simp add: print_def)









lemma collect_old_None:
  "fst (collect_old es None vs) = None"
  by (induction es arbitrary: vs) (auto split: prod.splits)

lemma collect_old_Some:
  "\<exists>g' vs'. collect_old es (Some g) vs = (Some g', vs') \<and>
     set (keys g') = set (keys g) \<union> set [k. (k, v, d) \<leftarrow> es, var_isGlobal v] \<and>
     set (keys vs') = set (keys vs) \<union> set [k. (k, v, d) \<leftarrow> es, \<not> var_isGlobal v]"
proof (induction es arbitrary: g vs)
  case Nil
  then show ?case by simp
next
  case (Cons e es)
  obtain i v d where e: "e = (i, v, d)" by (cases e)
  show ?case
  proof (cases "var_isGlobal v")
    case True
    from Cons.IH[of "AList.update i (v, d) g" vs] show ?thesis
      using True e by (auto simp: keys_update)
  next
    case False
    from Cons.IH[of g "AList.update i (v, d) vs"] show ?thesis
      using False e by (auto simp: keys_update)
  qed
qed

text \<open>
  The older script \<open>src/unnamed/part_000\<close>, for a script that is read and parsed and
  whose variables \<open>getProgramInfo\<close> returns. Without an entry script it returns the
  empty workspace and changes nothing. For a sprite it adds the variables declared global
  to the table of globals and the others to the sprite's own table, under the keys of
  the entries. For the stage it always ends in a \<open>TypeError\<close>: the combined scope is
  built from \<open>stageVariables.entries()\<close>, and \<open>stageVariables\<close> is \<open>null\<close> there.
\<close>

theorem compileScript_old_behaviour:
  assumes "e \<noteq> []"
    and "o_readFileSync env (fullPathOf_old env e) = Some src"
    and "o_parse env src = Inr program"
    and "getProgramInfo env program = Inr (infoVariables, infoNamespaces)"
  shows "compileScript_old env None base sv vs reads = Inr (EmptyWorkspace, sv, vs, reads) \<and>
         compileScript_old env (Some []) base sv vs reads = Inr (EmptyWorkspace, sv, vs, reads) \<and>
         compileScript_old env (Some e) base None vs reads =
           Inl (TypeError ''stageVariables is null'') \<and>
         (\<forall>ws sv' vs' reads'.
            compileScript_old env (Some e) base (Some g) vs reads = Inr (ws, sv', vs', reads') \<longrightarrow>
            (\<exists>g'. sv' = Some g' \<and>
               set (keys g') =
                 set (keys g) \<union> set [k. (k, v, d) \<leftarrow> infoVariables, var_isGlobal v] \<and>
               set (keys vs') =
                 set (keys vs) \<union> set [k. (k, v, d) \<leftarrow> infoVariables, \<not> var_isGlobal v]))"
proof (intro conjI allI impI)
  show "compileScript_old env None base sv vs reads = Inr (EmptyWorkspace, sv, vs, reads)"
    and "compileScript_old env (Some []) base sv vs reads = Inr (EmptyWorkspace, sv, vs, reads)"
    by (simp_all add: compileScript_old_def)
next
  let ?marked = "map (\<lambda>(key, v, d). (key, v\<lparr>var_isGlobal := True\<rparr>, d)) infoVariables"
  obtain x y where c: "collect_old ?marked None vs = (x, y)"
    by (cases "collect_old ?marked None vs")
  with collect_old_None[of ?marked vs] have "x = None" by simp
  with c assms show "compileScript_old env (Some e) base None vs reads =
           Inl (TypeError ''stageVariables is null'')"
    by (simp add: compileScript_old_def Let_def)
next
  fix ws sv' vs' reads'
  assume r: "compileScript_old env (Some e) base (Some g) vs reads = Inr (ws, sv', vs', reads')"
  from collect_old_Some[of infoVariables g vs] obtain g' vs1 where
    c: "collect_old infoVariables (Some g) vs = (Some g', vs1)"
    and k1: "set (keys g') =
      set (keys g) \<union> set [k. (k, v, d) \<leftarrow> infoVariables, var_isGlobal v]"
    and k2: "set (keys vs1) =
      set (keys vs) \<union> set [k. (k, v, d) \<leftarrow> infoVariables, \<not> var_isGlobal v]"
    by blast
  from r c assms have "sv' = Some g'" and "vs' = vs1"
    by (auto simp: compileScript_old_def Let_def split: sum.splits)
  with k1 k2 show "\<exists>g'. sv' = Some g' \<and>
               set (keys g') =
                 set (keys g) \<union> set [k. (k, v, d) \<leftarrow> infoVariables, var_isGlobal v] \<and>
               set (keys vs') =
                 set (keys vs) \<union> set [k. (k, v, d) \<leftarrow> infoVariables, \<not> var_isGlobal v]"
    by blast
qed

text \<open>
  The theorem on the example project: the stage script ends in the \<open>TypeError\<close>, and
  the second sprite adds \<open>lives\<close> to the globals and \<open>trail\<close> to its own table.
\<close>

theorem compileScript_old_behaviour_witness:
  "compileScript_old example_old_env (Some ''stage.fuse'') [] None [] [] =
     Inl (TypeError ''stageVariables is null'') \<and>
   (\<exists>ws g' vs' reads'.
      compileScript_old example_old_env (Some ''keeper.fuse'') []
        (Some [(''score'', example_var ''scalar'' ''score'' True, Num 0)]) [] [] =
        Inr (ws, Some g', vs', reads') \<and>
      set (keys g') = {''lives'', ''score''} \<and> set (keys vs') = {''trail''})"
proof -
  let ?env = example_old_env
  let ?g = "[(''score'', example_var ''scalar'' ''score'' True, Num 0)]"
  let ?is = "[(''score'', example_var ''scalar'' ''score'' False, Num 0)]"
  let ?ik = "[(''lives'', example_var ''scalar'' ''lives'' True, Num 3),
              (''trail'', example_var ''list'' ''trail'' False, Undefined)]"
  have s1: "o_readFileSync ?env (fullPathOf_old ?env ''stage.fuse'') = Some ''stage script''"
    and s2: "o_parse ?env ''stage script'' = Inr ''stage script''"
    and s3: "getProgramInfo ?env ''stage script'' = Inr (?is, [])"
    by (simp_all add: example_old_env_def example_scripts_def example_var_def fullPathOf_old_def)
  have k1: "o_readFileSync ?env (fullPathOf_old ?env ''keeper.fuse'') = Some ''keeper script''"
    and k2: "o_parse ?env ''keeper script'' = Inr ''keeper script''"
    and k3: "getProgramInfo ?env ''keeper script'' = Inr (?ik, [])"
    by (simp_all add: example_old_env_def example_scripts_def example_var_def fullPathOf_old_def)
  from compileScript_old_behaviour[OF _ s1 s2 s3, of "[]" None "[]" "[]"]
  have A: "compileScript_old ?env (Some ''stage.fuse'') [] None [] [] =
             Inl (TypeError ''stageVariables is null'')" by simp
  have run: "\<exists>ws g' vs' reads'.
      compileScript_old ?env (Some ''keeper.fuse'') [] (Some ?g) [] [] =
        Inr (ws, Some g', vs', reads')"
    by (simp add: compileScript_old_def example_old_env_def example_scripts_def example_var_def
                  mergeNamespaces_def new_Map_def Let_def fullPathOf_old_def)
  then obtain ws g' vs' reads' where
    r: "compileScript_old ?env (Some ''keeper.fuse'') [] (Some ?g) [] [] =
          Inr (ws, Some g', vs', reads')" by blast
  from compileScript_old_behaviour[OF _ k1 k2 k3, of "[]" None "[]" "[]" ?g] r
  have "set (keys g') = set (keys ?g) \<union> set [k. (k, v, d) \<leftarrow> ?ik, var_isGlobal v]"
    and "set (keys vs') =
           set (keys ([] :: var_map)) \<union> set [k. (k, v, d) \<leftarrow> ?ik, \<not> var_isGlobal v]"
    by auto
  then have "set (keys g') = {''lives'', ''score''}" and "set (keys vs') = {''trail''}"
    by (simp_all add: keys_def example_var_def)
  with A r show ?thesis by blast
qed

text \<open>
  When the declarations of a sprite do not reach a source. A sprite whose table of
  blocks is missing or empty is not decompiled: \<open>decompileSprite\<close> gives it no entry
  script and prints nothing, whatever its tables of variables and lists hold. And when
  \<open>decompileVariable\<close> throws for one of the declarations, \<open>decompileTarget\<close> returns
  \<open>null\<close> after the two lines of the outer \<open>catch\<close>.
\<close>

theorem no_source_without_blocks:
  fixes st :: "'d dstate"
  shows "((dt_blocks target = None \<or> dt_blocks target = Some []) \<longrightarrow>
            (\<forall>config st'.
               decompileSprite denv archive target st = Inr (config, st') \<longrightarrow>
               tc_entry config = None \<and> out st' = out st)) \<and>
         (\<forall>scripts funcs d0 d1 err.
            deserializeAllScripts denv (dt_blocks target) = Inr scripts \<and>
            deserializeAllFunctions denv (dt_blocks target) = Inr funcs \<and>
            createDecompiler denv (lib st) (map fst (localDeclarations target)) funcs = Inr d0 \<and>
            decompileVariables denv (localDeclarations target) d0 = (d1, Inl err) \<longrightarrow>
            fst (decompileTarget denv target st) = None \<and>
            out (snd (decompileTarget denv target st)) =
              out st @ [Found (length scripts) (length funcs),
                        Failure (''Error decompiling target: '' @ err), Failure err])"
proof (intro conjI impI allI)
  fix config st'
  assume b: "dt_blocks target = None \<or> dt_blocks target = Some []"
    and r: "decompileSprite denv archive target st = Inr (config, st')"
  from r obtain cs st1 where
    c: "extractCostumes denv archive (''costume_'' @ dt_name target @ ''_'')
          (dt_costumes target) st = Inr (cs, st1)"
    by (auto simp add: decompileSprite_def split: sum.splits prod.splits)
  with r obtain ss st2 where
    s: "extractSounds denv archive (''sound_'' @ dt_name target @ ''_'')
          (dt_sounds target) st1 = Inr (ss, st2)"
    by (auto simp add: decompileSprite_def split: sum.splits prod.splits)
  from r c s b have e: "tc_entry config = None" and st': "st' = st2"
    by (auto simp add: decompileSprite_def)
  from extractCostumes_Inr[OF c] extractSounds_Inr[OF s] st'
  have "out st' = out st" by simp
  with e show "tc_entry config = None" and "out st' = out st" by simp_all
next
  fix scripts funcs d0 d1 err
  assume h: "deserializeAllScripts denv (dt_blocks target) = Inr scripts \<and>
            deserializeAllFunctions denv (dt_blocks target) = Inr funcs \<and>
            createDecompiler denv (lib st) (map fst (localDeclarations target)) funcs = Inr d0 \<and>
            decompileVariables denv (localDeclarations target) d0 = (d1, Inl err)"
  then have t: "decompileTarget denv target st =
                  failed ''Error decompiling target: '' err
                    ((print [Found (length scripts) (length funcs)] st)\<lparr>lib := d1\<rparr>)"
    by (simp add: decompileTarget_def print_def Let_def)
  show "fst (decompileTarget denv target st) = None"
    unfolding t by (simp add: failed_def)
  show "out (snd (decompileTarget denv target st)) =
              out st @ [Found (length scripts) (length funcs),
                        Failure (''Error decompiling target: '' @ err), Failure err]"
    unfolding t by (simp add: failed_def print_def)
qed

text \<open>
  The theorem on the example archive: a sprite with the scalar \<open>hidden\<close> and no
  blocks gets no script, and the sprite \<open>Cat\<close> gets no source from a library that
  cannot decompile the declaration of \<open>steps\<close>.
\<close>

theorem no_source_without_blocks_witness:
  "dt_blocks ((example_target False ''Ghost'')
                \<lparr>dt_variables := Some [(''id9'', ''hidden'', Num 1)]\<rparr>) = None \<and>
   (\<exists>config.
      decompileSprite example_denv example_archive
        ((example_target False ''Ghost'')\<lparr>dt_variables := Some [(''id9'', ''hidden'', Num 1)]\<rparr>)
        \<lparr>files = [], assetMapping = [], out = [], lib = 0\<rparr> =
        Inr (config, \<lparr>files = [], assetMapping = [], out = [], lib = 0\<rparr>) \<and>
      tc_entry config = None) \<and>
   decompileVariables
     (example_denv\<lparr>decompileVariable :=
        (\<lambda>d v val. if var_name v = ''steps'' then (d, Inl ''bad value'')
                   else (Suc d, Inr (''var '' @ var_name v)))\<rparr>)
     (localDeclarations example_spriteTarget) 0 = (1, Inl ''bad value'') \<and>
   decompileTarget
     (example_denv\<lparr>decompileVariable :=
        (\<lambda>d v val. if var_name v = ''steps'' then (d, Inl ''bad value'')
                   else (Suc d, Inr (''var '' @ var_name v)))\<rparr>)
     example_spriteTarget \<lparr>files = [], assetMapping = [], out = [], lib = 0\<rparr> =
     (None, \<lparr>files = [], assetMapping = [],
             out = [Found 2 3, Failure ''Error decompiling target: bad value'',
                    Failure ''bad value''],
             lib = 1\<rparr>)"
proof -
  let ?ghost = "(example_target False ''Ghost'')
                  \<lparr>dt_variables := Some [(''id9'', ''hidden'', Num 1)]\<rparr>"
  let ?init = "\<lparr>files = [], assetMapping = [], out = [], lib = 0 :: nat\<rparr>"
  let ?env = "example_denv\<lparr>decompileVariable :=
        (\<lambda>d v val. if var_name v = ''steps'' then (d, Inl ''bad value'')
                   else (Suc d, Inr (''var '' @ var_name v)))\<rparr>"
  have b: "dt_blocks ?ghost = None" by (simp add: archive_defs)
  then have b': "dt_blocks ?ghost = None \<or> dt_blocks ?ghost = Some []" by simp
  obtain config where
    r: "decompileSprite example_denv example_archive ?ghost ?init = Inr (config, ?init)"
    by (simp add: archive_defs decompileSprite_def)
  from no_source_without_blocks[of ?ghost example_denv example_archive ?init,
      THEN conjunct1, THEN mp, OF b', THEN spec, THEN spec, THEN mp, OF r]
  have e: "tc_entry config = None" by (rule conjunct1)
  have h: "deserializeAllScripts ?env (dt_blocks example_spriteTarget) =
             Inr [''when broken'', ''when clicked''] \<and>
           deserializeAllFunctions ?env (dt_blocks example_spriteTarget) =
             Inr [''define jump'', ''define broken'', ''define run''] \<and>
           createDecompiler ?env (lib ?init) (map fst (localDeclarations example_spriteTarget))
             [''define jump'', ''define broken'', ''define run''] = Inr 0 \<and>
           decompileVariables ?env (localDeclarations example_spriteTarget) 0 =
             (1, Inl ''bad value'')"
    by (simp add: archive_defs localDeclarations_def declarationsOf_def)
  from no_source_without_blocks[of example_spriteTarget ?env example_archive ?init,
      THEN conjunct2, THEN spec, THEN spec, THEN spec, THEN spec, THEN spec, THEN mp, OF h]
  have f: "fst (decompileTarget ?env example_spriteTarget ?init) = None"
    and o: "out (snd (decompileTarget ?env example_spriteTarget ?init)) =
              out ?init @ [Found (length [''when broken'', ''when clicked''])
                            (length [''define jump'', ''define broken'', ''define run'']),
                        Failure (''Error decompiling target: '' @ ''bad value''),
                        Failure ''bad value'']"
    by blast+
  have t: "decompileTarget ?env example_spriteTarget ?init =
     (None, \<lparr>files = [], assetMapping = [],
             out = [Found 2 3, Failure ''Error decompiling target: bad value'',
                    Failure ''bad value''],
             lib = 1\<rparr>)"
    by (simp add: archive_defs decompileTarget_def localDeclarations_def declarationsOf_def
                  failed_def print_def Let_def)
  from h have v: "decompileVariables ?env (localDeclarations example_spriteTarget) 0 =
             (1, Inl ''bad value'')" by blast
  from r e have P: "\<exists>config.
      decompileSprite example_denv example_archive ?ghost ?init = Inr (config, ?init) \<and>
      tc_entry config = None" by blast
  from b P v t show ?thesis by (intro conjI)
qed

end
